(* ===== verification/Prelude.thy ===== *)
theory Prelude
  imports Complex_Main "HOL-Library.Sublist" "HOL-Library.Multiset"
begin

text \<open>
  Shared vocabulary of the development: the representation of Flask's request
  dictionaries, the lemma collections the component theories fill, and generic
  facts on row lookup (\<open>find\<close> over a table kept as a list of rows) and on the
  descending ordering used by every listing query.
\<close>

named_theorems handler_defs "definitions of request handlers, unfolded together"
named_theorems store_simps "rewrite rules for queries and commits on the store"

text \<open>
  \<open>request.form\<close> and \<open>request.args\<close> are Werkzeug \<open>MultiDict\<close>s; \<open>.get(k)\<close>
  returns the first value stored under \<open>k\<close>, or \<open>None\<close>. An association list read
  with \<open>map_of\<close> has exactly that behaviour.
\<close>

type_synonym form = "(string \<times> string) list"

abbreviation form_get :: "form \<Rightarrow> string \<Rightarrow> string option" where
  "form_get f k \<equiv> map_of f k"

subsection \<open>Row lookup in a table\<close>

lemma find_SomeD [dest]: "find P xs = Some x \<Longrightarrow> x \<in> set xs \<and> P x"
  by (induction xs) (auto split: if_splits)

lemma find_key_unique:
  assumes "distinct (map k xs)" and "x \<in> set xs"
  shows "find (\<lambda>y. k y = k x) xs = Some x"
  using assms by (induction xs) auto

lemma find_key_eq:
  assumes "distinct (map k xs)" and "x \<in> set xs" and "k x = v"
  shows "find (\<lambda>y. k y = v) xs = Some x"
  using find_key_unique [OF assms(1,2)] assms(3) by simp

lemma find_append_None: "find P xs = None \<Longrightarrow> find P (xs @ ys) = find P ys"
  by (induction xs) (auto split: if_splits)

lemma distinct_map_filter [intro]:
  "distinct (map k xs) \<Longrightarrow> distinct (map k (filter P xs))"
  by (induction xs) auto

lemma distinct_map_filter_key:
  "distinct (map k xs) \<Longrightarrow> x \<in> set xs \<Longrightarrow> filter (\<lambda>y. k y = k x) xs = [x]"
proof (induction xs)
  case (Cons a xs)
  then show ?case by (auto simp: filter_empty_conv) (metis image_eqI)
qed simp

lemma mset_remove_key:
  assumes "distinct (map k xs)" and "x \<in> set xs"
  shows "mset xs = add_mset x (mset (filter (\<lambda>y. k y \<noteq> k x) xs))"
proof -
  have "mset xs = mset (filter (\<lambda>y. k y = k x) xs) + mset (filter (\<lambda>y. \<not> k y = k x) xs)"
    using multiset_partition [of "mset xs" "\<lambda>y. k y = k x"] by simp
  then show ?thesis
    using distinct_map_filter_key [OF assms] by simp
qed

subsection \<open>Descending order on a key\<close>

text \<open>
  \<open>ORDER BY col DESC\<close> over a list of rows. SQL leaves the order of rows with equal
  keys open; a stable sort on the negated key is one admissible choice, and every
  lemma below holds for any admissible choice.
\<close>

definition order_desc :: "('a \<Rightarrow> nat) \<Rightarrow> 'a list \<Rightarrow> 'a list" where
  "order_desc k xs = sort_key (\<lambda>x. - int (k x)) xs"

lemma mset_order_desc [simp]: "mset (order_desc k xs) = mset xs"
  by (simp add: order_desc_def)

lemma set_order_desc [simp]: "set (order_desc k xs) = set xs"
  by (simp add: order_desc_def)

lemma length_order_desc [simp]: "length (order_desc k xs) = length xs"
  by (simp add: order_desc_def)

lemma order_desc_Nil [simp]: "order_desc k [] = []"
  by (simp add: order_desc_def)

lemma sorted_order_desc: "sorted_wrt (\<lambda>a b. k b \<le> k a) (order_desc k xs)"
proof -
  have "sorted (map (\<lambda>x. - int (k x)) (sort_key (\<lambda>x. - int (k x)) xs))"
    by (rule sorted_sort_key)
  then show ?thesis
    by (simp add: order_desc_def sorted_wrt_map)
qed

text \<open>Two translation tables that are inverse to each other on their own entries.\<close>

lemma table_inverse:
  assumes f: "map g U = L" and u: "map h L = U" and hg: "map (h \<circ> g) U = U" and gh: "map (g \<circ> h) L = L"
  shows "\<forall>c \<in> set U. g c \<in> set L \<and> h (g c) = c" "\<forall>c \<in> set L. h c \<in> set U \<and> g (h c) = c"
proof -
  show "\<forall>c \<in> set U. g c \<in> set L \<and> h (g c) = c"
  proof
    fix c assume c: "c \<in> set U"
    then have "g c \<in> set L" using f by auto
    moreover have "(h \<circ> g) c = c" using hg c by (metis map_eq_conv map_ident)
    ultimately show "g c \<in> set L \<and> h (g c) = c" by simp
  qed
  show "\<forall>c \<in> set L. h c \<in> set U \<and> g (h c) = c"
  proof
    fix c assume c: "c \<in> set L"
    then have "h c \<in> set U" using u by auto
    moreover have "(g \<circ> h) c = c" using gh c by (metis map_eq_conv map_ident)
    ultimately show "h c \<in> set U \<and> g (h c) = c" by simp
  qed
qed

text \<open>Filtering with a test that may fail: the first failure fails the whole
  filter, as an SQL statement fails at the first row whose condition raises.\<close>

primrec filter_option :: "('a \<Rightarrow> bool option) \<Rightarrow> 'a list \<Rightarrow> 'a list option" where
  "filter_option P [] = Some []"
| "filter_option P (x # xs) =
     (case P x of
        None \<Rightarrow> None
      | Some b \<Rightarrow> map_option (\<lambda>ys. if b then x # ys else ys) (filter_option P xs))"

lemma filter_option_Some:
  "(\<And>x. x \<in> set xs \<Longrightarrow> P x \<noteq> None) \<Longrightarrow> filter_option P xs = Some (filter (\<lambda>x. P x = Some True) xs)"
  by (induction xs) (auto split: option.splits)

lemma filter_option_None: "x \<in> set xs \<Longrightarrow> P x = None \<Longrightarrow> filter_option P xs = None"
  by (induction xs) (auto split: option.splits)

lemma those_map_None: "those (map f xs) \<noteq> None \<longleftrightarrow> (\<forall>x \<in> set xs. f x \<noteq> None)"
  by (induction xs) (auto split: option.splits)

end
