(* ===== verification/Blog_Model.thy ===== *)
theory Blog_Model
  imports Prelude
begin

text \<open>
  The data layer of the blog service (\<open>src/app.py\<close>): the \<open>User\<close> and \<open>Post\<close>
  models as records, the SQLite store as a record of two tables kept as lists of rows
  in rowid order, the queries the routes issue, and the commits the routes perform
  (\<open>db.session.add\<close>/\<open>delete\<close> followed by \<open>db.session.commit()\<close>), each of which
  either succeeds or raises \<open>IntegrityError\<close> and rolls back. Also the password hashing
  of \<open>werkzeug.security\<close> as a symbolic one-way term, the current user of Flask-Login,
  and the responses the routes produce.
\<close>

section \<open>Errors and password hashing\<close>

text \<open>
  The exceptions the routes can let escape (each becomes an HTTP 500):
  \<open>IntegrityError\<close> from a commit that breaks a NOT NULL or UNIQUE constraint, and
  \<open>AttributeError\<close> from \<open>generate_password_hash\<close>/\<open>check_password_hash\<close> applied to a
  password that is \<open>None\<close> (a form field missing from the request), and
  \<open>OperationalError\<close> from a query that SQLite refuses to run (a \<open>LIKE\<close> pattern over its
  length limit).
\<close>

datatype error = IntegrityError | AttributeError | OperationalError

text \<open>
  A salted hash is modelled symbolically: \<open>PwHash salt pw\<close> is the stored string of
  \<open>generate_password_hash\<close>, from which the model never reads the password back except
  through \<open>check_password_hash\<close>. The salt is random in the library; here it is an input.
\<close>

datatype pwhash = PwHash nat string

definition generate_password_hash :: "nat \<Rightarrow> string option \<Rightarrow> error + pwhash" where
  "generate_password_hash salt pw =
     (case pw of None \<Rightarrow> Inl AttributeError | Some p \<Rightarrow> Inr (PwHash salt p))"

fun hash_matches :: "pwhash \<Rightarrow> string \<Rightarrow> bool" where
  "hash_matches (PwHash salt q) p = (q = p)"

definition check_password_hash :: "pwhash \<Rightarrow> string option \<Rightarrow> error + bool" where
  "check_password_hash h pw =
     (case pw of None \<Rightarrow> Inl AttributeError | Some p \<Rightarrow> Inr (hash_matches h p))"

section \<open>Models\<close>

record User =
  u_id :: nat
  username :: string
  email :: string
  password_hash :: pwhash
  bio :: string
  profile_image :: string

record Post =
  p_id :: nat
  title :: string
  content :: string
  date_posted :: nat
  tags :: "string option"
  thumbnail :: "string option"
  user_id :: nat

definition default_bio :: string where
  "default_bio = ''No bio yet.''"

definition default_profile_image :: string where
  "default_profile_image = ''https://placehold.co/100x100/slate-700/white?text=Profile''"

definition default_tags :: string where
  "default_tags = ''''"

definition default_thumbnail :: string where
  "default_thumbnail = ''https://placehold.co/600x400/slate-700/white?text=Thumbnail''"

text \<open>\<open>User.set_password\<close> and \<open>User.check_password\<close>.\<close>

definition set_password :: "nat \<Rightarrow> string option \<Rightarrow> error + pwhash" where
  "set_password salt password = generate_password_hash salt password"

definition check_password :: "User \<Rightarrow> string option \<Rightarrow> error + bool" where
  "check_password u password = check_password_hash (password_hash u) password"

record store =
  users :: "User list"
  posts :: "Post list"

definition empty_store :: store where
  "empty_store = \<lparr>users = [], posts = []\<rparr>"

section \<open>Row identifiers\<close>

text \<open>
  \<open>id = db.Column(db.Integer, primary_key=True)\<close> is SQLite's rowid: an insert that
  gives no id receives one more than the largest id in the table (1 in an empty table).
  Ids of deleted rows at the top of the table are therefore handed out again.
\<close>

definition next_rowid :: "nat list \<Rightarrow> nat" where
  "next_rowid ids = fold max ids 0 + 1"

lemma fold_max_ge: "(x::nat) \<in> set ids \<Longrightarrow> x \<le> fold max ids m"
proof -
  assume "x \<in> set ids"
  then have "x \<le> Max (set (m # ids))" by simp
  moreover have "Max (set (m # ids)) = fold max ids m" by (rule Max.set_eq_fold)
  ultimately show ?thesis by simp
qed

lemma next_rowid_gt: "x \<in> set ids \<Longrightarrow> x < next_rowid ids"
  using fold_max_ge [of x ids 0] by (simp add: next_rowid_def)

text \<open>In a table whose rows were numbered \<open>1\<close> to \<open>n - 1\<close> the next rowid is \<open>n\<close>.\<close>

lemma next_rowid_upt: "0 < n \<Longrightarrow> next_rowid [1..<n] = n"
proof -
  have "fold max [1..<n] (0::nat) = n - 1" for n
    by (induction n) (auto simp: max_def)
  then show "0 < n \<Longrightarrow> next_rowid [1..<n] = n"
    by (simp add: next_rowid_def)
qed

lemma next_rowid_fresh [simp]: "next_rowid ids \<notin> set ids"
  using next_rowid_gt by blast

lemma next_rowid_map_fresh [simp]:
  "x \<in> set xs \<Longrightarrow> k x \<noteq> next_rowid (map k xs)"
  "x \<in> set xs \<Longrightarrow> next_rowid (map k xs) \<noteq> k x"
proof -
  assume "x \<in> set xs"
  then have "k x \<in> set (map k xs)" by simp
  then show "k x \<noteq> next_rowid (map k xs)" and "next_rowid (map k xs) \<noteq> k x"
    by (metis next_rowid_fresh)+
qed

lemma next_rowid_pos [simp]: "0 < next_rowid ids"
  by (simp add: next_rowid_def)

section \<open>Queries\<close>

text \<open>\<open>load_user\<close>: \<open>User.query.get(int(user_id))\<close>.\<close>

definition load_user :: "store \<Rightarrow> nat \<Rightarrow> User option" where
  "load_user s uid = find (\<lambda>u. u_id u = uid) (users s)"

text \<open>
  \<open>User.query.filter_by(email=email).first()\<close>: \<open>email = None\<close> becomes
  \<open>email IS NULL\<close>, which no row satisfies (the column is NOT NULL).
\<close>

definition user_by_email :: "store \<Rightarrow> string option \<Rightarrow> User option" where
  "user_by_email s e =
     (case e of None \<Rightarrow> None | Some e \<Rightarrow> find (\<lambda>u. email u = e) (users s))"

definition user_by_username :: "store \<Rightarrow> string \<Rightarrow> User option" where
  "user_by_username s n = find (\<lambda>u. username u = n) (users s)"

definition post_get :: "store \<Rightarrow> nat \<Rightarrow> Post option" where
  "post_get s pid = find (\<lambda>p. p_id p = pid) (posts s)"

definition order_by_date_desc :: "Post list \<Rightarrow> Post list" where
  "order_by_date_desc ps = order_desc date_posted ps"

section \<open>Commits\<close>

text \<open>
  \<open>db.session.add(new_user); db.session.commit()\<close> in \<open>signup\<close>: the row receives
  the next rowid and the column defaults for \<open>bio\<close> and \<open>profile_image\<close>; a \<open>None\<close>
  username or email breaks NOT NULL, an existing username or email breaks UNIQUE, and
  either makes the commit raise, leaving the tables as they were.
\<close>

definition add_user ::
  "store \<Rightarrow> string option \<Rightarrow> string option \<Rightarrow> pwhash \<Rightarrow> error + store \<times> User" where
  "add_user s un em h =
     (case (un, em) of
        (Some n, Some e) \<Rightarrow>
          if n \<in> set (map username (users s)) \<or> e \<in> set (map email (users s))
          then Inl IntegrityError
          else (let u = \<lparr>u_id = next_rowid (map u_id (users s)), username = n, email = e,
                         password_hash = h, bio = default_bio,
                         profile_image = default_profile_image\<rparr>
                in Inr (s\<lparr>users := users s @ [u]\<rparr>, u))
      | _ \<Rightarrow> Inl IntegrityError)"

text \<open>
  \<open>Post(title=..., content=..., tags=..., thumbnail=..., author=current_user)\<close> added
  and committed: \<open>date_posted\<close> takes the column default \<open>datetime.utcnow\<close> (the clock
  reading \<open>now\<close>). SQLAlchemy leaves an attribute that is \<open>None\<close> out of the INSERT
  of a new row, so a missing \<open>tags\<close> or \<open>thumbnail\<close> field gets the column default
  (the empty string, the placeholder image), while a submitted value, even an empty one,
  is stored as given. A \<open>None\<close> title or content is left out too, and as those columns
  are NOT NULL without a default the INSERT fails.
\<close>

definition add_post ::
  "store \<Rightarrow> nat \<Rightarrow> nat \<Rightarrow> string option \<Rightarrow> string option \<Rightarrow> string option \<Rightarrow>
   string option \<Rightarrow> error + store" where
  "add_post s author now ti co ta th =
     (case (ti, co) of
        (Some t, Some c) \<Rightarrow>
          Inr (s\<lparr>posts := posts s @ [\<lparr>p_id = next_rowid (map p_id (posts s)), title = t,
                   content = c, date_posted = now,
                   tags = Some (case ta of None \<Rightarrow> default_tags | Some x \<Rightarrow> x),
                   thumbnail = Some (case th of None \<Rightarrow> default_thumbnail | Some x \<Rightarrow> x),
                   user_id = author\<rparr>]\<rparr>)
      | _ \<Rightarrow> Inl IntegrityError)"

text \<open>
  The four attribute assignments of \<open>edit_post\<close> followed by \<open>db.session.commit()\<close>:
  the row with the given id gets the new values, or the commit raises on a \<open>None\<close>
  title or content.
\<close>

definition set_post_fields ::
  "string \<Rightarrow> string \<Rightarrow> string option \<Rightarrow> string option \<Rightarrow> Post \<Rightarrow> Post" where
  "set_post_fields t c ta th p = p\<lparr>title := t, content := c, tags := ta, thumbnail := th\<rparr>"

definition update_post ::
  "store \<Rightarrow> nat \<Rightarrow> string option \<Rightarrow> string option \<Rightarrow> string option \<Rightarrow>
   string option \<Rightarrow> error + store" where
  "update_post s pid ti co ta th =
     (case (ti, co) of
        (Some t, Some c) \<Rightarrow>
          Inr (s\<lparr>posts := map (\<lambda>p. if p_id p = pid then set_post_fields t c ta th p else p)
                             (posts s)\<rparr>)
      | _ \<Rightarrow> Inl IntegrityError)"

text \<open>\<open>db.session.delete(post); db.session.commit()\<close>: removes the row.\<close>

definition delete_row :: "store \<Rightarrow> nat \<Rightarrow> store" where
  "delete_row s pid = s\<lparr>posts := filter (\<lambda>p. p_id p \<noteq> pid) (posts s)\<rparr>"

section \<open>Sessions and responses\<close>

text \<open>
  Flask-Login keeps the id of the logged-in user in the signed session cookie;
  \<open>current_user\<close> is \<open>load_user\<close> of that id, or the anonymous user when there is no
  id or no such user. The model writes the session as \<open>nat option\<close> and the
  anonymous user as \<open>None\<close>.
\<close>

definition current_user :: "store \<Rightarrow> nat option \<Rightarrow> User option" where
  "current_user s sess = (case sess of None \<Rightarrow> None | Some uid \<Rightarrow> load_user s uid)"

datatype http_method = GET | POST

datatype category = Danger | Warning | Success | Message

type_synonym flash = "category \<times> string"

datatype page =
    Index_page "Post list"
  | Search_page "Post list" "string option"
  | Login_page
  | Signup_page
  | Profile_page User "Post list"
  | Create_post_page
  | Post_page Post
  | Edit_post_page Post

datatype target = To_index | To_login | To_signup | To_view_post nat

datatype outcome =
    Render page
  | Redirect target
  | Abort nat
  | Raised error

text \<open>
  The result of one request: what is sent back, the messages \<open>flash\<close>ed during the
  request, the session after it, and the store after it.
\<close>

record result =
  res_out :: outcome
  res_flash :: "flash list"
  res_sess :: "nat option"
  res_db :: store

definition respond :: "store \<Rightarrow> nat option \<Rightarrow> outcome \<Rightarrow> flash list \<Rightarrow> result" where
  "respond s sess out fl = \<lparr>res_out = out, res_flash = fl, res_sess = sess, res_db = s\<rparr>"

definition login_message :: string where
  "login_message = ''Please log in to access this page.''"

text \<open>
  The \<open>@login_required\<close> decorator: an anonymous request is redirected to
  \<open>login_manager.login_view = 'login'\<close> with Flask-Login's default message; otherwise
  the view runs with the current user.
\<close>

definition login_required :: "store \<Rightarrow> nat option \<Rightarrow> (User \<Rightarrow> result) \<Rightarrow> result" where
  "login_required s sess view =
     (case current_user s sess of
        None \<Rightarrow> respond s sess (Redirect To_login) [(Message, login_message)]
      | Some u \<Rightarrow> view u)"

section \<open>Facts about the data layer\<close>

lemma respond_sel [simp]:
  "res_out (respond s sess out fl) = out" "res_flash (respond s sess out fl) = fl"
  "res_sess (respond s sess out fl) = sess" "res_db (respond s sess out fl) = s"
  by (simp_all add: respond_def)

lemma load_userD: "load_user s uid = Some u \<Longrightarrow> u \<in> set (users s) \<and> u_id u = uid"
  by (auto simp: load_user_def)

lemma current_userD:
  "current_user s sess = Some u \<Longrightarrow> u \<in> set (users s) \<and> sess = Some (u_id u)"
  by (auto simp: current_user_def dest: load_userD split: option.splits)

lemma post_getD: "post_get s pid = Some p \<Longrightarrow> p \<in> set (posts s) \<and> p_id p = pid"
  by (auto simp: post_get_def)

lemma login_required_anon [simp]:
  "current_user s sess = None \<Longrightarrow>
   login_required s sess view = respond s sess (Redirect To_login) [(Message, login_message)]"
  by (simp add: login_required_def)

lemma login_required_user [simp]:
  "current_user s sess = Some u \<Longrightarrow> login_required s sess view = view u"
  by (simp add: login_required_def)

section \<open>The store invariant\<close>

text \<open>
  What the schema and the routes together keep true of the tables: the primary keys and
  the UNIQUE columns \<open>username\<close> and \<open>email\<close> are distinct, and every post's
  \<open>user_id\<close> names an existing user. SQLite enforces the first three; it does not
  enforce the foreign key (\<open>PRAGMA foreign_keys\<close> is off by default), so the last
  holds only because every post is created with the current user as author and no user
  is ever deleted.
\<close>

definition store_inv :: "store \<Rightarrow> bool" where
  "store_inv s \<longleftrightarrow>
     distinct (map u_id (users s)) \<and> distinct (map username (users s)) \<and>
     distinct (map email (users s)) \<and> distinct (map p_id (posts s)) \<and>
     set (map user_id (posts s)) \<subseteq> set (map u_id (users s))"

lemma store_inv_empty: "store_inv empty_store"
  by (simp add: store_inv_def empty_store_def)

lemma add_user_Inr:
  "add_user s un em h = Inr (s', u) \<longleftrightarrow>
     (\<exists>n e. un = Some n \<and> em = Some e \<and> n \<notin> username ` set (users s) \<and>
        e \<notin> email ` set (users s) \<and>
        u = \<lparr>u_id = next_rowid (map u_id (users s)), username = n, email = e,
              password_hash = h, bio = default_bio, profile_image = default_profile_image\<rparr> \<and>
        s' = s\<lparr>users := users s @ [u]\<rparr>)"
  by (auto simp: add_user_def Let_def split: option.splits)

lemma add_user_inv:
  assumes "store_inv s" and "add_user s un em h = Inr (s', u)"
  shows "store_inv s'"
  using assms by (fastforce simp: add_user_Inr store_inv_def)

lemma add_post_Inr:
  "add_post s author now ti co ta th = Inr s' \<longleftrightarrow>
     (\<exists>t c. ti = Some t \<and> co = Some c \<and>
        s' = s\<lparr>posts := posts s @ [\<lparr>p_id = next_rowid (map p_id (posts s)), title = t,
                  content = c, date_posted = now,
                  tags = Some (case ta of None \<Rightarrow> default_tags | Some x \<Rightarrow> x),
                  thumbnail = Some (case th of None \<Rightarrow> default_thumbnail | Some x \<Rightarrow> x),
                  user_id = author\<rparr>]\<rparr>)"
  by (auto simp: add_post_def split: option.splits)

lemma add_post_inv:
  assumes "store_inv s" and "author \<in> u_id ` set (users s)"
    and "add_post s author now ti co ta th = Inr s'"
  shows "store_inv s'"
  using assms by (force simp: add_post_Inr store_inv_def)

lemma update_post_Inr:
  "update_post s pid ti co ta th = Inr s' \<longleftrightarrow>
     (\<exists>t c. ti = Some t \<and> co = Some c \<and>
        s' = s\<lparr>posts := map (\<lambda>p. if p_id p = pid then set_post_fields t c ta th p else p)
                           (posts s)\<rparr>)"
  by (auto simp: update_post_def split: option.splits)

lemma set_post_fields_keys [simp]:
  "p_id (set_post_fields t c ta th p) = p_id p"
  "user_id (set_post_fields t c ta th p) = user_id p"
  "date_posted (set_post_fields t c ta th p) = date_posted p"
  by (simp_all add: set_post_fields_def)

lemma map_key_update_row:
  "(\<And>x. k (f x) = k x) \<Longrightarrow> map k (map (\<lambda>p. if P p then f p else p) xs) = map k xs"
  by (induction xs) auto

lemma update_post_inv:
  assumes "store_inv s" and "update_post s pid ti co ta th = Inr s'"
  shows "store_inv s'"
proof -
  obtain t c where s': "s' = s\<lparr>posts := map (\<lambda>p. if p_id p = pid then set_post_fields t c ta th p
                                              else p) (posts s)\<rparr>"
    using assms(2) by (auto simp: update_post_Inr)
  have keys: "map p_id (posts s') = map p_id (posts s)"
    "map user_id (posts s') = map user_id (posts s)" "users s' = users s"
    by (simp_all add: s' map_key_update_row del: map_map)
  from assms(1) show ?thesis
    unfolding store_inv_def keys .
qed

lemma delete_row_inv: "store_inv s \<Longrightarrow> store_inv (delete_row s pid)"
  by (auto simp: store_inv_def delete_row_def)

section \<open>Example data\<close>

text \<open>A small store used to instantiate the theorems at concrete inputs: two users and
  one post by each.\<close>

definition alice :: User where
  "alice = \<lparr>u_id = 1, username = ''alice'', email = ''alice@example.com'',
            password_hash = PwHash 7 ''secret'', bio = default_bio,
            profile_image = default_profile_image\<rparr>"

definition bob :: User where
  "bob = \<lparr>u_id = 2, username = ''bob'', email = ''bob@example.com'',
          password_hash = PwHash 9 ''hunter2'', bio = default_bio,
          profile_image = default_profile_image\<rparr>"

definition post_a :: Post where
  "post_a = \<lparr>p_id = 1, title = ''Pasta Carbonara'', content = ''Creamy and quick.'',
             date_posted = 10, tags = Some ''food'', thumbnail = None, user_id = 1\<rparr>"

definition post_b :: Post where
  "post_b = \<lparr>p_id = 2, title = ''Tiramisu'', content = ''Coffee dessert.'',
             date_posted = 20, tags = Some ''sweet'', thumbnail = None, user_id = 2\<rparr>"

definition demo :: store where
  "demo = \<lparr>users = [alice, bob], posts = [post_a, post_b]\<rparr>"

lemmas demo_defs = demo_def alice_def bob_def post_a_def post_b_def

lemma store_inv_demo: "store_inv demo"
  by (simp add: store_inv_def demo_defs)

end
