(* ===== verification/Blog_Auth.thy ===== *)
theory Blog_Auth
  imports Blog_Model
begin

text \<open>
  The authentication routes of \<open>src/app.py\<close>: \<open>login\<close>, \<open>signup\<close> and \<open>logout\<close>.
  Each handler takes the store, the session of the requesting client, the HTTP method
  and the submitted form, and returns a \<open>result\<close>. The lemmas give each route's
  behaviour on every branch, the error branches included, and show that a duplicate
  email never changes the store while a successful signup appends exactly one user
  whose stored hash accepts exactly the submitted password.
\<close>

definition login_fail_message :: string where
  "login_fail_message = ''Login Unsuccessful. Please check email and password''"

definition signup_exists_message :: string where
  "signup_exists_message = ''An account with this email already exists.''"

definition login :: "store \<Rightarrow> nat option \<Rightarrow> http_method \<Rightarrow> form \<Rightarrow> result" where
  "login s sess m f =
     (case current_user s sess of
        Some _ \<Rightarrow> respond s sess (Redirect To_index) []
      | None \<Rightarrow>
          if m = POST then
            (case user_by_email s (form_get f ''email'') of
               Some u \<Rightarrow>
                 (case check_password u (form_get f ''password'') of
                    Inl e \<Rightarrow> respond s sess (Raised e) []
                  | Inr True \<Rightarrow> respond s (Some (u_id u)) (Redirect To_index) []
                  | Inr False \<Rightarrow> respond s sess (Render Login_page) [(Danger, login_fail_message)])
             | None \<Rightarrow> respond s sess (Render Login_page) [(Danger, login_fail_message)])
          else respond s sess (Render Login_page) [])"

text \<open>
  \<open>signup\<close>: the salt that \<open>generate_password_hash\<close> draws at random is an argument.
  The email lookup comes first, then \<open>set_password\<close> (which raises on a missing
  password), then the commit (which raises on a missing field or a taken username),
  and only after a successful commit \<open>login_user(new_user)\<close>.
\<close>

definition signup :: "store \<Rightarrow> nat option \<Rightarrow> http_method \<Rightarrow> form \<Rightarrow> nat \<Rightarrow> result" where
  "signup s sess m f salt =
     (case current_user s sess of
        Some _ \<Rightarrow> respond s sess (Redirect To_index) []
      | None \<Rightarrow>
          if m = POST then
            (case user_by_email s (form_get f ''email'') of
               Some _ \<Rightarrow> respond s sess (Redirect To_signup) [(Warning, signup_exists_message)]
             | None \<Rightarrow>
                 (case set_password salt (form_get f ''password'') of
                    Inl e \<Rightarrow> respond s sess (Raised e) []
                  | Inr h \<Rightarrow>
                      (case add_user s (form_get f ''username'') (form_get f ''email'') h of
                         Inl e \<Rightarrow> respond s sess (Raised e) []
                       | Inr (s', u) \<Rightarrow> respond s' (Some (u_id u)) (Redirect To_index) [])))
          else respond s sess (Render Signup_page) [])"

definition logout :: "store \<Rightarrow> nat option \<Rightarrow> result" where
  "logout s sess = login_required s sess (\<lambda>u. respond s None (Redirect To_index) [])"

declare login_def [handler_defs] signup_def [handler_defs] logout_def [handler_defs]

section \<open>Shared facts\<close>

lemma user_by_email_Some:
  "user_by_email s em = Some u \<Longrightarrow> u \<in> set (users s) \<and> em = Some (email u)"
  by (auto simp: user_by_email_def split: option.splits)

lemma user_by_email_None:
  "user_by_email s (Some e) = None \<longleftrightarrow> e \<notin> email ` set (users s)"
  by (auto simp: user_by_email_def find_None_iff)

lemma login_db [simp]: "res_db (login s sess m f) = s"
  by (simp add: login_def split: option.splits sum.splits bool.splits)

lemma logout_db [simp]: "res_db (logout s sess) = s"
  by (simp add: logout_def login_required_def split: option.splits)

lemma signup_cases:
  "res_db (signup s sess m f salt) = s \<or>
   (\<exists>h u. add_user s (form_get f ''username'') (form_get f ''email'') h =
            Inr (res_db (signup s sess m f salt), u) \<and>
          res_sess (signup s sess m f salt) = Some (u_id u))"
  by (auto simp: signup_def split: option.splits sum.splits)

lemma signup_inv: "store_inv s \<Longrightarrow> store_inv (res_db (signup s sess m f salt))"
  using signup_cases [of s sess m f salt] add_user_inv by metis

lemma current_user_new_row:
  assumes "u_id u \<notin> u_id ` set (users s)"
  shows "current_user (s\<lparr>users := users s @ [u]\<rparr>) (Some (u_id u)) = Some u"
proof -
  have "find (\<lambda>v. u_id v = u_id u) (users s) = None"
    using assms by (simp add: find_None_iff) (metis image_eqI)
  then show ?thesis
    by (simp add: current_user_def load_user_def find_append_None)
qed

lemma current_user_in_users:
  assumes "store_inv s" and "u \<in> set (users s)"
  shows "current_user s (Some (u_id u)) = Some u"
  using assms find_key_unique [of u_id "users s" u]
  by (simp add: current_user_def load_user_def store_inv_def)

lemma user_by_email_in_users:
  assumes "store_inv s" and "u \<in> set (users s)"
  shows "user_by_email s (Some (email u)) = Some u"
  using assms find_key_unique [of email "users s" u]
  by (simp add: user_by_email_def store_inv_def)

lemma logout_ends_session: "current_user s (res_sess (logout s sess)) = None"
  by (simp add: logout_def login_required_def current_user_def split: option.splits)

section \<open>Login\<close>

text \<open>C10: A POST to /login from an anonymous client that names the email of a registered
  user starts a session for that user exactly when the submitted password matches the
  stored hash; the store is never changed.\<close>

theorem login_authenticates:
  assumes "store_inv s" and "current_user s sess = None" and "u \<in> set (users s)"
    and "form_get f ''email'' = Some (email u)" and "form_get f ''password'' = Some p"
  shows "res_sess (login s sess POST f) = Some (u_id u) \<longleftrightarrow> hash_matches (password_hash u) p"
proof -
  have "sess \<noteq> Some (u_id u)"
    using assms(1-3) current_user_in_users by fastforce
  then show ?thesis
    using assms user_by_email_in_users [OF assms(1,3)]
    by (simp add: login_def check_password_def check_password_hash_def split: bool.splits)
qed

text \<open>C11: Login failure is uniform: whether no account has the email or the password is
  wrong, the client receives the same page and the same message, and nothing changes.\<close>

theorem login_failure_uniform:
  assumes "current_user s sess = None" and "form_get f ''password'' = Some p"
    and "\<not> (\<exists>u \<in> set (users s). form_get f ''email'' = Some (email u) \<and>
                                  hash_matches (password_hash u) p)"
  shows "login s sess POST f = respond s sess (Render Login_page) [(Danger, login_fail_message)]"
proof (cases "user_by_email s (form_get f ''email'')")
  case None
  with assms(1) show ?thesis by (simp add: login_def)
next
  case (Some u)
  with assms show ?thesis
    by (auto simp: login_def check_password_def check_password_hash_def
             dest: user_by_email_Some)
qed

text \<open>C26: A login POST that names a registered email but carries no password field
  raises in the password check (an HTTP 500) instead of reporting a failed login.\<close>

theorem login_missing_password_raises:
  assumes "current_user s sess = None" and "user_by_email s (form_get f ''email'') = Some u"
    and "form_get f ''password'' = None"
  shows "login s sess POST f = respond s sess (Raised AttributeError) []"
  using assms by (simp add: login_def check_password_def check_password_hash_def)

section \<open>Signup\<close>

text \<open>C8: Signup with an email that is already registered leaves the store (and so the
  existing account and its password hash) and the session unchanged, and answers with a
  warning and a redirect to the signup form.\<close>

theorem signup_duplicate_email:
  assumes "current_user s sess = None" and "form_get f ''email'' = Some e"
    and "e \<in> email ` set (users s)"
  shows "signup s sess POST f salt =
         respond s sess (Redirect To_signup) [(Warning, signup_exists_message)]"
proof -
  have "user_by_email s (Some e) \<noteq> None"
    using assms(3) user_by_email_None by blast
  then show ?thesis
    using assms(1,2) by (auto simp: signup_def)
qed

text \<open>The row a successful signup appends, with the id SQLite allocates.\<close>

lemma signup_fresh:
  assumes "current_user s sess = None"
    and "form_get f ''username'' = Some n" and "form_get f ''email'' = Some e"
    and "form_get f ''password'' = Some p"
    and "n \<notin> username ` set (users s)" and "e \<notin> email ` set (users s)"
  shows "signup s sess POST f salt =
           respond (s\<lparr>users := users s @
                      [\<lparr>u_id = next_rowid (map u_id (users s)), username = n, email = e,
                        password_hash = PwHash salt p, bio = default_bio,
                        profile_image = default_profile_image\<rparr>]\<rparr>)
                   (Some (next_rowid (map u_id (users s)))) (Redirect To_index) []"
  using assms user_by_email_None [of s e]
  by (simp add: signup_def set_password_def generate_password_hash_def add_user_def Let_def)

text \<open>C9: Signup with a fresh email and a fresh username appends exactly one user, with a
  fresh id, the submitted name and email, and a hash that accepts exactly the submitted
  password, and logs the client in as that user.\<close>

theorem signup_creates_user:
  assumes "current_user s sess = None"
    and "form_get f ''username'' = Some n" and "form_get f ''email'' = Some e"
    and "form_get f ''password'' = Some p"
    and "n \<notin> username ` set (users s)" and "e \<notin> email ` set (users s)"
  shows "\<exists>u. signup s sess POST f salt =
               respond (s\<lparr>users := users s @ [u]\<rparr>) (Some (u_id u)) (Redirect To_index) [] \<and>
             u_id u \<notin> u_id ` set (users s) \<and> username u = n \<and> email u = e \<and>
             (\<forall>q. check_password u (Some q) = Inr (q = p)) \<and>
             current_user (s\<lparr>users := users s @ [u]\<rparr>) (Some (u_id u)) = Some u"
proof -
  let ?u = "\<lparr>u_id = next_rowid (map u_id (users s)), username = n, email = e,
             password_hash = PwHash salt p, bio = default_bio,
             profile_image = default_profile_image\<rparr>"
  have fresh: "u_id ?u \<notin> u_id ` set (users s)"
    by auto
  have "signup s sess POST f salt =
        respond (s\<lparr>users := users s @ [?u]\<rparr>) (Some (u_id ?u)) (Redirect To_index) []"
    using signup_fresh [OF assms] by simp
  moreover have "\<forall>q. check_password ?u (Some q) = Inr (q = p)"
    by (auto simp: check_password_def check_password_hash_def)
  ultimately show ?thesis
    using fresh current_user_new_row [OF fresh] by (intro exI [of _ ?u]) simp
qed

text \<open>C25: Signup with a fresh email but a username that is already taken is not reported
  as a conflict: the commit breaks the UNIQUE constraint on \<open>username\<close> and the
  request fails with \<open>IntegrityError\<close> (HTTP 500), the store unchanged.\<close>

theorem signup_taken_username_raises:
  assumes "current_user s sess = None"
    and "form_get f ''username'' = Some n" and "form_get f ''email'' = Some e"
    and "form_get f ''password'' = Some p"
    and "n \<in> username ` set (users s)" and "e \<notin> email ` set (users s)"
  shows "signup s sess POST f salt = respond s sess (Raised IntegrityError) []"
  using assms user_by_email_None [of s e]
  by (simp add: signup_def set_password_def generate_password_hash_def add_user_def)

section \<open>Logout\<close>

text \<open>After a logout request the client is anonymous and the store is unchanged; a
  logged-in client is sent to the home page, an anonymous one to the login page.\<close>

theorem logout_result:
  "res_db (logout s sess) = s \<and> current_user s (res_sess (logout s sess)) = None \<and>
   res_out (logout s sess) =
     (if current_user s sess = None then Redirect To_login else Redirect To_index)"
  using logout_ends_session [of s sess]
  by (simp add: logout_def login_required_def split: option.splits)

section \<open>Witnesses\<close>

lemmas auth_eval = demo_defs current_user_def load_user_def user_by_email_def

theorem login_authenticates_witness:
  "store_inv demo \<and> current_user demo None = None \<and> alice \<in> set (users demo) \<and>
   res_sess (login demo None POST [(''email'', ''alice@example.com''), (''password'', ''secret'')]) = Some 1"
proof -
  have h: "current_user demo None = None" "alice \<in> set (users demo)"
    "form_get [(''email'', ''alice@example.com''), (''password'', ''secret'')] ''email'' = Some (email alice)"
    "form_get [(''email'', ''alice@example.com''), (''password'', ''secret'')] ''password'' = Some ''secret''"
    by (simp_all add: auth_eval)
  from login_authenticates [OF store_inv_demo h]
  show ?thesis using h store_inv_demo by (simp add: alice_def)
qed

theorem login_failure_uniform_witness:
  "current_user demo None = None \<and>
   login demo None POST [(''email'', ''alice@example.com''), (''password'', ''guess'')] =
     respond demo None (Render Login_page) [(Danger, login_fail_message)]"
proof -
  have h: "current_user demo None = None"
    "form_get [(''email'', ''alice@example.com''), (''password'', ''guess'')] ''password'' = Some ''guess''"
    "\<not> (\<exists>u \<in> set (users demo).
        form_get [(''email'', ''alice@example.com''), (''password'', ''guess'')] ''email'' = Some (email u) \<and>
        hash_matches (password_hash u) ''guess'')"
    by (simp_all add: auth_eval)
  show ?thesis using login_failure_uniform [OF h] h(1) by simp
qed

theorem login_missing_password_raises_witness:
  "user_by_email demo (Some ''alice@example.com'') = Some alice \<and>
   login demo None POST [(''email'', ''alice@example.com'')] = respond demo None (Raised AttributeError) []"
proof -
  have h: "current_user demo None = None"
    "user_by_email demo (form_get [(''email'', ''alice@example.com'')] ''email'') = Some alice"
    "form_get [(''email'', ''alice@example.com'')] ''password'' = None"
    by (simp_all add: auth_eval)
  show ?thesis using login_missing_password_raises [OF h] h(2) by simp
qed

theorem signup_duplicate_email_witness:
  "''alice@example.com'' \<in> email ` set (users demo) \<and>
   signup demo None POST [(''username'', ''carol''), (''email'', ''alice@example.com''),
                          (''password'', ''pw'')] 3 =
     respond demo None (Redirect To_signup) [(Warning, signup_exists_message)]"
proof -
  have h: "current_user demo None = None"
    "form_get [(''username'', ''carol''), (''email'', ''alice@example.com''), (''password'', ''pw'')]
       ''email'' = Some ''alice@example.com''"
    "''alice@example.com'' \<in> email ` set (users demo)"
    by (simp_all add: auth_eval)
  show ?thesis using signup_duplicate_email [OF h] h(3) by simp
qed

theorem signup_creates_user_witness:
  "''carol'' \<notin> username ` set (users demo) \<and> ''carol@example.com'' \<notin> email ` set (users demo) \<and>
   (\<exists>u. res_db (signup demo None POST [(''username'', ''carol''), (''email'', ''carol@example.com''),
                                       (''password'', ''pw'')] 3) = demo\<lparr>users := users demo @ [u]\<rparr> \<and>
        username u = ''carol'' \<and> check_password u (Some ''pw'') = Inr True)"
proof -
  let ?f = "[(''username'', ''carol''), (''email'', ''carol@example.com''), (''password'', ''pw'')]"
  have h: "current_user demo None = None" "form_get ?f ''username'' = Some ''carol''"
    "form_get ?f ''email'' = Some ''carol@example.com''" "form_get ?f ''password'' = Some ''pw''"
    "''carol'' \<notin> username ` set (users demo)" "''carol@example.com'' \<notin> email ` set (users demo)"
    by (simp_all add: auth_eval)
  from signup_creates_user [OF h, of 3] h(5,6) show ?thesis by force
qed

theorem signup_taken_username_raises_witness:
  "''alice'' \<in> username ` set (users demo) \<and>
   signup demo None POST [(''username'', ''alice''), (''email'', ''new@example.com''),
                          (''password'', ''pw'')] 3 = respond demo None (Raised IntegrityError) []"
proof -
  let ?f = "[(''username'', ''alice''), (''email'', ''new@example.com''), (''password'', ''pw'')]"
  have h: "current_user demo None = None" "form_get ?f ''username'' = Some ''alice''"
    "form_get ?f ''email'' = Some ''new@example.com''" "form_get ?f ''password'' = Some ''pw''"
    "''alice'' \<in> username ` set (users demo)" "''new@example.com'' \<notin> email ` set (users demo)"
    by (simp_all add: auth_eval)
  show ?thesis using signup_taken_username_raises [OF h, of 3] h(5) by simp
qed

end
