(* ===== verification/Sql_Like.thy ===== *)
theory Sql_Like
  imports Prelude
begin

text \<open>
  The search route filters with \<open>Post.title.contains(query)\<close>, which SQLAlchemy renders
  as \<open>title LIKE '%' || :query || '%'\<close> with no ESCAPE clause. This theory gives
  SQLite's \<open>LIKE\<close>: \<open>%\<close> matches any sequence of characters, \<open>_\<close> matches any
  one character, and letters compare without regard to ASCII case. The main lemma shows
  that for a query free of \<open>%\<close> and \<open>_\<close> the filter is case-insensitive substring
  search; for other queries the two characters act as wildcards.

  SQLite evaluates \<open>LIKE\<close> with \<open>likeFunc\<close> and \<open>patternCompare\<close> of its
  \<open>func.c\<close>: a loop over the pattern that, after a \<open>%\<close>, searches the string for
  the next literal and recurses, and cuts the search short with a third result,
  \<open>SQLITE_NOWILDCARDMATCH\<close>, when no later position can succeed. That routine is
  \<open>pattern_compare\<close>, a partial function in the option monad; it is proved to return on
  every input and to agree with the recursive reference matcher \<open>like\<close>, which in turn
  is proved equal to the declarative semantics \<open>like_lang\<close>, the language of the
  pattern. \<open>likeFunc\<close> first rejects a pattern longer than
  \<open>SQLITE_MAX_LIKE_PATTERN_LENGTH\<close> (50000 bytes) with an error.
\<close>

text \<open>SQLite folds case through its \<open>sqlite3UpperToLower\<close> table, which maps exactly
  the 26 ASCII capitals to their small letters.\<close>

definition ascii_fold :: "char \<Rightarrow> char" where
  "ascii_fold c =
     (case map_of (zip ''ABCDEFGHIJKLMNOPQRSTUVWXYZ'' ''abcdefghijklmnopqrstuvwxyz'') c of
        Some d \<Rightarrow> d
      | None \<Rightarrow> c)"

text \<open>The reference matcher: a recursive reading of the documented semantics of
  \<open>LIKE\<close> (\<open>%\<close> any sequence, \<open>_\<close> any character, letters up to ASCII case).\<close>

fun like :: "string \<Rightarrow> string \<Rightarrow> bool" where
  "like [] t = (t = [])"
| "like (c # ps) [] = (c = CHR ''%'' \<and> like ps [])"
| "like (c # ps) (x # xs) =
     (if c = CHR ''%'' then like ps (x # xs) \<or> like (c # ps) xs
      else (c = CHR ''_'' \<or> ascii_fold c = ascii_fold x) \<and> like ps xs)"

text \<open>The reference semantics: a pattern denotes a language, the concatenation of the
  languages of its characters; \<open>%\<close> denotes every string, \<open>_\<close> every one-character
  string, and any other character the one-character strings equal to it up to ASCII
  case. This is how the SQLite documentation describes \<open>LIKE\<close>.\<close>

definition conc :: "string set \<Rightarrow> string set \<Rightarrow> string set" where
  "conc A B = {xs @ ys | xs ys. xs \<in> A \<and> ys \<in> B}"

definition like_atom :: "char \<Rightarrow> string set" where
  "like_atom c =
     (if c = CHR ''%'' then UNIV else {[x] | x. c = CHR ''_'' \<or> ascii_fold x = ascii_fold c})"

primrec like_lang :: "string \<Rightarrow> string set" where
  "like_lang [] = {[]}"
| "like_lang (c # ps) = conc (like_atom c) (like_lang ps)"

section \<open>SQLite's implementation\<close>

text \<open>The three results of \<open>patternCompare\<close>: \<open>SQLITE_MATCH\<close>,
  \<open>SQLITE_NOMATCH\<close> and \<open>SQLITE_NOWILDCARDMATCH\<close>. Characters are read one at a
  time (\<open>Utf8Read\<close>); the end of a list is the terminating zero.\<close>

datatype like_result = Match | NoMatch | NoWildcardMatch

text \<open>\<open>sqlite3Toupper\<close>: the 26 ASCII small letters to capitals.\<close>

definition ascii_upper :: "char \<Rightarrow> char" where
  "ascii_upper c =
     (case map_of (zip ''abcdefghijklmnopqrstuvwxyz'' ''ABCDEFGHIJKLMNOPQRSTUVWXYZ'') c of
        Some d \<Rightarrow> d
      | None \<Rightarrow> c)"

text \<open>The stop set \<open>zStop\<close> of the search after a \<open>%\<close>: for an ASCII literal both
  its cases (\<open>sqlite3Toupper\<close>, \<open>sqlite3Tolower\<close>), for any other character itself.\<close>

definition like_stop :: "char \<Rightarrow> char \<Rightarrow> bool" where
  "like_stop c x \<longleftrightarrow>
     (if of_char c < (128::nat) then x = ascii_upper c \<or> x = ascii_fold c else x = c)"

text \<open>After a \<open>%\<close>: the loop that skips further \<open>%\<close> and \<open>_\<close> of the pattern,
  consuming one character of the string for each \<open>_\<close>; \<open>None\<close> when the string runs
  out there (\<open>return SQLITE_NOWILDCARDMATCH\<close>).\<close>

fun skip_wild :: "string \<Rightarrow> string \<Rightarrow> (string \<times> string) option" where
  "skip_wild [] s = Some ([], s)"
| "skip_wild (c # p) s =
     (if c = CHR ''%'' then skip_wild p s
      else if c = CHR ''_'' then (case s of [] \<Rightarrow> None | _ # s' \<Rightarrow> skip_wild p s')
      else Some (c # p, s))"

text \<open>The search loop after a \<open>%\<close> (\<open>strcspn\<close> to the next character of the stop
  set, then a recursive \<open>patternCompare\<close> on the rest), with the recursive call as the
  parameter \<open>f\<close>: any result other than \<open>SQLITE_NOMATCH\<close> is returned at once.\<close>

fun scan_loop :: "(string \<Rightarrow> like_result option) \<Rightarrow> char \<Rightarrow> string \<Rightarrow> like_result option" where
  "scan_loop f c [] = Some NoWildcardMatch"
| "scan_loop f c (x # xs) =
     (if like_stop c x
      then Option.bind (f xs) (\<lambda>r. if r \<noteq> NoMatch then Some r else scan_loop f c xs)
      else scan_loop f c xs)"

lemma scan_loop_mono [partial_function_mono]:
  assumes "\<And>xs. mono_option (\<lambda>f. g f xs)"
  shows "mono_option (\<lambda>f. scan_loop (g f) c s)"
proof (induction s)
  case Nil
  then show ?case by (simp add: option.const_mono)
next
  case (Cons x xs)
  have "mono_option (\<lambda>f. if r \<noteq> NoMatch then Some r else scan_loop (g f) c xs)" for r
    using Cons.IH by (cases "r = NoMatch") (simp_all add: option.const_mono)
  then have "mono_option (\<lambda>f. Option.bind (g f xs) (\<lambda>r. if r \<noteq> NoMatch then Some r else scan_loop (g f) c xs))"
    by (intro bind_mono assms)
  with Cons.IH show ?case by (cases "like_stop c x") simp_all
qed

text \<open>\<open>patternCompare\<close> without an escape character (\<open>LIKE\<close> without
  \<open>ESCAPE\<close>): a \<open>%\<close> starts the skip and the search; any other pattern character
  must equal the next string character, up to case for two ASCII characters, or be
  \<open>_\<close> with a character left; at the end of the pattern the string must be at its end.\<close>

partial_function (option) pattern_compare :: "string \<Rightarrow> string \<Rightarrow> like_result option" where
  "pattern_compare p s =
     (case p of
        [] \<Rightarrow> Some (if s = [] then Match else NoMatch)
      | c # p' \<Rightarrow>
          if c = CHR ''%'' then
            (case skip_wild p' s of
               None \<Rightarrow> Some NoWildcardMatch
             | Some ([], _) \<Rightarrow> Some Match
             | Some (c' # p'', s') \<Rightarrow> scan_loop (\<lambda>xs. pattern_compare p'' xs) c' s')
          else
            (case s of
               [] \<Rightarrow> Some NoMatch
             | c2 # s' \<Rightarrow>
                 if c = c2 \<or> (ascii_fold c = ascii_fold c2 \<and> of_char c < (128::nat) \<and> of_char c2 < (128::nat))
                    \<or> c = CHR ''_''
                 then pattern_compare p' s' else Some NoMatch))"


text \<open>\<open>likeFunc\<close>: the pattern's length in UTF-8 bytes (\<open>sqlite3_value_bytes\<close>)
  above \<open>SQLITE_MAX_LIKE_PATTERN_LENGTH\<close> raises "LIKE or GLOB pattern too complex"
  (\<open>None\<close>); otherwise the result is whether \<open>patternCompare\<close> gives
  \<open>SQLITE_MATCH\<close>.\<close>

definition utf8_length :: "string \<Rightarrow> nat" where
  "utf8_length s = sum_list (map (\<lambda>c. if of_char c < (128::nat) then 1 else 2) s)"

definition like_func :: "string \<Rightarrow> string \<Rightarrow> bool option" where
  "like_func pat str =
     (if 50000 < utf8_length pat then None
      else map_option (\<lambda>r. r = Match) (pattern_compare pat str))"

text \<open>\<open>Post.title.contains(q)\<close>: \<open>title LIKE '%' || q || '%'\<close>, with \<open>None\<close> when
  SQLite raises.\<close>

definition sql_contains :: "string \<Rightarrow> string \<Rightarrow> bool option" where
  "sql_contains col q = like_func (CHR ''%'' # q @ [CHR ''%'']) col"

definition wildcard_free :: "string \<Rightarrow> bool" where
  "wildcard_free q \<longleftrightarrow> CHR ''%'' \<notin> set q \<and> CHR ''_'' \<notin> set q"

section \<open>Matching lemmas\<close>

lemma like_all_percent: "p \<noteq> [] \<Longrightarrow> set p \<subseteq> {CHR ''%''} \<Longrightarrow> like p t"
proof (induction p t rule: like.induct)
  case (2 c ps)
  then show ?case by (cases ps) auto
next
  case (3 c ps x xs)
  then show ?case by (cases ps) auto
qed auto

lemma like_percent_Cons:
  "like (CHR ''%'' # r) t \<longleftrightarrow> (\<exists>zs. suffix zs t \<and> like r zs)"
proof (induction t)
  case Nil
  then show ?case by simp
next
  case (Cons x xs)
  then show ?case by (auto simp: suffix_Cons)
qed

lemma like_prefix:
  "wildcard_free p \<Longrightarrow> like (p @ [CHR ''%'']) t \<longleftrightarrow> prefix (map ascii_fold p) (map ascii_fold t)"
proof (induction p arbitrary: t)
  case Nil
  then show ?case by (simp add: like_all_percent)
next
  case (Cons c p)
  then have c: "c \<noteq> CHR ''%''" "c \<noteq> CHR ''_''" and "wildcard_free p"
    by (auto simp: wildcard_free_def)
  then show ?case
    using Cons.IH by (cases t) auto
qed

lemma suffix_map_iff:
  "(\<exists>zs. suffix zs t \<and> P (map f zs)) \<longleftrightarrow> (\<exists>ws. suffix ws (map f t) \<and> P ws)"
proof
  assume "\<exists>zs. suffix zs t \<and> P (map f zs)"
  then obtain zs where "suffix zs t" and "P (map f zs)" by blast
  then have "suffix (map f zs) (map f t)" by (auto simp: suffix_def)
  with \<open>P (map f zs)\<close> show "\<exists>ws. suffix ws (map f t) \<and> P ws" by blast
next
  assume "\<exists>ws. suffix ws (map f t) \<and> P ws"
  then obtain ws where "suffix ws (map f t)" and "P ws" by blast
  then obtain ys where "map f t = ys @ ws" by (auto simp: suffix_def)
  then have "ws = map f (drop (length ys) t)" and "suffix (drop (length ys) t) t"
    by (metis append_eq_conv_conj drop_map, simp add: suffix_drop)
  with \<open>P ws\<close> show "\<exists>zs. suffix zs t \<and> P (map f zs)" by blast
qed

text \<open>For a query with no \<open>%\<close> or \<open>_\<close>, \<open>contains\<close> is exactly
  ASCII-case-insensitive substring search.\<close>

lemma like_contains_substring:
  assumes "wildcard_free q"
  shows "like (CHR ''%'' # q @ [CHR ''%'']) t \<longleftrightarrow> sublist (map ascii_fold q) (map ascii_fold t)"
proof -
  have "like (CHR ''%'' # q @ [CHR ''%'']) t \<longleftrightarrow>
        (\<exists>zs. suffix zs t \<and> prefix (map ascii_fold q) (map ascii_fold zs))"
    using like_prefix [OF assms] by (simp add: like_percent_Cons)
  also have "\<dots> \<longleftrightarrow> (\<exists>ws. suffix ws (map ascii_fold t) \<and> prefix (map ascii_fold q) ws)"
    by (rule suffix_map_iff)
  also have "\<dots> \<longleftrightarrow> sublist (map ascii_fold q) (map ascii_fold t)"
    by (auto simp: sublist_altdef')
  finally show ?thesis .
qed

lemma like_underscore_percent: "like (CHR ''_'' # [CHR ''%'']) zs \<longleftrightarrow> zs \<noteq> []"
  by (cases zs) (auto intro: like_all_percent)

text \<open>The wildcards of the query are not escaped: the query \<open>%\<close> is contained in
  every string, and the query \<open>_\<close> in every non-empty string.\<close>

lemma like_contains_wildcards:
  "like (CHR ''%'' # ''%'' @ [CHR ''%'']) t \<and> (like (CHR ''%'' # ''_'' @ [CHR ''%'']) t \<longleftrightarrow> t \<noteq> [])"
proof
  show "like (CHR ''%'' # ''%'' @ [CHR ''%'']) t"
    by (simp add: like_all_percent)
next
  have "(\<exists>zs. suffix zs t \<and> zs \<noteq> []) \<longleftrightarrow> t \<noteq> []"
    by (auto simp: suffix_def)
  then show "like (CHR ''%'' # ''_'' @ [CHR ''%'']) t \<longleftrightarrow> t \<noteq> []"
    by (simp add: like_percent_Cons like_underscore_percent)
qed

section \<open>The matcher implements the reference semantics\<close>

lemma conc_single: "x # t \<in> conc {[y] | y. P y} L \<longleftrightarrow> P x \<and> t \<in> L"
  by (auto simp: conc_def) (metis append_Cons append_Nil)

lemma conc_single_Nil: "[] \<notin> conc {[y] | y. P y} L"
  by (auto simp: conc_def)

lemma conc_UNIV_Nil: "[] \<in> conc UNIV L \<longleftrightarrow> [] \<in> L"
  by (auto simp: conc_def)

lemma conc_UNIV_Cons: "x # t \<in> conc UNIV L \<longleftrightarrow> x # t \<in> L \<or> t \<in> conc UNIV L"
proof
  assume "x # t \<in> conc UNIV L"
  then obtain xs ys where "x # t = xs @ ys" "ys \<in> L" by (auto simp: conc_def)
  then show "x # t \<in> L \<or> t \<in> conc UNIV L"
    by (cases xs) (auto simp: conc_def)
next
  assume "x # t \<in> L \<or> t \<in> conc UNIV L"
  then show "x # t \<in> conc UNIV L"
  proof
    assume "x # t \<in> L"
    then show ?thesis unfolding conc_def by (metis (mono_tags, lifting) UNIV_I append_Nil mem_Collect_eq)
  next
    assume "t \<in> conc UNIV L"
    then obtain xs ys where "t = xs @ ys" "ys \<in> L" by (auto simp: conc_def)
    then show ?thesis unfolding conc_def
      by (metis (mono_tags, lifting) UNIV_I append_Cons mem_Collect_eq)
  qed
qed

text \<open>The reference matcher decides exactly the declarative semantics.\<close>

lemma like_lang_iff: "like p t \<longleftrightarrow> t \<in> like_lang p"
proof (induction p t rule: like.induct)
  case (1 t)
  then show ?case by auto
next
  case (2 c ps)
  then show ?case by (auto simp: like_atom_def conc_UNIV_Nil conc_single_Nil)
next
  case (3 c ps x xs)
  then show ?case by (auto simp: like_atom_def conc_UNIV_Cons conc_single)
qed

section \<open>SQLite's implementation agrees with the reference\<close>

lemma ascii_fold_other: "c \<notin> set ''ABCDEFGHIJKLMNOPQRSTUVWXYZ'' \<Longrightarrow> ascii_fold c = c"
  by (simp add: ascii_fold_def map_of_zip_is_None split: option.splits)

lemma ascii_upper_other: "c \<notin> set ''abcdefghijklmnopqrstuvwxyz'' \<Longrightarrow> ascii_upper c = c"
  by (simp add: ascii_upper_def map_of_zip_is_None split: option.splits)

lemma ascii_letters:
  "\<forall>c \<in> set ''ABCDEFGHIJKLMNOPQRSTUVWXYZ''. ascii_fold c \<in> set ''abcdefghijklmnopqrstuvwxyz'' \<and>
      ascii_upper (ascii_fold c) = c \<and> of_char c < (128::nat)"
  "\<forall>c \<in> set ''abcdefghijklmnopqrstuvwxyz''. ascii_upper c \<in> set ''ABCDEFGHIJKLMNOPQRSTUVWXYZ'' \<and>
      ascii_fold (ascii_upper c) = c \<and> of_char c < (128::nat)"
proof -
  have f: "map ascii_fold ''ABCDEFGHIJKLMNOPQRSTUVWXYZ'' = ''abcdefghijklmnopqrstuvwxyz''"
    by (simp add: ascii_fold_def)
  have u: "map ascii_upper ''abcdefghijklmnopqrstuvwxyz'' = ''ABCDEFGHIJKLMNOPQRSTUVWXYZ''"
    by (simp add: ascii_upper_def)
  have hg: "map (ascii_upper \<circ> ascii_fold) ''ABCDEFGHIJKLMNOPQRSTUVWXYZ'' = ''ABCDEFGHIJKLMNOPQRSTUVWXYZ''"
    unfolding map_map [symmetric] f u ..
  have gh: "map (ascii_fold \<circ> ascii_upper) ''abcdefghijklmnopqrstuvwxyz'' = ''abcdefghijklmnopqrstuvwxyz''"
    unfolding map_map [symmetric] f u ..
  have b: "\<forall>c \<in> set ''ABCDEFGHIJKLMNOPQRSTUVWXYZ''. of_char c < (128::nat)"
    "\<forall>c \<in> set ''abcdefghijklmnopqrstuvwxyz''. of_char c < (128::nat)"
    by simp_all
  show "\<forall>c \<in> set ''ABCDEFGHIJKLMNOPQRSTUVWXYZ''. ascii_fold c \<in> set ''abcdefghijklmnopqrstuvwxyz'' \<and>
      ascii_upper (ascii_fold c) = c \<and> of_char c < (128::nat)"
    using table_inverse(1) [OF f u hg gh] b(1) by blast
  show "\<forall>c \<in> set ''abcdefghijklmnopqrstuvwxyz''. ascii_upper c \<in> set ''ABCDEFGHIJKLMNOPQRSTUVWXYZ'' \<and>
      ascii_fold (ascii_upper c) = c \<and> of_char c < (128::nat)"
    using table_inverse(2) [OF f u hg gh] b(2) by blast
qed
lemma ascii_case_facts:
  obtains U L where "\<And>c. c \<notin> U \<Longrightarrow> ascii_fold c = c" "\<And>c. c \<notin> L \<Longrightarrow> ascii_upper c = c"
    "\<And>c. c \<in> U \<Longrightarrow> ascii_fold c \<in> L \<and> ascii_upper (ascii_fold c) = c \<and> of_char c < (128::nat)"
    "\<And>c. c \<in> L \<Longrightarrow> ascii_upper c \<in> U \<and> ascii_fold (ascii_upper c) = c \<and> of_char c < (128::nat)"
    "U \<inter> L = {}"
proof
  show "c \<notin> set ''ABCDEFGHIJKLMNOPQRSTUVWXYZ'' \<Longrightarrow> ascii_fold c = c" for c
    by (rule ascii_fold_other)
  show "c \<notin> set ''abcdefghijklmnopqrstuvwxyz'' \<Longrightarrow> ascii_upper c = c" for c
    by (rule ascii_upper_other)
  show "c \<in> set ''ABCDEFGHIJKLMNOPQRSTUVWXYZ'' \<Longrightarrow>
        ascii_fold c \<in> set ''abcdefghijklmnopqrstuvwxyz'' \<and> ascii_upper (ascii_fold c) = c \<and> of_char c < (128::nat)" for c
    using ascii_letters(1) by blast
  show "c \<in> set ''abcdefghijklmnopqrstuvwxyz'' \<Longrightarrow>
        ascii_upper c \<in> set ''ABCDEFGHIJKLMNOPQRSTUVWXYZ'' \<and> ascii_fold (ascii_upper c) = c \<and> of_char c < (128::nat)" for c
    using ascii_letters(2) by blast
  show "set ''ABCDEFGHIJKLMNOPQRSTUVWXYZ'' \<inter> set ''abcdefghijklmnopqrstuvwxyz'' = {}"
    by simp
qed

lemma like_stop_iff: "like_stop c x \<longleftrightarrow> ascii_fold x = ascii_fold c"
proof -
  obtain U L where f: "\<And>c. c \<notin> U \<Longrightarrow> ascii_fold c = c" and u: "\<And>c. c \<notin> L \<Longrightarrow> ascii_upper c = c"
    and fU: "\<And>c. c \<in> U \<Longrightarrow> ascii_fold c \<in> L \<and> ascii_upper (ascii_fold c) = c \<and> of_char c < (128::nat)"
    and uL: "\<And>c. c \<in> L \<Longrightarrow> ascii_upper c \<in> U \<and> ascii_fold (ascii_upper c) = c \<and> of_char c < (128::nat)"
    and d: "U \<inter> L = {}"
    by (rule ascii_case_facts) (rule that; assumption)
  consider "c \<in> U" | "c \<in> L" | "c \<notin> U" "c \<notin> L" by blast
  then show ?thesis
  proof cases
    case 1
    then have c: "of_char c < (128::nat)" "ascii_upper c = c" "ascii_fold c \<in> L"
      "ascii_upper (ascii_fold c) = c"
      using fU [of c] u [of c] d by blast+
    have "ascii_fold x = ascii_fold c \<longleftrightarrow> x = c \<or> x = ascii_fold c"
    proof
      assume eq: "ascii_fold x = ascii_fold c"
      show "x = c \<or> x = ascii_fold c"
      proof (cases "x \<in> U")
        case True
        then show ?thesis using fU [of x] eq c(4) by simp
      next
        case False
        then show ?thesis using f [of x] eq by simp
      qed
    next
      assume "x = c \<or> x = ascii_fold c"
      moreover have "ascii_fold (ascii_fold c) = ascii_fold c"
        using c(3) d f by blast
      ultimately show "ascii_fold x = ascii_fold c" by auto
    qed
    with c show ?thesis by (auto simp: like_stop_def)
  next
    case 2
    then have c: "of_char c < (128::nat)" "ascii_upper c \<in> U" "ascii_fold (ascii_upper c) = c"
      "ascii_fold c = c"
      using uL [of c] f [of c] d by blast+
    have "ascii_fold x = ascii_fold c \<longleftrightarrow> x = ascii_upper c \<or> x = c"
    proof
      assume eq: "ascii_fold x = ascii_fold c"
      show "x = ascii_upper c \<or> x = c"
      proof (cases "x \<in> U")
        case True
        then show ?thesis using fU [of x] eq c(4) by simp
      next
        case False
        then show ?thesis using f [of x] eq c(4) by simp
      qed
    next
      assume "x = ascii_upper c \<or> x = c"
      then show "ascii_fold x = ascii_fold c" using c(3,4) by auto
    qed
    with c show ?thesis by (auto simp: like_stop_def)
  next
    case 3
    then have c: "ascii_fold c = c" "ascii_upper c = c"
      using f [of c] u [of c] by blast+
    have "ascii_fold x = ascii_fold c \<longleftrightarrow> x = c"
    proof (cases "x \<in> U")
      case True
      then show ?thesis using fU [of x] c(1) 3 by auto
    next
      case False
      then show ?thesis using f [of x] c(1) by simp
    qed
    with c show ?thesis by (simp add: like_stop_def)
  qed
qed

lemma literal_eq_iff:
  "(c = c2 \<or> (ascii_fold c = ascii_fold c2 \<and> of_char c < (128::nat) \<and> of_char c2 < (128::nat))) \<longleftrightarrow>
   ascii_fold c = ascii_fold c2"
proof -
  obtain U L where f: "\<And>c. c \<notin> U \<Longrightarrow> ascii_fold c = c"
    and fU: "\<And>c. c \<in> U \<Longrightarrow> ascii_fold c \<in> L \<and> ascii_upper (ascii_fold c) = c \<and> of_char c < (128::nat)"
    and uL: "\<And>c. c \<in> L \<Longrightarrow> ascii_upper c \<in> U \<and> ascii_fold (ascii_upper c) = c \<and> of_char c < (128::nat)"
    by (rule ascii_case_facts) (rule that; assumption)
  have "of_char c < (128::nat) \<and> of_char c2 < (128::nat)" if eq: "ascii_fold c = ascii_fold c2" and ne: "c \<noteq> c2"
  proof (cases "c \<in> U")
    case True
    then have "of_char c < (128::nat)" "ascii_fold c \<in> L" using fU [of c] by blast+
    moreover have "of_char c2 < (128::nat)"
    proof (cases "c2 \<in> U")
      case True
      then show ?thesis using fU [of c2] by blast
    next
      case False
      then have "c2 \<in> L" using f [of c2] eq \<open>ascii_fold c \<in> L\<close> by simp
      then show ?thesis using uL [of c2] by blast
    qed
    ultimately show ?thesis by blast
  next
    case False
    then have c: "ascii_fold c = c" using f [of c] by blast
    show ?thesis
    proof (cases "c2 \<in> U")
      case True
      then have "c \<in> L" "of_char c2 < (128::nat)" using fU [of c2] eq c by simp_all
      then show ?thesis using uL [of c] by blast
    next
      case False
      then show ?thesis using f [of c2] eq c ne by simp
    qed
  qed
  then show ?thesis by blast
qed


lemma like_percent_suffix: "suffix t s \<Longrightarrow> like (CHR ''%'' # q) t \<Longrightarrow> like (CHR ''%'' # q) s"
  using like_percent_Cons suffix_order.trans by metis

lemma suffix_Cons_before: "suffix zs s \<Longrightarrow> \<exists>y. suffix (y # zs) (x # s)"
proof -
  assume "suffix zs s"
  then obtain u where u: "s = u @ zs" by (auto simp: suffix_def)
  obtain v y where "x # u = v @ [y]" by (metis list.distinct(1) rev_exhaust)
  then have "x # s = v @ y # zs" using u by simp
  then show ?thesis by (auto simp: suffix_def)
qed

lemma like_percent_percent: "like (CHR ''%'' # CHR ''%'' # p) t \<longleftrightarrow> like (CHR ''%'' # p) t"
  using like_percent_Cons [of "CHR ''%'' # p"] like_percent_Cons [of p] suffix_order.trans by blast

lemma like_percent_underscore:
  "like (CHR ''%'' # CHR ''_'' # p) t \<longleftrightarrow> (case t of [] \<Rightarrow> False | x # t' \<Rightarrow> like (CHR ''%'' # p) t')"
proof (cases t)
  case Nil
  then show ?thesis by simp
next
  case (Cons x t')
  have "(\<exists>zs. suffix zs t \<and> like (CHR ''_'' # p) zs) \<longleftrightarrow> (\<exists>zs. suffix zs t' \<and> like p zs)"
  proof
    assume "\<exists>zs. suffix zs t \<and> like (CHR ''_'' # p) zs"
    then obtain zs where zs: "suffix zs t" "like (CHR ''_'' # p) zs" by blast
    then obtain y zs' where yz: "zs = y # zs'" by (cases zs) auto
    from zs yz have "like p zs'" by simp
    from zs(1) yz Cons have "suffix zs' t'" by (auto simp: suffix_Cons dest: suffix_ConsD)
    show "\<exists>zs. suffix zs t' \<and> like p zs"
      using \<open>suffix zs' t'\<close> \<open>like p zs'\<close> by blast
  next
    assume "\<exists>zs. suffix zs t' \<and> like p zs"
    then obtain zs where zs: "suffix zs t'" "like p zs" by blast
    obtain y where "suffix (y # zs) (x # t')" using suffix_Cons_before [OF zs(1)] by blast
    then have "suffix (y # zs) t" using Cons by simp
    moreover from zs(2) have "like (CHR ''_'' # p) (y # zs)" by simp
    ultimately show "\<exists>zs. suffix zs t \<and> like (CHR ''_'' # p) zs" by blast
  qed
  then show ?thesis
    using Cons like_percent_Cons [of "CHR ''_'' # p" t] like_percent_Cons [of p t'] by simp
qed

lemma skip_wild_None: "skip_wild p s = None \<Longrightarrow> \<not> like (CHR ''%'' # p) s"
proof (induction p s rule: skip_wild.induct)
  case (1 s)
  then show ?case by simp
next
  case (2 c p s)
  show ?case
  proof (cases "c = CHR ''%''")
    case True
    with 2 show ?thesis by (simp add: like_percent_percent)
  next
    case nopct: False
    show ?thesis
    proof (cases "c = CHR ''_''")
      case True
      show ?thesis
      proof (cases s)
        case Nil
        with True show ?thesis by (simp add: like_percent_underscore)
      next
        case (Cons x s')
        have "like (CHR ''%'' # c # p) s = like (CHR ''%'' # p) s'"
          using like_percent_underscore [of p s] True Cons by (simp only: list.case)
        with True nopct Cons 2 show ?thesis by simp
      qed
    next
      case False
      with nopct 2(3) show ?thesis by simp
    qed
  qed
qed

lemma skip_wild_Some:
  "skip_wild p s = Some (q, s') \<Longrightarrow>
     (like (CHR ''%'' # p) s \<longleftrightarrow> like (CHR ''%'' # q) s') \<and> length q \<le> length p \<and>
     (\<forall>c q'. q = c # q' \<longrightarrow> c \<noteq> CHR ''%'' \<and> c \<noteq> CHR ''_'')"
proof (induction p s rule: skip_wild.induct)
  case (1 s)
  then show ?case by simp
next
  case (2 c p s)
  show ?case
  proof (cases "c = CHR ''%''")
    case True
    with 2 show ?thesis by (simp add: like_percent_percent)
  next
    case nopct: False
    show ?thesis
    proof (cases "c = CHR ''_''")
      case True
      show ?thesis
      proof (cases s)
        case Nil
        with True nopct 2(3) show ?thesis by simp
      next
        case (Cons x s')
        have "like (CHR ''%'' # c # p) s = like (CHR ''%'' # p) s'"
          using like_percent_underscore [of p s] True Cons by (simp only: list.case)
        with True nopct Cons 2 show ?thesis by simp
      qed
    next
      case False
      with nopct 2(3) show ?thesis by auto
    qed
  qed
qed


text \<open>No suffix of a string matches a pattern: the meaning of \<open>NoWildcardMatch\<close>.\<close>

lemma no_suffix_literal:
  assumes "c \<noteq> CHR ''%''" and "\<forall>t. suffix t xs \<longrightarrow> \<not> like q t"
  shows "\<forall>t. suffix t (x # xs) \<longrightarrow> \<not> like (c # q) t"
proof (intro allI impI)
  fix t assume t: "suffix t (x # xs)"
  show "\<not> like (c # q) t"
  proof (cases t)
    case Nil
    with assms(1) show ?thesis by simp
  next
    case (Cons y ys)
    with t have "suffix ys xs" by (auto simp: suffix_Cons dest: suffix_ConsD)
    with Cons assms show ?thesis by simp
  qed
qed

lemma scan_loop_correct:
  assumes c: "c \<noteq> CHR ''%''" "c \<noteq> CHR ''_''"
    and f: "\<And>xs. \<exists>r. f xs = Some r \<and> (r = Match \<longleftrightarrow> like q xs) \<and>
                     (r = NoWildcardMatch \<longrightarrow> (\<forall>t. suffix t xs \<longrightarrow> \<not> like q t))"
  shows "\<exists>r. scan_loop f c s = Some r \<and> r \<noteq> NoMatch \<and> (r = Match \<longleftrightarrow> like (CHR ''%'' # c # q) s)"
proof (induction s)
  case Nil
  with c show ?case by simp
next
  case (Cons x xs)
  obtain r' where r': "scan_loop f c xs = Some r'" "r' \<noteq> NoMatch"
    "r' = Match \<longleftrightarrow> like (CHR ''%'' # c # q) xs"
    using Cons.IH by blast
  have step: "like (CHR ''%'' # c # q) (x # xs) \<longleftrightarrow>
              (ascii_fold c = ascii_fold x \<and> like q xs) \<or> like (CHR ''%'' # c # q) xs"
    using c by simp
  show ?case
  proof (cases "like_stop c x")
    case False
    then have "ascii_fold c \<noteq> ascii_fold x" by (simp add: like_stop_iff)
    with False r' step show ?thesis by simp
  next
    case stop: True
    then have fx: "ascii_fold c = ascii_fold x" by (simp add: like_stop_iff)
    obtain r where r: "f xs = Some r" "r = Match \<longleftrightarrow> like q xs"
      "r = NoWildcardMatch \<longrightarrow> (\<forall>t. suffix t xs \<longrightarrow> \<not> like q t)"
      using f by blast
    consider "r = Match" | "r = NoWildcardMatch" | "r = NoMatch" by (cases r) auto
    then show ?thesis
    proof cases
      case 1
      with stop r fx step show ?thesis by simp
    next
      case 2
      with r have none: "\<forall>t. suffix t xs \<longrightarrow> \<not> like q t" by simp
      then have "\<not> like (c # q) t" if "suffix t xs" for t
        using no_suffix_literal [OF c(1) none, of x] that by (simp add: suffix_ConsI)
      then have "\<not> like (CHR ''%'' # c # q) xs"
        unfolding like_percent_Cons by blast
      with 2 stop r none step show ?thesis by simp
    next
      case 3
      with stop r r' fx step show ?thesis by simp
    qed
  qed
qed


lemma pattern_compare_correct:
  "\<exists>r. pattern_compare p s = Some r \<and> (r = Match \<longleftrightarrow> like p s) \<and>
       (r = NoWildcardMatch \<longrightarrow> (\<forall>t. suffix t s \<longrightarrow> \<not> like p t))"
proof (induction "length p" arbitrary: p s rule: less_induct)
  case less
  show ?case
  proof (cases p)
    case Nil
    then show ?thesis by (subst pattern_compare.simps) simp
  next
    case p: (Cons c p')
    show ?thesis
    proof (cases "c = CHR ''%''")
      case pct: True
      show ?thesis
      proof (cases "skip_wild p' s")
        case None
        then have nl: "\<not> like (CHR ''%'' # p') s" by (rule skip_wild_None)
        then have "\<forall>t. suffix t s \<longrightarrow> \<not> like (CHR ''%'' # p') t"
          using like_percent_suffix by blast
        with None nl p pct show ?thesis by (subst pattern_compare.simps) simp
      next
        case (Some qs)
        then obtain q s' where qs: "skip_wild p' s = Some (q, s')" by (cases qs) auto
        note sk = skip_wild_Some [OF qs]
        show ?thesis
        proof (cases q)
          case Nil
          then have "like (CHR ''%'' # p') s"
            using sk like_all_percent [of "[CHR ''%'']" s'] by simp
          with qs Nil p pct show ?thesis by (subst pattern_compare.simps) simp
        next
          case q: (Cons c' p'')
          have c': "c' \<noteq> CHR ''%''" "c' \<noteq> CHR ''_''" using sk q by blast+
          have "length p'' < length p" using sk q p by simp
          then have IH: "\<And>xs. \<exists>r. pattern_compare p'' xs = Some r \<and> (r = Match \<longleftrightarrow> like p'' xs) \<and>
                          (r = NoWildcardMatch \<longrightarrow> (\<forall>t. suffix t xs \<longrightarrow> \<not> like p'' t))"
            using less by blast
          obtain r where r: "scan_loop (\<lambda>xs. pattern_compare p'' xs) c' s' = Some r" "r \<noteq> NoMatch"
            "r = Match \<longleftrightarrow> like (CHR ''%'' # c' # p'') s'"
            using scan_loop_correct [OF c' IH] by blast
          have eq: "pattern_compare p s = scan_loop (\<lambda>xs. pattern_compare p'' xs) c' s'"
            using qs q p pct by (subst pattern_compare.simps) simp
          have m: "r = Match \<longleftrightarrow> like p s" using r(3) sk q p pct by simp
          have nw: "r = NoWildcardMatch \<longrightarrow> (\<forall>t. suffix t s \<longrightarrow> \<not> like p t)"
            using m p pct like_percent_suffix by auto
          show ?thesis using eq r(1) m nw by (intro exI [of _ r]) simp
        qed
      qed
    next
      case nopct: False
      show ?thesis
      proof (cases s)
        case Nil
        with p nopct show ?thesis by (subst pattern_compare.simps) simp
      next
        case s: (Cons c2 s')
        show ?thesis
        proof (cases "c = CHR ''_'' \<or> ascii_fold c = ascii_fold c2")
          case True
          then have "(c = c2 \<or> (ascii_fold c = ascii_fold c2 \<and> of_char c < (128::nat) \<and>
                       of_char c2 < (128::nat))) \<or> c = CHR ''_''"
            using literal_eq_iff [of c c2] by blast
          then have eq: "pattern_compare p s = pattern_compare p' s'"
            using p s nopct by (subst pattern_compare.simps) simp
          obtain r where r: "pattern_compare p' s' = Some r" "r = Match \<longleftrightarrow> like p' s'"
            "r = NoWildcardMatch \<longrightarrow> (\<forall>t. suffix t s' \<longrightarrow> \<not> like p' t)"
            using less [of p'] p by auto
          have "like p s \<longleftrightarrow> like p' s'" using True p s nopct by auto
          moreover have "\<forall>t. suffix t s \<longrightarrow> \<not> like p t" if "r = NoWildcardMatch"
            using no_suffix_literal [OF nopct, of s' p' c2] r(3) that p s by simp
          ultimately show ?thesis using eq r by auto
        next
          case False
          then have "\<not> ((c = c2 \<or> (ascii_fold c = ascii_fold c2 \<and> of_char c < (128::nat) \<and>
                       of_char c2 < (128::nat))) \<or> c = CHR ''_'')"
            using literal_eq_iff [of c c2] by blast
          with p s nopct False show ?thesis by (subst pattern_compare.simps) simp
        qed
      qed
    qed
  qed
qed

lemma utf8_length_append [simp]: "utf8_length (xs @ ys) = utf8_length xs + utf8_length ys"
  by (simp add: utf8_length_def)

lemma sql_contains_like:
  "sql_contains col q =
     (if 49998 < utf8_length q then None else Some (like (CHR ''%'' # q @ [CHR ''%'']) col))"
proof -
  obtain r where r: "pattern_compare (CHR ''%'' # q @ [CHR ''%'']) col = Some r"
    "r = Match \<longleftrightarrow> like (CHR ''%'' # q @ [CHR ''%'']) col"
    using pattern_compare_correct by blast
  have "utf8_length (CHR ''%'' # q @ [CHR ''%'']) = utf8_length q + 2"
    by (simp add: utf8_length_def)
  with r show ?thesis by (simp add: sql_contains_def like_func_def)
qed

section \<open>Properties of SQLite's matcher\<close>

text \<open>C18: SQLite's \<open>patternCompare\<close>, modelled as a partial function that might run
  forever, returns on every pattern and string, and it returns \<open>SQLITE_MATCH\<close> exactly
  when the reference matcher accepts: the cut-off by \<open>SQLITE_NOWILDCARDMATCH\<close> never
  loses a match. So the search's \<open>contains\<close> filter always returns a value, except
  exactly when the query is too long for SQLite's pattern limit.\<close>

theorem pattern_compare_terminates:
  "(\<exists>r. pattern_compare p s = Some r \<and> (r = Match \<longleftrightarrow> like p s)) \<and>
   (sql_contains col q \<noteq> None \<longleftrightarrow> utf8_length q \<le> 49998)"
  using pattern_compare_correct [of p s] sql_contains_like [of col q] by auto

text \<open>C34: SQLite's \<open>patternCompare\<close> decides the documented semantics of
  \<open>LIKE\<close>: it returns \<open>SQLITE_MATCH\<close> exactly for the strings in the language of the
  pattern; the search's \<open>contains\<close> filter accepts a column exactly when the query is
  within the length limit and the column lies in the language of \<open>'%' || q || '%'\<close>.\<close>

theorem pattern_compare_lang:
  "(pattern_compare p s = Some Match \<longleftrightarrow> s \<in> like_lang p) \<and>
   (sql_contains col q = Some True \<longleftrightarrow>
      utf8_length q \<le> 49998 \<and> col \<in> like_lang (CHR ''%'' # q @ [CHR ''%'']))"
proof -
  obtain r where "pattern_compare p s = Some r" "r = Match \<longleftrightarrow> like p s"
    using pattern_compare_correct [of p s] by blast
  then show ?thesis
    using like_lang_iff [of p s] like_lang_iff [of "CHR ''%'' # q @ [CHR ''%'']" col]
    by (auto simp: sql_contains_like)
qed

end
