(* ===== verification/Blog_Posts.thy ===== *)
theory Blog_Posts
  imports Blog_Model Sql_Like
begin

text \<open>
  The post routes of \<open>src/app.py\<close>: \<open>index\<close>, \<open>profile\<close>, \<open>create_post\<close>,
  \<open>view_post\<close>, \<open>edit_post\<close>, \<open>delete_post\<close> and \<open>search\<close>, each a function from
  the store, the requesting client's session and the request's data to a \<open>result\<close>.
  The lemmas show that the read routes never change the store, that only the author of a
  post can change or delete it, what each write does to the tables, and what the listing
  and search routes return.
\<close>

definition index :: "store \<Rightarrow> nat option \<Rightarrow> result" where
  "index s sess = respond s sess (Render (Index_page (order_by_date_desc (posts s)))) []"

definition profile :: "store \<Rightarrow> nat option \<Rightarrow> string \<Rightarrow> result" where
  "profile s sess name =
     (case user_by_username s name of
        None \<Rightarrow> respond s sess (Abort 404) []
      | Some u \<Rightarrow>
          respond s sess
            (Render (Profile_page u
               (order_by_date_desc (filter (\<lambda>p. user_id p = u_id u) (posts s))))) [])"

definition create_post :: "store \<Rightarrow> nat option \<Rightarrow> http_method \<Rightarrow> form \<Rightarrow> nat \<Rightarrow> result" where
  "create_post s sess m f now =
     login_required s sess (\<lambda>u.
       if m = POST then
         (case add_post s (u_id u) now (form_get f ''title'') (form_get f ''content'')
                 (form_get f ''tags'') (form_get f ''thumbnail'') of
            Inl e \<Rightarrow> respond s sess (Raised e) []
          | Inr s' \<Rightarrow> respond s' sess (Redirect To_index) [])
       else respond s sess (Render Create_post_page) [])"

definition view_post :: "store \<Rightarrow> nat option \<Rightarrow> nat \<Rightarrow> result" where
  "view_post s sess pid =
     (case post_get s pid of
        None \<Rightarrow> respond s sess (Abort 404) []
      | Some p \<Rightarrow> respond s sess (Render (Post_page p)) [])"

definition edit_forbidden_message :: string where
  "edit_forbidden_message = ''You do not have permission to edit this post.''"

definition delete_forbidden_message :: string where
  "delete_forbidden_message = ''You do not have permission to delete this post.''"

definition deleted_message :: string where
  "deleted_message = ''Your post has been deleted!''"

text \<open>
  \<open>post.author != current_user\<close> compares two \<open>User\<close> objects with
  \<open>UserMixin.__eq__\<close>, that is by id; the model compares \<open>user_id\<close> with the id of
  the current user.
\<close>

definition edit_post :: "store \<Rightarrow> nat option \<Rightarrow> http_method \<Rightarrow> form \<Rightarrow> nat \<Rightarrow> result" where
  "edit_post s sess m f pid =
     login_required s sess (\<lambda>u.
       case post_get s pid of
         None \<Rightarrow> respond s sess (Abort 404) []
       | Some p \<Rightarrow>
           if user_id p \<noteq> u_id u
           then respond s sess (Redirect (To_view_post (p_id p))) [(Danger, edit_forbidden_message)]
           else if m = POST then
             (case update_post s pid (form_get f ''title'') (form_get f ''content'')
                     (form_get f ''tags'') (form_get f ''thumbnail'') of
                Inl e \<Rightarrow> respond s sess (Raised e) []
              | Inr s' \<Rightarrow> respond s' sess (Redirect (To_view_post (p_id p))) [])
           else respond s sess (Render (Edit_post_page p)) [])"

definition delete_post :: "store \<Rightarrow> nat option \<Rightarrow> nat \<Rightarrow> result" where
  "delete_post s sess pid =
     login_required s sess (\<lambda>u.
       case post_get s pid of
         None \<Rightarrow> respond s sess (Abort 404) []
       | Some p \<Rightarrow>
           if user_id p \<noteq> u_id u
           then respond s sess (Redirect (To_view_post (p_id p)))
                  [(Danger, delete_forbidden_message)]
           else respond (delete_row s pid) sess (Redirect To_index) [(Success, deleted_message)])"

text \<open>
  \<open>search\<close>: \<open>if query:\<close> is false for a missing parameter and for the empty string;
  otherwise the posts whose title or content \<open>contains\<close> the query, newest first. The
  filter is the SQL \<open>OR\<close> of two \<open>LIKE\<close> tests evaluated row by row; when SQLite refuses
  the pattern (over its length limit) the statement raises \<open>OperationalError\<close>, which
  happens only if there is a row to test.
\<close>

definition search_filter :: "string \<Rightarrow> Post \<Rightarrow> bool option" where
  "search_filter q p =
     (case sql_contains (title p) q of
        None \<Rightarrow> None
      | Some True \<Rightarrow> Some True
      | Some False \<Rightarrow> sql_contains (content p) q)"

definition search :: "store \<Rightarrow> nat option \<Rightarrow> form \<Rightarrow> result" where
  "search s sess args =
     (case form_get args ''q'' of
        None \<Rightarrow> respond s sess (Render (Search_page [] None)) []
      | Some q \<Rightarrow>
          if q = [] then respond s sess (Render (Search_page [] (Some q))) []
          else (case filter_option (search_filter q) (posts s) of
                  None \<Rightarrow> respond s sess (Raised OperationalError) []
                | Some ps \<Rightarrow> respond s sess (Render (Search_page (order_by_date_desc ps) (Some q))) []))"

declare index_def [handler_defs] profile_def [handler_defs] create_post_def [handler_defs]
  view_post_def [handler_defs] edit_post_def [handler_defs] delete_post_def [handler_defs]
  search_def [handler_defs]

section \<open>The read routes leave the store alone\<close>

lemma read_routes_db [simp]:
  "res_db (index s sess) = s" "res_db (profile s sess name) = s"
  "res_db (view_post s sess pid) = s" "res_db (search s sess args) = s"
  by (simp_all add: handler_defs split: option.splits)

lemma read_routes_sess [simp]:
  "res_sess (index s sess) = sess" "res_sess (profile s sess name) = sess"
  "res_sess (view_post s sess pid) = sess" "res_sess (search s sess args) = sess"
  by (simp_all add: handler_defs split: option.splits)

section \<open>Shared facts on posts\<close>

lemma post_get_in_posts:
  assumes "store_inv s" and "p \<in> set (posts s)"
  shows "post_get s (p_id p) = Some p"
  using assms find_key_unique [of p_id "posts s" p]
  by (simp add: post_get_def store_inv_def)

lemma post_get_delete_row [simp]: "post_get (delete_row s pid) pid = None"
  by (simp add: post_get_def delete_row_def find_None_iff)

lemma post_get_update_row:
  assumes "distinct (map p_id (posts s))" and "post_get s pid = Some p"
    and that: "\<And>q. p_id (g q) = p_id q"
  shows "post_get (s\<lparr>posts := map (\<lambda>q. if p_id q = pid then g q else q) (posts s)\<rparr>) pid =
         Some (g p)"
proof -
  have "p \<in> set (posts s)" and pid: "p_id p = pid"
    using assms(2) post_getD by blast+
  then have mem: "g p \<in> set (map (\<lambda>q. if p_id q = pid then g q else q) (posts s))"
    by force
  have dist: "distinct (map p_id (map (\<lambda>q. if p_id q = pid then g q else q) (posts s)))"
    using assms(1) map_key_update_row [of p_id g] that by (simp del: map_map)
  have key: "p_id (g p) = pid"
    using pid that by simp
  have "find (\<lambda>q. p_id q = pid) (map (\<lambda>q. if p_id q = pid then g q else q) (posts s)) =
                   Some (g p)"
    by (rule find_key_eq [OF dist mem key])
  then show ?thesis by (simp add: post_get_def)
qed

section \<open>Editing\<close>

text \<open>C4: A logged-in user who is not the author of an existing post and asks to edit it,
  by GET or POST, gets the "no permission" warning and a redirect to the post, and the
  store is unchanged.\<close>

theorem edit_post_forbidden:
  assumes "current_user s sess = Some u" and "post_get s pid = Some p"
    and "user_id p \<noteq> u_id u"
  shows "edit_post s sess m f pid =
         respond s sess (Redirect (To_view_post pid)) [(Danger, edit_forbidden_message)]"
  using assms post_getD [OF assms(2)] by (simp add: edit_post_def)

text \<open>C2: Only the author changes a post: whenever \<open>edit_post\<close> changes the store, the
  request was a POST from a logged-in user who is the author of the existing post.\<close>

theorem edit_post_only_author:
  assumes "res_db (edit_post s sess m f pid) \<noteq> s"
  shows "\<exists>u p. current_user s sess = Some u \<and> post_get s pid = Some p \<and>
               user_id p = u_id u \<and> m = POST"
  using assms
  by (auto simp: edit_post_def login_required_def split: option.splits if_splits sum.splits)

text \<open>C7: An edit POST by the author with a title and a content replaces the post's title,
  content, tags and thumbnail with the submitted values (keeping its id, date and
  author), leaves every other row as it was, and redirects to the post.\<close>

theorem edit_post_by_author:
  assumes "store_inv s" and "current_user s sess = Some u" and "post_get s pid = Some p"
    and "user_id p = u_id u"
    and "form_get f ''title'' = Some t" and "form_get f ''content'' = Some c"
  shows "edit_post s sess POST f pid =
           respond (s\<lparr>posts := map (\<lambda>q. if p_id q = pid
                                    then set_post_fields t c (form_get f ''tags'')
                                           (form_get f ''thumbnail'') q
                                    else q) (posts s)\<rparr>)
             sess (Redirect (To_view_post pid)) [] \<and>
         post_get (res_db (edit_post s sess POST f pid)) pid =
           Some (set_post_fields t c (form_get f ''tags'') (form_get f ''thumbnail'') p)"
proof -
  have pid: "p_id p = pid"
    using post_getD [OF assms(3)] by simp
  have eq: "edit_post s sess POST f pid =
           respond (s\<lparr>posts := map (\<lambda>q. if p_id q = pid
                                    then set_post_fields t c (form_get f ''tags'')
                                           (form_get f ''thumbnail'') q
                                    else q) (posts s)\<rparr>)
             sess (Redirect (To_view_post pid)) []"
    using assms pid by (simp add: edit_post_def update_post_def)
  have "distinct (map p_id (posts s))"
    using assms(1) by (simp add: store_inv_def)
  with eq show ?thesis
    using post_get_update_row [OF _ assms(3)] by simp
qed

section \<open>Deleting\<close>

text \<open>C5: A logged-in user who is not the author of an existing post and asks to delete
  it gets the "no permission" warning and a redirect to the post; the store is
  unchanged.\<close>

theorem delete_post_forbidden:
  assumes "current_user s sess = Some u" and "post_get s pid = Some p"
    and "user_id p \<noteq> u_id u"
  shows "delete_post s sess pid =
         respond s sess (Redirect (To_view_post pid)) [(Danger, delete_forbidden_message)]"
  using assms post_getD [OF assms(2)] by (simp add: delete_post_def)

text \<open>C3: Only the author deletes a post: whenever \<open>delete_post\<close> changes the store,
  the request came from a logged-in user who is the author of the existing post.\<close>

theorem delete_post_only_author:
  assumes "res_db (delete_post s sess pid) \<noteq> s"
  shows "\<exists>u p. current_user s sess = Some u \<and> post_get s pid = Some p \<and> user_id p = u_id u"
  using assms
  by (auto simp: delete_post_def login_required_def split: option.splits if_splits)

text \<open>C6: A delete by the author removes exactly that post: the multiset of rows after
  the request plus the deleted post is the multiset before it, so every other post (in
  particular every post of every other user) stays; the post's id no longer resolves.\<close>

theorem delete_post_by_author:
  assumes "store_inv s" and "current_user s sess = Some u" and "post_get s pid = Some p"
    and "user_id p = u_id u"
  shows "delete_post s sess pid =
           respond (delete_row s pid) sess (Redirect To_index) [(Success, deleted_message)] \<and>
         mset (posts s) = add_mset p (mset (posts (delete_row s pid))) \<and>
         post_get (delete_row s pid) pid = None"
proof -
  have "distinct (map p_id (posts s))"
    using assms(1) by (simp add: store_inv_def)
  moreover have "p \<in> set (posts s)" and pid: "p_id p = pid"
    using post_getD [OF assms(3)] by simp_all
  ultimately have "mset (posts s) = add_mset p (mset (posts (delete_row s pid)))"
    using mset_remove_key [of p_id "posts s" p] by (simp add: delete_row_def)
  then show ?thesis
    using assms by (simp add: delete_post_def)
qed

section \<open>Creating\<close>

text \<open>C15: A create POST by a logged-in user with a title and a content appends one post
  with a fresh id, the current user as author, the clock reading as date, and the
  submitted fields stored as given; a missing tags or thumbnail field gets its column
  default (the empty string or the placeholder image), but a submitted one, even empty,
  is stored as given, so an empty thumbnail field does not get the placeholder.\<close>

theorem create_post_appends:
  assumes "current_user s sess = Some u"
    and "form_get f ''title'' = Some t" and "form_get f ''content'' = Some c"
  shows "\<exists>p. create_post s sess POST f now =
               respond (s\<lparr>posts := posts s @ [p]\<rparr>) sess (Redirect To_index) [] \<and>
             p_id p \<notin> p_id ` set (posts s) \<and> user_id p = u_id u \<and> date_posted p = now \<and>
             title p = t \<and> content p = c \<and>
             tags p = Some (case form_get f ''tags'' of None \<Rightarrow> default_tags | Some x \<Rightarrow> x) \<and>
             thumbnail p =
               Some (case form_get f ''thumbnail'' of None \<Rightarrow> default_thumbnail | Some x \<Rightarrow> x)"
  using assms by (auto simp: create_post_def add_post_def)

text \<open>C24: A create or edit POST without a title or without a content fails at the commit
  with \<open>IntegrityError\<close> (HTTP 500) and leaves the store unchanged.\<close>

theorem missing_field_raises:
  assumes "current_user s sess = Some u"
    and "form_get f ''title'' = None \<or> form_get f ''content'' = None"
  shows "create_post s sess POST f now = respond s sess (Raised IntegrityError) [] \<and>
         (\<forall>p. post_get s pid = Some p \<longrightarrow> user_id p = u_id u \<longrightarrow>
              edit_post s sess POST f pid = respond s sess (Raised IntegrityError) [])"
  using assms by (auto simp: create_post_def edit_post_def add_post_def update_post_def
                       split: option.splits)

section \<open>Which requests remove a row\<close>

text \<open>A row disappears from the posts table only through an edit or delete of that row by
  a request whose session names the row's author.\<close>

lemma post_get_row:
  assumes "store_inv s" and "p \<in> set (posts s)" and "post_get s (p_id p) = Some q"
  shows "q = p"
  using assms post_get_in_posts by fastforce

lemma edit_post_removes:
  assumes "store_inv s" and "p \<in> set (posts s)"
    and "p \<notin> set (posts (res_db (edit_post s sess m f pid)))"
  shows "sess = Some (user_id p)"
proof -
  obtain u q where u: "current_user s sess = Some u" and q: "post_get s pid = Some q"
    and "user_id q = u_id u" and "m = POST"
    using assms(3) \<open>p \<in> set (posts s)\<close>
    by (auto simp: edit_post_def login_required_def update_post_Inr
             split: option.splits if_splits sum.splits)
  moreover have "p_id p = pid"
    using assms(2,3) \<open>m = POST\<close> u q \<open>user_id q = u_id u\<close>
    by (auto simp: edit_post_def update_post_Inr split: sum.splits)
  ultimately show ?thesis
    using post_get_row [OF assms(1,2)] current_userD by fastforce
qed

lemma delete_post_removes:
  assumes "store_inv s" and "p \<in> set (posts s)"
    and "p \<notin> set (posts (res_db (delete_post s sess pid)))"
  shows "sess = Some (user_id p)"
proof -
  obtain u q where u: "current_user s sess = Some u" and q: "post_get s pid = Some q"
    and "user_id q = u_id u"
    using assms(3) \<open>p \<in> set (posts s)\<close>
    by (auto simp: delete_post_def login_required_def split: option.splits if_splits)
  moreover have "p_id p = pid"
    using assms(2,3) u q \<open>user_id q = u_id u\<close> by (auto simp: delete_post_def delete_row_def)
  ultimately show ?thesis
    using post_get_row [OF assms(1,2)] current_userD by fastforce
qed

lemma create_post_keeps_rows:
  "p \<in> set (posts s) \<Longrightarrow> p \<in> set (posts (res_db (create_post s sess m f now)))"
  by (auto simp: create_post_def login_required_def add_post_Inr split: option.splits sum.splits)

section \<open>Listing, viewing and searching\<close>

lemma order_by_date_desc_props:
  "mset (order_by_date_desc ps) = mset ps"
  "sorted_wrt (\<lambda>a b. date_posted b \<le> date_posted a) (order_by_date_desc ps)"
  by (simp_all add: order_by_date_desc_def sorted_order_desc)

text \<open>C21: The home page lists every post exactly once, newest first.\<close>

theorem index_lists_all_posts:
  "\<exists>ps. index s sess = respond s sess (Render (Index_page ps)) [] \<and>
        mset ps = mset (posts s) \<and> sorted_wrt (\<lambda>a b. date_posted b \<le> date_posted a) ps"
  by (intro exI [of _ "order_by_date_desc (posts s)"]) (simp add: index_def order_by_date_desc_props)

text \<open>C19: A profile page for an unknown username is a 404; for a registered user it shows
  that user and exactly that user's posts, newest first.\<close>

theorem profile_result:
  "(\<forall>name. user_by_username s name = None \<longrightarrow> profile s sess name = respond s sess (Abort 404) []) \<and>
   (\<forall>name u. user_by_username s name = Some u \<longrightarrow>
      (\<exists>ps. profile s sess name = respond s sess (Render (Profile_page u ps)) [] \<and>
            username u = name \<and> u \<in> set (users s) \<and>
            mset ps = mset (filter (\<lambda>p. user_id p = u_id u) (posts s)) \<and>
            sorted_wrt (\<lambda>a b. date_posted b \<le> date_posted a) ps))"
proof -
  have "\<exists>ps. profile s sess name = respond s sess (Render (Profile_page u ps)) [] \<and>
            username u = name \<and> u \<in> set (users s) \<and>
            mset ps = mset (filter (\<lambda>p. user_id p = u_id u) (posts s)) \<and>
            sorted_wrt (\<lambda>a b. date_posted b \<le> date_posted a) ps"
    if "user_by_username s name = Some u" for name u
    using that find_SomeD [of "\<lambda>u. username u = name" "users s" u]
    by (intro exI [of _ "order_by_date_desc (filter (\<lambda>p. user_id p = u_id u) (posts s))"])
       (simp add: profile_def user_by_username_def order_by_date_desc_props)
  then show ?thesis by (simp add: profile_def)
qed

text \<open>C31: Viewing a post id that no row has is a 404; otherwise the page shows that post,
  and in a store satisfying the invariant its author exists.\<close>

theorem view_post_result:
  assumes "store_inv s"
  shows "(post_get s pid = None \<longrightarrow> view_post s sess pid = respond s sess (Abort 404) []) \<and>
         (\<forall>p. post_get s pid = Some p \<longrightarrow>
              view_post s sess pid = respond s sess (Render (Post_page p)) [] \<and>
              p_id p = pid \<and> (\<exists>a \<in> set (users s). u_id a = user_id p))"
proof -
  have "\<exists>a \<in> set (users s). u_id a = user_id p" if "post_get s pid = Some p" for p
    using that assms post_getD [of s pid p] by (force simp: store_inv_def)
  then show ?thesis
    by (auto simp: view_post_def dest: post_getD)
qed

lemma search_filter_like:
  "search_filter q p =
     (if 49998 < utf8_length q then None
      else Some (like (CHR ''%'' # q @ [CHR ''%'']) (title p) \<or> like (CHR ''%'' # q @ [CHR ''%'']) (content p)))"
  by (simp add: search_filter_def sql_contains_like split: bool.splits)

lemma search_rows:
  assumes "form_get args ''q'' = Some q" and "q \<noteq> []" and "utf8_length q \<le> 49998"
  shows "search s sess args =
           respond s sess (Render (Search_page (order_by_date_desc (filter (\<lambda>p. search_filter q p = Some True) (posts s)))
                                               (Some q))) []"
proof -
  have "filter_option (search_filter q) (posts s) = Some (filter (\<lambda>p. search_filter q p = Some True) (posts s))"
    using assms(3) by (intro filter_option_Some) (simp add: search_filter_like)
  with assms(1,2) show ?thesis by (simp add: search_def)
qed

text \<open>C16: A search with no query or the empty query returns no posts (not all posts); a
  non-empty query within SQLite's pattern limit returns exactly the posts whose title or
  content matches it, newest first; a longer query makes the statement fail with
  \<open>OperationalError\<close> (an HTTP 500) as soon as there is a post.\<close>

theorem search_result:
  "(form_get args ''q'' = None \<longrightarrow>
      search s sess args = respond s sess (Render (Search_page [] None)) []) \<and>
   (form_get args ''q'' = Some [] \<longrightarrow>
      search s sess args = respond s sess (Render (Search_page [] (Some []))) []) \<and>
   (\<forall>q. form_get args ''q'' = Some q \<longrightarrow> q \<noteq> [] \<longrightarrow> utf8_length q \<le> 49998 \<longrightarrow>
      (\<exists>ps. search s sess args = respond s sess (Render (Search_page ps (Some q))) [] \<and>
            mset ps = mset (filter (\<lambda>p. search_filter q p = Some True) (posts s)) \<and>
            sorted_wrt (\<lambda>a b. date_posted b \<le> date_posted a) ps)) \<and>
   (\<forall>q. form_get args ''q'' = Some q \<longrightarrow> 49998 < utf8_length q \<longrightarrow> posts s \<noteq> [] \<longrightarrow>
      search s sess args = respond s sess (Raised OperationalError) [])"
proof -
  have long: "search s sess args = respond s sess (Raised OperationalError) []"
    if a: "form_get args ''q'' = Some q" "49998 < utf8_length q" "posts s \<noteq> []" for q
  proof -
    obtain p where "p \<in> set (posts s)" using a(3) by (cases "posts s") auto
    then have "filter_option (search_filter q) (posts s) = None"
      using a(2) by (intro filter_option_None) (simp_all add: search_filter_like)
    moreover have "q \<noteq> []" using a(2) by (auto simp: utf8_length_def)
    ultimately show ?thesis using a(1) by (simp add: search_def)
  qed
  show ?thesis
    using search_rows [of args _ s sess] long
    by (auto simp: search_def order_by_date_desc_props)
qed

text \<open>C17: For a query with no wildcard characters, within the pattern limit, a post is
  found exactly when the query occurs in its title or its content, ignoring ASCII case.\<close>

theorem search_filter_substring:
  assumes "wildcard_free q" and "utf8_length q \<le> 49998"
  shows "search_filter q p =
           Some (sublist (map ascii_fold q) (map ascii_fold (title p)) \<or>
                 sublist (map ascii_fold q) (map ascii_fold (content p)))"
  using assms by (simp add: search_filter_like like_contains_substring)

text \<open>C28: The search for \<open>%\<close> returns every post, newest first: the query is handed
  to \<open>LIKE\<close> without escaping its wildcards.\<close>

theorem search_percent_returns_all:
  assumes "form_get args ''q'' = Some ''%''"
  shows "search s sess args =
           respond s sess (Render (Search_page (order_by_date_desc (posts s)) (Some ''%''))) []"
proof -
  have "utf8_length ''%'' \<le> 49998" by (simp add: utf8_length_def)
  moreover have "filter (\<lambda>p. search_filter ''%'' p = Some True) (posts s) = posts s"
    using like_contains_wildcards by (simp add: search_filter_like utf8_length_def)
  ultimately show ?thesis using search_rows [OF assms] by simp
qed

section \<open>Witnesses\<close>

lemmas posts_eval = demo_defs current_user_def load_user_def post_get_def

abbreviation edit_form :: form where
  "edit_form \<equiv> [(''title'', ''Carbonara v2''), (''content'', ''Now with guanciale.'')]"

theorem edit_post_forbidden_witness:
  "user_id post_a \<noteq> u_id bob \<and>
   edit_post demo (Some 2) POST edit_form 1 =
     respond demo (Some 2) (Redirect (To_view_post 1)) [(Danger, edit_forbidden_message)]"
proof -
  have h: "current_user demo (Some 2) = Some bob" "post_get demo 1 = Some post_a"
    "user_id post_a \<noteq> u_id bob"
    by (simp_all add: posts_eval)
  show ?thesis using edit_post_forbidden [OF h] h(3) by simp
qed

theorem edit_post_only_author_witness:
  "res_db (edit_post demo (Some 1) POST edit_form 1) \<noteq> demo \<and>
   current_user demo (Some 1) = Some alice \<and> user_id post_a = u_id alice"
proof -
  have h: "res_db (edit_post demo (Some 1) POST edit_form 1) \<noteq> demo"
    by (simp add: posts_eval edit_post_def update_post_def set_post_fields_def)
  from edit_post_only_author [OF h] h show ?thesis
    by (auto simp: posts_eval)
qed

theorem edit_post_by_author_witness:
  "post_get (res_db (edit_post demo (Some 1) POST edit_form 1)) 1 =
     Some (post_a\<lparr>title := ''Carbonara v2'', content := ''Now with guanciale.'',
                  tags := None, thumbnail := None\<rparr>)"
proof -
  have h: "current_user demo (Some 1) = Some alice" "post_get demo 1 = Some post_a"
    "user_id post_a = u_id alice" "form_get edit_form ''title'' = Some ''Carbonara v2''"
    "form_get edit_form ''content'' = Some ''Now with guanciale.''"
    by (simp_all add: posts_eval)
  have "post_get (res_db (edit_post demo (Some 1) POST edit_form 1)) 1 =
        Some (set_post_fields ''Carbonara v2'' ''Now with guanciale.'' (form_get edit_form ''tags'')
                (form_get edit_form ''thumbnail'') post_a)"
    using edit_post_by_author [OF store_inv_demo h] by blast
  then show ?thesis by (simp add: set_post_fields_def)
qed

theorem delete_post_forbidden_witness:
  "user_id post_a \<noteq> u_id bob \<and>
   delete_post demo (Some 2) 1 =
     respond demo (Some 2) (Redirect (To_view_post 1)) [(Danger, delete_forbidden_message)]"
proof -
  have h: "current_user demo (Some 2) = Some bob" "post_get demo 1 = Some post_a"
    "user_id post_a \<noteq> u_id bob"
    by (simp_all add: posts_eval)
  show ?thesis using delete_post_forbidden [OF h] h(3) by simp
qed

theorem delete_post_only_author_witness:
  "res_db (delete_post demo (Some 1) 1) \<noteq> demo \<and> current_user demo (Some 1) = Some alice"
proof -
  have h: "res_db (delete_post demo (Some 1) 1) \<noteq> demo"
    by (simp add: posts_eval delete_post_def delete_row_def)
  from delete_post_only_author [OF h] h show ?thesis
    by (auto simp: posts_eval)
qed

theorem delete_post_by_author_witness:
  "mset (posts demo) = add_mset post_a (mset (posts (delete_row demo 1))) \<and>
   post_get (delete_row demo 1) 1 = None"
proof -
  have h: "current_user demo (Some 1) = Some alice" "post_get demo 1 = Some post_a"
    "user_id post_a = u_id alice"
    by (simp_all add: posts_eval)
  show ?thesis using delete_post_by_author [OF store_inv_demo h] by simp
qed

theorem create_post_appends_witness:
  "\<exists>p. create_post demo (Some 2) POST [(''title'', ''''), (''content'', '''')] 30 =
         respond (demo\<lparr>posts := posts demo @ [p]\<rparr>) (Some 2) (Redirect To_index) [] \<and>
       title p = [] \<and> thumbnail p = Some default_thumbnail \<and> user_id p = 2"
proof -
  have h: "current_user demo (Some 2) = Some bob"
    "form_get [(''title'', ''''), (''content'', '''')] ''title'' = Some []"
    "form_get [(''title'', ''''), (''content'', '''')] ''content'' = Some []"
    by (simp_all add: posts_eval)
  from create_post_appends [OF h, of 30] show ?thesis
    by (auto simp: bob_def)
qed

theorem missing_field_raises_witness:
  "create_post demo (Some 1) POST [(''content'', ''body'')] 30 =
     respond demo (Some 1) (Raised IntegrityError) [] \<and>
   edit_post demo (Some 1) POST [(''content'', ''body'')] 1 =
     respond demo (Some 1) (Raised IntegrityError) []"
proof -
  have h: "current_user demo (Some 1) = Some alice"
    "form_get [(''content'', ''body'')] ''title'' = None \<or> form_get [(''content'', ''body'')] ''content'' = None"
    by (simp_all add: posts_eval)
  have "post_get demo 1 = Some post_a" "user_id post_a = u_id alice"
    by (simp_all add: posts_eval)
  then show ?thesis using missing_field_raises [OF h, of 30 1] by blast
qed

theorem profile_result_witness:
  "profile demo None ''alice'' = respond demo None (Render (Profile_page alice [post_a])) [] \<and>
   profile demo None ''carol'' = respond demo None (Abort 404) []"
proof -
  have h: "user_by_username demo ''alice'' = Some alice" "user_by_username demo ''carol'' = None"
    by (simp_all add: user_by_username_def demo_defs)
  have "order_by_date_desc (filter (\<lambda>p. user_id p = u_id alice) (posts demo)) = [post_a]"
    by (simp add: order_by_date_desc_def order_desc_def demo_defs)
  then show ?thesis using profile_result [of demo None] h by (simp add: profile_def)
qed

theorem view_post_result_witness:
  "view_post demo None 1 = respond demo None (Render (Post_page post_a)) [] \<and>
   (\<exists>a \<in> set (users demo). u_id a = user_id post_a) \<and>
   view_post demo None 3 = respond demo None (Abort 404) []"
proof -
  have "post_get demo 1 = Some post_a" "post_get demo 3 = None"
    by (simp_all add: posts_eval)
  then show ?thesis using view_post_result [OF store_inv_demo, of 1 None]
      view_post_result [OF store_inv_demo, of 3 None] by blast
qed

theorem search_result_witness:
  "search demo None [(''q'', '''')] = respond demo None (Render (Search_page [] (Some []))) [] \<and>
   (\<exists>ps. search demo None [(''q'', ''carbonara'')] =
          respond demo None (Render (Search_page ps (Some ''carbonara''))) [] \<and>
        mset ps = mset (filter (\<lambda>p. search_filter ''carbonara'' p = Some True) (posts demo)))"
proof -
  have "utf8_length ''carbonara'' \<le> 49998" by (simp add: utf8_length_def)
  then show ?thesis
    using search_result [of "[(''q'', '''')]" demo None] search_result [of "[(''q'', ''carbonara'')]" demo None]
    by simp blast
qed

theorem search_filter_substring_witness:
  "wildcard_free ''carbonara'' \<and> search_filter ''carbonara'' post_a = Some True"
proof -
  have h: "wildcard_free ''carbonara''" "utf8_length ''carbonara'' \<le> 49998"
    by (simp_all add: wildcard_free_def utf8_length_def)
  have "sublist (map ascii_fold ''carbonara'') (map ascii_fold (title post_a))"
    by (simp add: post_a_def ascii_fold_def sublist_Cons_right)
  then show ?thesis using search_filter_substring [OF h, of post_a] h by simp
qed

theorem search_percent_returns_all_witness:
  "search demo None [(''q'', ''%'')] =
     respond demo None (Render (Search_page [post_b, post_a] (Some ''%''))) []"
proof -
  have "order_by_date_desc (posts demo) = [post_b, post_a]"
    by (simp add: order_by_date_desc_def order_desc_def demo_defs)
  then show ?thesis using search_percent_returns_all [of "[(''q'', ''%'')]" demo None] by simp
qed

end
