(* ===== verification/Blog_App.thy ===== *)
theory Blog_App
  imports Blog_Auth Blog_Posts
begin

text \<open>
  The blog application as a whole: Flask's URL map sends each request to its view
  (answering 405 to a method the route does not accept, before any decorator runs), and
  a server holds the store and the session cookie of each client. Clients act in any
  order; a step is one request by one client, which sends its cookie and receives the
  updated one; with forging, a client may also set its session to any user id. Below
  this server model lies the signed-cookie server: the cookie is the user id signed with
  \<open>app.config['SECRET_KEY']\<close>, and clients may install cookies signed with keys they
  know. It refines the server model, and since the key is a constant written in the
  source, every client knows it: the forging step is what the published key permits.
  The lemmas show that every handler keeps the store invariant, that every reachable
  server state satisfies it, that without forging every session cookie names an existing
  user (and, on the signed-cookie server, that this holds whenever clients do not know the
  key), and that with the published key any client removes any post. Two liveness
  properties show that a client can always obtain a session, for an existing account whose
  password it knows or for a new one, with two requests.
\<close>

datatype route =
    R_index | R_login | R_signup | R_logout | R_profile string | R_create_post
  | R_view_post nat | R_edit_post nat | R_delete_post nat | R_search

record request =
  req_route :: route
  req_method :: http_method
  req_session :: "nat option"
  req_form :: form
  req_args :: form
  req_now :: nat
  req_salt :: nat

definition only :: "http_method \<Rightarrow> store \<Rightarrow> nat option \<Rightarrow> http_method \<Rightarrow> result \<Rightarrow> result" where
  "only allowed s sess m r = (if m = allowed then r else respond s sess (Abort 405) [])"

definition app :: "store \<Rightarrow> request \<Rightarrow> result" where
  "app s r =
     (let sess = req_session r; m = req_method r in
      case req_route r of
        R_index \<Rightarrow> only GET s sess m (index s sess)
      | R_login \<Rightarrow> login s sess m (req_form r)
      | R_signup \<Rightarrow> signup s sess m (req_form r) (req_salt r)
      | R_logout \<Rightarrow> only GET s sess m (logout s sess)
      | R_profile name \<Rightarrow> only GET s sess m (profile s sess name)
      | R_create_post \<Rightarrow> create_post s sess m (req_form r) (req_now r)
      | R_view_post pid \<Rightarrow> only GET s sess m (view_post s sess pid)
      | R_edit_post pid \<Rightarrow> edit_post s sess m (req_form r) pid
      | R_delete_post pid \<Rightarrow> only POST s sess m (delete_post s sess pid)
      | R_search \<Rightarrow> only GET s sess m (search s sess (req_args r)))"

text \<open>Start-up: \<open>app.run(debug=True)\<close> serves the application with Werkzeug's
  debugger. Flask then lets an exception that escapes a view propagate, and the debugger
  answers it with status 500 and its traceback page, which also offers an interactive
  Python console; with the flag off Flask answers a plain 500 page. A redirect is a 302,
  an \<open>abort(n)\<close> the error page of status \<open>n\<close>.\<close>

definition blog_debug :: bool where
  "blog_debug = True"

datatype http_body =
    Html page
  | Location target
  | Error_page nat
  | Debugger_traceback error

definition http_response :: "bool \<Rightarrow> outcome \<Rightarrow> nat \<times> http_body" where
  "http_response debug out =
     (case out of
        Render pg \<Rightarrow> (200, Html pg)
      | Redirect t \<Rightarrow> (302, Location t)
      | Abort n \<Rightarrow> (n, Error_page n)
      | Raised e \<Rightarrow> (500, if debug then Debugger_traceback e else Error_page 500))"

section \<open>Every handler keeps the store invariant\<close>

lemma only_db [simp]: "res_db (only a s sess m r) = (if m = a then res_db r else s)"
  by (simp add: only_def)

lemma only_sess [simp]: "res_sess (only a s sess m r) = (if m = a then res_sess r else sess)"
  by (simp add: only_def)

lemma create_post_inv:
  assumes "store_inv s"
  shows "store_inv (res_db (create_post s sess m f now))"
proof (cases "current_user s sess")
  case None
  with assms show ?thesis by (simp add: create_post_def)
next
  case (Some u)
  then have "u_id u \<in> u_id ` set (users s)"
    using current_userD by blast
  with Some assms show ?thesis
    using add_post_inv [OF assms] by (auto simp: create_post_def split: sum.splits)
qed

lemma edit_post_inv: "store_inv s \<Longrightarrow> store_inv (res_db (edit_post s sess m f pid))"
  by (auto simp: edit_post_def login_required_def update_post_inv split: option.splits sum.splits)

lemma delete_post_inv: "store_inv s \<Longrightarrow> store_inv (res_db (delete_post s sess pid))"
  by (auto simp: delete_post_def login_required_def delete_row_inv split: option.splits)

lemmas handler_invs = signup_inv create_post_inv edit_post_inv delete_post_inv

lemma app_inv: "store_inv s \<Longrightarrow> store_inv (res_db (app s r))"
  by (cases "req_route r") (simp_all add: app_def Let_def handler_invs)

section \<open>Users are never removed, and sessions name users\<close>

lemma users_grow: "set (users s) \<subseteq> set (users (res_db (app s r)))"
proof -
  have "set (users s) \<subseteq> set (users (res_db (signup s sess m f salt)))" for sess m f salt
    using signup_cases [of s sess m f salt] by (auto simp: add_user_Inr)
  moreover have "users (res_db (create_post s sess m f now)) = users s" for sess m f now
    by (auto simp: create_post_def login_required_def add_post_Inr split: option.splits sum.splits)
  moreover have "users (res_db (edit_post s sess m f pid)) = users s" for sess m f pid
    by (auto simp: edit_post_def login_required_def update_post_Inr split: option.splits sum.splits)
  moreover have "users (res_db (delete_post s sess pid)) = users s" for sess pid
    by (auto simp: delete_post_def login_required_def delete_row_def split: option.splits)
  ultimately show ?thesis
    by (cases "req_route r") (simp_all add: app_def Let_def)
qed

definition session_ok :: "store \<Rightarrow> nat option \<Rightarrow> bool" where
  "session_ok s sess \<longleftrightarrow> (case sess of None \<Rightarrow> True | Some uid \<Rightarrow> uid \<in> u_id ` set (users s))"

lemma session_ok_mono:
  "session_ok s sess \<Longrightarrow> set (users s) \<subseteq> set (users s') \<Longrightarrow> session_ok s' sess"
  by (auto simp: session_ok_def split: option.splits)

lemma login_sess_ok:
  "session_ok s sess \<Longrightarrow> session_ok s (res_sess (login s sess m f))"
  by (auto simp: login_def session_ok_def split: option.splits sum.splits bool.splits
           dest: user_by_email_Some)

lemma signup_sess_ok:
  "session_ok s sess \<Longrightarrow> session_ok (res_db (signup s sess m f salt)) (res_sess (signup s sess m f salt))"
  by (auto simp: signup_def session_ok_def add_user_Inr split: option.splits sum.splits)

lemma posts_routes_sess [simp]:
  "res_sess (create_post s sess m f now) = sess" "res_sess (edit_post s sess m f pid) = sess"
  "res_sess (delete_post s sess pid) = sess"
  by (auto simp: create_post_def edit_post_def delete_post_def login_required_def
           split: option.splits sum.splits)

lemma logout_sess: "res_sess (logout s sess) = None \<or> res_sess (logout s sess) = sess"
  by (simp add: logout_def login_required_def split: option.splits)

lemma app_sess_ok:
  assumes "session_ok s (req_session r)"
  shows "session_ok (res_db (app s r)) (res_sess (app s r))"
proof -
  have mono: "session_ok (res_db (app s r)) (req_session r)"
    using assms users_grow session_ok_mono by blast
  have "session_ok s None" by (simp add: session_ok_def)
  then show ?thesis
    using assms mono login_sess_ok signup_sess_ok logout_sess [of s "req_session r"]
    by (cases "req_route r") (auto simp: app_def Let_def)
qed

lemma signup_keeps_posts: "posts (res_db (signup s sess m f salt)) = posts s"
  using signup_cases [of s sess m f salt] by (auto simp: add_user_Inr)

text \<open>C1: A request removes or changes an existing post only if its session names that
  post's author: the routes authorize by the user id in the session and by nothing
  else.\<close>

theorem app_removes_post_only_with_author_session:
  assumes "store_inv s" and "p \<in> set (posts s)" and "p \<notin> set (posts (res_db (app s r)))"
  shows "req_session r = Some (user_id p)"
  using assms edit_post_removes delete_post_removes create_post_keeps_rows signup_keeps_posts
  by (cases "req_route r") (auto simp: app_def Let_def split: if_splits)

section \<open>The server\<close>

record server =
  db :: store
  cookies :: "nat \<Rightarrow> nat option"

definition init_server :: server where
  "init_server = \<lparr>db = empty_store, cookies = (\<lambda>c. None)\<rparr>"

text \<open>One request of client \<open>c\<close>: whatever session the request carries is replaced by
  the client's cookie, and the client stores the session it gets back.\<close>

definition serve :: "server \<Rightarrow> nat \<Rightarrow> request \<Rightarrow> server" where
  "serve S c r =
     (let res = app (db S) (r\<lparr>req_session := cookies S c\<rparr>)
      in \<lparr>db = res_db res, cookies = (cookies S)(c := res_sess res)\<rparr>)"

text \<open>The reachable server states; with \<open>forging\<close> a client may also sign a cookie
  for any user id with the published secret key.\<close>

inductive reachable :: "bool \<Rightarrow> server \<Rightarrow> bool" for forging :: bool where
  init: "reachable forging init_server"
| request: "reachable forging S \<Longrightarrow> reachable forging (serve S c r)"
| forge: "forging \<Longrightarrow> reachable forging S \<Longrightarrow>
          reachable forging (S\<lparr>cookies := (cookies S)(c := Some uid)\<rparr>)"

lemma serve_sel [simp]:
  "db (serve S c r) = res_db (app (db S) (r\<lparr>req_session := cookies S c\<rparr>))"
  "cookies (serve S c r) = (cookies S)(c := res_sess (app (db S) (r\<lparr>req_session := cookies S c\<rparr>)))"
  by (simp_all add: serve_def Let_def)

text \<open>C12: Every reachable server state, with or without forged cookies, satisfies the
  store invariant: unique ids, usernames and emails, and every post's author exists.\<close>

theorem reachable_store_inv:
  assumes "reachable forging S"
  shows "store_inv (db S)"
  using assms
proof (induction rule: reachable.induct)
  case init
  then show ?case by (simp add: init_server_def store_inv_empty)
next
  case (request S c r)
  then show ?case by (simp add: app_inv)
qed simp

text \<open>C13: Without forged cookies, every session cookie a client holds is either empty or
  names a registered user.\<close>

theorem honest_sessions_name_users:
  assumes "reachable False S"
  shows "session_ok (db S) (cookies S c)"
  using assms
proof (induction arbitrary: c rule: reachable.induct)
  case init
  then show ?case by (simp add: init_server_def session_ok_def)
next
  case (request S c' r)
  let ?r = "r\<lparr>req_session := cookies S c'\<rparr>"
  have "session_ok (res_db (app (db S) ?r)) (res_sess (app (db S) ?r))"
    using request.IH [of c'] by (intro app_sess_ok) simp
  moreover have "session_ok (res_db (app (db S) ?r)) (cookies S c)"
    using request.IH [of c] users_grow session_ok_mono by blast
  ultimately show ?case by simp
qed simp

text \<open>The delete request a client sends for post \<open>pid\<close>.\<close>

definition delete_request :: "nat \<Rightarrow> request" where
  "delete_request pid = \<lparr>req_route = R_delete_post pid, req_method = POST, req_session = None,
                         req_form = [], req_args = [], req_now = 0, req_salt = 0\<rparr>"

text \<open>A client's run of requests, and the requests of a client that logs out and logs
  in or signs up.\<close>

definition serve_seq :: "server \<Rightarrow> nat \<Rightarrow> request list \<Rightarrow> server" where
  "serve_seq S c rs = fold (\<lambda>r S. serve S c r) rs S"

definition logout_request :: request where
  "logout_request = \<lparr>req_route = R_logout, req_method = GET, req_session = None,
                      req_form = [], req_args = [], req_now = 0, req_salt = 0\<rparr>"

definition login_request :: "string \<Rightarrow> string \<Rightarrow> request" where
  "login_request e p = \<lparr>req_route = R_login, req_method = POST, req_session = None,
     req_form = [(''email'', e), (''password'', p)], req_args = [], req_now = 0, req_salt = 0\<rparr>"

definition account_request :: "string \<Rightarrow> string \<Rightarrow> string \<Rightarrow> nat \<Rightarrow> request" where
  "account_request n e p salt = \<lparr>req_route = R_signup, req_method = POST, req_session = None,
     req_form = [(''username'', n), (''email'', e), (''password'', p)], req_args = [],
     req_now = 0, req_salt = salt\<rparr>"

text \<open>The delete request of the post's author removes the post, in every state satisfying
  the invariant.\<close>

lemma author_delete_request:
  assumes "store_inv s" and "p \<in> set (posts s)"
  shows "res_db (app s ((delete_request (p_id p))\<lparr>req_session := Some (user_id p)\<rparr>)) =
           delete_row s (p_id p) \<and>
         res_sess (app s ((delete_request (p_id p))\<lparr>req_session := Some (user_id p)\<rparr>)) =
           Some (user_id p)"
proof -
  obtain a where a: "a \<in> set (users s)" "u_id a = user_id p"
    using assms unfolding store_inv_def by auto
  have "current_user s (Some (user_id p)) = Some a"
    using current_user_in_users [OF assms(1) a(1)] a(2) by simp
  moreover have "post_get s (p_id p) = Some p"
    by (rule post_get_in_posts [OF assms])
  ultimately show ?thesis
    using a(2) by (simp add: app_def Let_def only_def delete_request_def delete_post_def)
qed

section \<open>Signed session cookies\<close>

text \<open>
  Flask keeps the session in a cookie signed with \<open>app.config['SECRET_KEY']\<close> (line 10),
  and Flask-Login stores the user's id in it. Signing is modelled symbolically, as protocol
  models treat a MAC: a cookie is the id together with the key that signed it, so only a
  party that knows a key can build a cookie signed with it. The server opens a cookie with
  its own key; a cookie signed with another key fails verification and the request is
  anonymous. A response sets a new cookie when the session's user changes (deleting it
  when the session becomes empty) and otherwise leaves the client's cookie as it is.
  Clients may install any cookie they can sign with a key they know, the set \<open>known\<close>;
  the secret key belongs to it for every client, since it is written in the source.
\<close>

definition secret_key :: string where
  "secret_key = ''your-very-secret-key-that-you-should-change''"

datatype cookie = Signed string nat

fun open_session :: "string \<Rightarrow> cookie option \<Rightarrow> nat option" where
  "open_session k None = None"
| "open_session k (Some (Signed k' uid)) = (if k' = k then Some uid else None)"

record wire_server =
  wdb :: store
  jar :: "nat \<Rightarrow> cookie option"

definition wire_init :: wire_server where
  "wire_init = \<lparr>wdb = empty_store, jar = (\<lambda>c. None)\<rparr>"

definition wire_serve :: "wire_server \<Rightarrow> nat \<Rightarrow> request \<Rightarrow> wire_server" where
  "wire_serve W c r =
     (let sess = open_session secret_key (jar W c);
          res = app (wdb W) (r\<lparr>req_session := sess\<rparr>)
      in \<lparr>wdb = res_db res,
          jar = (if res_sess res = sess then jar W
                 else (jar W)(c := map_option (Signed secret_key) (res_sess res)))\<rparr>)"

inductive wire_reachable :: "string set \<Rightarrow> wire_server \<Rightarrow> bool" for known :: "string set" where
  init: "wire_reachable known wire_init"
| request: "wire_reachable known W \<Longrightarrow> wire_reachable known (wire_serve W c r)"
| forge: "k \<in> known \<Longrightarrow> wire_reachable known W \<Longrightarrow>
          wire_reachable known (W\<lparr>jar := (jar W)(c := Some (Signed k uid))\<rparr>)"


lemma open_session_signed [simp]: "open_session k (map_option (Signed k) x) = x"
  by (cases x) simp_all

lemma wire_serve_sel:
  "wdb (wire_serve W c r) =
     res_db (app (wdb W) (r\<lparr>req_session := open_session secret_key (jar W c)\<rparr>))"
  "open_session secret_key (jar (wire_serve W c r) c') =
     (if c' = c then res_sess (app (wdb W) (r\<lparr>req_session := open_session secret_key (jar W c)\<rparr>))
      else open_session secret_key (jar W c'))"
  by (auto simp: wire_serve_def Let_def)

lemma wire_store_inv: "wire_reachable known W \<Longrightarrow> store_inv (wdb W)"
  by (induction rule: wire_reachable.induct)
     (simp_all add: wire_init_def store_inv_empty wire_serve_sel app_inv)

text \<open>With a key no client knows, every session the server accepts names a registered
  user, whatever cookies clients install.\<close>

lemma wire_sessions_honest:
  assumes "wire_reachable known W" and "secret_key \<notin> known"
  shows "session_ok (wdb W) (open_session secret_key (jar W c))"
  using assms(1)
proof (induction arbitrary: c rule: wire_reachable.induct)
  case init
  then show ?case by (simp add: wire_init_def session_ok_def)
next
  case (request W c' r)
  let ?r = "r\<lparr>req_session := open_session secret_key (jar W c')\<rparr>"
  have "session_ok (res_db (app (wdb W) ?r)) (res_sess (app (wdb W) ?r))"
    using request.IH [of c'] by (intro app_sess_ok) simp
  moreover have "session_ok (res_db (app (wdb W) ?r)) (open_session secret_key (jar W c))"
    using request.IH [of c] users_grow session_ok_mono by blast
  ultimately show ?case by (simp add: wire_serve_sel)
next
  case (forge k W c' uid)
  then show ?case using assms(2) by (auto simp: session_ok_def)
qed

text \<open>C27: The session cookie is only as strong as the secret key. Were the key unknown
  to clients, every session the server accepts would name a registered user, whatever
  cookies clients made up. But the key is written in the source, so any client, in any
  reachable state and whatever its own account, can sign a cookie naming the author of
  any post and delete that post with one request, reaching a state of the system.\<close>

theorem forged_cookie_deletes_any_post:
  "(secret_key \<notin> known \<longrightarrow> wire_reachable known W \<longrightarrow>
      session_ok (wdb W) (open_session secret_key (jar W c))) \<and>
   (secret_key \<in> known \<longrightarrow> wire_reachable known W \<longrightarrow> p \<in> set (posts (wdb W)) \<longrightarrow>
      (let W' = wire_serve (W\<lparr>jar := (jar W)(c := Some (Signed secret_key (user_id p)))\<rparr>) c
                  (delete_request (p_id p))
       in wire_reachable known W' \<and> wdb W' = delete_row (wdb W) (p_id p) \<and>
          p \<notin> set (posts (wdb W'))))"
proof (intro conjI impI)
  show "session_ok (wdb W) (open_session secret_key (jar W c))"
    if "secret_key \<notin> known" and "wire_reachable known W"
    using wire_sessions_honest that by blast
next
  assume k: "secret_key \<in> known" and W: "wire_reachable known W"
    and p: "p \<in> set (posts (wdb W))"
  let ?F = "W\<lparr>jar := (jar W)(c := Some (Signed secret_key (user_id p)))\<rparr>"
  have F: "wire_reachable known ?F"
    using k W by (rule wire_reachable.forge)
  have "wdb (wire_serve ?F c (delete_request (p_id p))) = delete_row (wdb W) (p_id p)"
    using author_delete_request [OF wire_store_inv [OF W] p] by (simp add: wire_serve_sel)
  then show "let W' = wire_serve ?F c (delete_request (p_id p))
             in wire_reachable known W' \<and> wdb W' = delete_row (wdb W) (p_id p) \<and>
                p \<notin> set (posts (wdb W'))"
    using wire_reachable.request [OF F] by (simp add: delete_row_def)
qed


section \<open>Liveness: a client can always get a session\<close>

lemma serve_logout:
  "db (serve S c logout_request) = db S"
  "current_user (db S) (cookies (serve S c logout_request) c) = None"
  by (simp_all add: app_def Let_def logout_request_def logout_ends_session)

text \<open>C35: Whatever state the server is in (every reachable one satisfies the invariant,
  C12) and whatever cookie a client holds, a client that knows the password of a registered
  user obtains a session for that user with two requests, a logout and a login, and the
  store is unchanged.\<close>

theorem login_always_possible:
  assumes "store_inv (db S)" and "u \<in> set (users (db S))" and "hash_matches (password_hash u) p"
  shows "cookies (serve_seq S c [logout_request, login_request (email u) p]) c = Some (u_id u) \<and>
         db (serve_seq S c [logout_request, login_request (email u) p]) = db S"
proof -
  let ?S1 = "serve S c logout_request"
  have "user_by_email (db ?S1) (Some (email u)) = Some u"
    using user_by_email_in_users [OF assms(1,2)] serve_logout(1) by simp
  then show ?thesis
    using serve_logout [of S c] assms(3)
    by (simp add: serve_seq_def app_def login_request_def login_def check_password_def
                  check_password_hash_def)
qed

text \<open>C36: Whatever state the server is in, a client with a username and an email that
  are not yet taken obtains a new account and a session for it with two requests, a logout
  and a signup; the new user's hash accepts the chosen password.\<close>

theorem signup_always_possible:
  assumes "n \<notin> username ` set (users (db S))" and "e \<notin> email ` set (users (db S))"
  shows "\<exists>u. users (db (serve_seq S c [logout_request, account_request n e p salt])) = users (db S) @ [u] \<and>
             cookies (serve_seq S c [logout_request, account_request n e p salt]) c = Some (u_id u) \<and>
             username u = n \<and> email u = e \<and> hash_matches (password_hash u) p"
proof -
  let ?S1 = "serve S c logout_request"
  have "current_user (db ?S1) (cookies ?S1 c) = None"
    using serve_logout [of S c] by simp
  from signup_fresh [OF this, of "[(''username'', n), (''email'', e), (''password'', p)]" n e p salt]
  show ?thesis
    using assms serve_logout(1) [of S c]
    by (simp add: serve_seq_def app_def account_request_def)
qed


section \<open>Start-up with the debugger\<close>

text \<open>C30: The application is started with the debugger on: every request whose view
  raises is answered with status 500 and the debugger's traceback page for that exception,
  and in every state an anonymous client reaches that page with one request, a signup
  POST with an empty form, whose \<open>set_password(None)\<close> raises.\<close>

theorem debugger_exposed:
  "(\<forall>s r e. res_out (app s r) = Raised e \<longrightarrow>
      http_response blog_debug (res_out (app s r)) = (500, Debugger_traceback e)) \<and>
   http_response blog_debug
     (res_out (app s \<lparr>req_route = R_signup, req_method = POST, req_session = None,
                      req_form = [], req_args = [], req_now = t, req_salt = k\<rparr>)) =
     (500, Debugger_traceback AttributeError)"
  by (simp add: http_response_def blog_debug_def app_def signup_def current_user_def
      user_by_email_def set_password_def generate_password_hash_def)

section \<open>Witnesses\<close>

text \<open>A signup request by a new client and the server after it, the first state of a run.\<close>

definition signup_request :: request where
  "signup_request = \<lparr>req_route = R_signup, req_method = POST, req_session = None,
     req_form = [(''username'', ''alice''), (''email'', ''alice@example.com''), (''password'', ''secret'')],
     req_args = [], req_now = 0, req_salt = 7\<rparr>"

lemmas app_eval = app_def Let_def only_def signup_def current_user_def load_user_def user_by_email_def
  set_password_def generate_password_hash_def add_user_def next_rowid_def init_server_def
  empty_store_def signup_request_def

lemma first_signup:
  "serve init_server 0 signup_request =
     \<lparr>db = \<lparr>users = [alice], posts = []\<rparr>, cookies = (\<lambda>c. None)(0 := Some 1)\<rparr>"
  by (simp add: serve_def app_eval alice_def)

theorem app_removes_post_only_with_author_session_witness:
  "post_a \<notin> set (posts (res_db (app demo ((delete_request 1)\<lparr>req_session := Some 1\<rparr>)))) \<and>
   user_id post_a = 1"
proof -
  have h: "post_a \<in> set (posts demo)"
    "post_a \<notin> set (posts (res_db (app demo ((delete_request 1)\<lparr>req_session := Some 1\<rparr>))))"
    by (simp_all add: demo_defs app_def only_def delete_request_def delete_post_def delete_row_def
                      current_user_def load_user_def post_get_def)
  show ?thesis
    using app_removes_post_only_with_author_session [OF store_inv_demo h] h(2) by simp
qed

theorem reachable_store_inv_witness:
  "reachable False (serve init_server 0 signup_request) \<and>
   store_inv (db (serve init_server 0 signup_request)) \<and>
   users (db (serve init_server 0 signup_request)) = [alice]"
proof -
  have h: "reachable False (serve init_server 0 signup_request)"
    by (rule reachable.request [OF reachable.init])
  show ?thesis using reachable_store_inv [OF h] h by (simp add: first_signup)
qed

theorem honest_sessions_name_users_witness:
  "reachable False (serve init_server 0 signup_request) \<and>
   cookies (serve init_server 0 signup_request) 0 = Some 1 \<and>
   session_ok (db (serve init_server 0 signup_request)) (cookies (serve init_server 0 signup_request) 0)"
proof -
  have h: "reachable False (serve init_server 0 signup_request)"
    by (rule reachable.request [OF reachable.init])
  show ?thesis using honest_sessions_name_users [OF h, of 0] h by (simp add: first_signup)
qed

definition post_request :: request where
  "post_request = \<lparr>req_route = R_create_post, req_method = POST, req_session = None,
     req_form = [(''title'', ''Hello''), (''content'', ''First post.'')], req_args = [],
     req_now = 5, req_salt = 0\<rparr>"

text \<open>A signed-cookie state: client 0 signs up as alice and writes a post.\<close>

definition wire_demo :: wire_server where
  "wire_demo = wire_serve (wire_serve wire_init 0 signup_request) 0 post_request"

lemma wire_demo_reachable: "wire_reachable known wire_demo"
  unfolding wire_demo_def by (intro wire_reachable.request wire_reachable.init)

lemma wire_demo_eval:
  "wdb wire_demo = \<lparr>users = [alice], posts = [\<lparr>p_id = 1, title = ''Hello'',
     content = ''First post.'', date_posted = 5, tags = Some default_tags,
     thumbnail = Some default_thumbnail, user_id = 1\<rparr>]\<rparr>"
  "open_session secret_key (jar wire_demo 0) = Some 1"
  "open_session secret_key (jar wire_demo 5) = None"
  by (simp_all add: wire_demo_def wire_serve_def wire_init_def app_eval alice_def post_request_def
      create_post_def login_required_def add_post_def)

theorem forged_cookie_deletes_any_post_witness:
  "session_ok (wdb wire_demo) (open_session secret_key (jar wire_demo 5)) \<and>
   wire_reachable {secret_key} (wire_serve (wire_demo\<lparr>jar := (jar wire_demo)(5 :=
       Some (Signed secret_key 1))\<rparr>) 5 (delete_request 1)) \<and>
   posts (wdb (wire_serve (wire_demo\<lparr>jar := (jar wire_demo)(5 :=
       Some (Signed secret_key 1))\<rparr>) 5 (delete_request 1))) = []"
proof -
  have p: "hd (posts (wdb wire_demo)) \<in> set (posts (wdb wire_demo))"
    "p_id (hd (posts (wdb wire_demo))) = 1" "user_id (hd (posts (wdb wire_demo))) = 1"
    by (simp_all add: wire_demo_eval)
  have "secret_key \<notin> {}" "secret_key \<in> {secret_key}" by simp_all
  then show ?thesis
    using forged_cookie_deletes_any_post [of "{}" wire_demo 5]
      forged_cookie_deletes_any_post [of "{secret_key}" wire_demo 5 "hd (posts (wdb wire_demo))"]
      wire_demo_reachable [of "{}"] wire_demo_reachable [of "{secret_key}"] p
    by (simp add: Let_def delete_row_def wire_demo_eval)
qed


text \<open>C33: No GET request changes the store: every write of the blog happens on a POST,
  and a GET to the delete route is refused with 405 before any view runs, with session
  and store unchanged and no message.\<close>

theorem get_requests_keep_store:
  assumes "req_method r = GET"
  shows "res_db (app s r) = s \<and>
         (\<forall>pid. req_route r = R_delete_post pid \<longrightarrow>
            app s r = respond s (req_session r) (Abort 405) [])"
proof
  show "res_db (app s r) = s"
    using assms
    by (cases "req_route r")
       (auto simp: app_def Let_def signup_def create_post_def edit_post_def login_required_def
             split: option.splits)
  show "\<forall>pid. req_route r = R_delete_post pid \<longrightarrow>
          app s r = respond s (req_session r) (Abort 405) []"
    using assms by (simp add: app_def Let_def only_def)
qed

theorem get_requests_keep_store_witness:
  "res_db (app demo ((delete_request 1)\<lparr>req_method := GET, req_session := Some 1\<rparr>)) = demo \<and>
   res_out (app demo ((delete_request 1)\<lparr>req_method := GET, req_session := Some 1\<rparr>)) = Abort 405"
proof -
  have h: "req_method ((delete_request 1)\<lparr>req_method := GET, req_session := Some 1\<rparr>) = GET"
    by simp
  show ?thesis
    using get_requests_keep_store [OF h, of demo] by (simp add: delete_request_def respond_def)
qed

theorem login_always_possible_witness:
  "cookies (serve_seq \<lparr>db = demo, cookies = (\<lambda>c. None)(5 := Some 2)\<rparr> 5
              [logout_request, login_request ''alice@example.com'' ''secret'']) 5 = Some 1"
proof -
  have h: "store_inv (db \<lparr>db = demo, cookies = (\<lambda>c. None)(5 := Some 2)\<rparr>)"
    "alice \<in> set (users (db \<lparr>db = demo, cookies = (\<lambda>c::nat. None)(5 := Some 2)\<rparr>))"
    "hash_matches (password_hash alice) ''secret''"
    using store_inv_demo by (simp_all add: demo_defs)
  show ?thesis
    using login_always_possible [OF h, of 5] by (simp add: alice_def)
qed

theorem signup_always_possible_witness:
  "\<exists>u. users (db (serve_seq \<lparr>db = demo, cookies = (\<lambda>c. None)\<rparr> 3
                   [logout_request, account_request ''carol'' ''carol@example.com'' ''pw'' 9])) =
         [alice, bob, u] \<and> username u = ''carol''"
proof -
  have h: "''carol'' \<notin> username ` set (users (db \<lparr>db = demo, cookies = (\<lambda>c::nat. None)\<rparr>))"
    "''carol@example.com'' \<notin> email ` set (users (db \<lparr>db = demo, cookies = (\<lambda>c::nat. None)\<rparr>))"
    by (simp_all add: demo_defs)
  show ?thesis
    using signup_always_possible [OF h, of 3 "''pw''" 9] by (auto simp: demo_defs)
qed


theorem debugger_exposed_witness:
  "res_out (app empty_store \<lparr>req_route = R_signup, req_method = POST, req_session = None,
      req_form = [(''username'', ''ann'')], req_args = [], req_now = 0, req_salt = 0\<rparr>) =
     Raised AttributeError \<and>
   http_response blog_debug (res_out (app empty_store \<lparr>req_route = R_signup,
      req_method = POST, req_session = None, req_form = [(''username'', ''ann'')],
      req_args = [], req_now = 0, req_salt = 0\<rparr>)) = (500, Debugger_traceback AttributeError)"
proof -
  have "res_out (app empty_store \<lparr>req_route = R_signup, req_method = POST, req_session = None,
      req_form = [(''username'', ''ann'')], req_args = [], req_now = 0, req_salt = 0\<rparr>) =
     Raised AttributeError"
    by (simp add: app_def signup_def current_user_def user_by_email_def set_password_def
        generate_password_hash_def)
  then show ?thesis
    using debugger_exposed [of empty_store 0 0] by blast
qed

end
