(* ===== verification/Menu_Service.thy ===== *)
theory Menu_Service
  imports Prelude "HOL-Library.Monad_Syntax"
begin

text \<open>
  The menu/order service of \<open>src/main.py\<close> (FastAPI). Its only state is the module-level
  list \<open>menu_db\<close> of ten dictionaries, which no endpoint mutates. \<open>get_menu\<close> returns it
  and FastAPI validates each dictionary against the \<open>MenuItem\<close> response model;
  \<open>place_order\<close> receives a validated \<open>OrderRequest\<close>, rejects an empty item list
  with HTTP 400, and otherwise prints one console line per item and acknowledges.
  Python values are a datatype; the decimal literals of the source are read as exact
  rationals (each price is a multiple of 1/4 and so is also exact as a binary float).
  The order body is a JSON value, an object keeping the last of repeated keys; its
  validation follows Pydantic's lax mode for the \<open>int\<close> field. The properties show
  when the endpoint answers 400, that nothing is printed unless the order is accepted, and
  that the console log does not determine the order.
\<close>

section \<open>Python values and the catalogue\<close>

datatype pyval = PStr string | PFloat rat | PInt int | PBool bool

type_synonym pydict = "(string \<times> pyval) list"

definition menu_db :: "pydict list" where
  "menu_db = [
     [(''id'', PStr ''1''), (''name'', PStr ''Margherita Pizza''),
      (''description'', PStr ''Classic tomato, mozzarella, and fresh basil.''),
      (''price'', PFloat 12.50), (''category'', PStr ''pizza''), (''rating'', PFloat 4.5),
      (''isFeatured'', PBool True),
      (''imageUrl'', PStr ''https://placehold.co/400x300/f97316/ffffff?text=Pizza'')],
     [(''id'', PStr ''2''), (''name'', PStr ''Pasta Carbonara''),
      (''description'', PStr ''Creamy sauce with pancetta and egg yolk.''),
      (''price'', PFloat 15.00), (''category'', PStr ''pasta''), (''rating'', PFloat 5.0),
      (''isFeatured'', PBool True),
      (''imageUrl'', PStr ''https://placehold.co/400x300/f97316/ffffff?text=Pasta'')],
     [(''id'', PStr ''3''), (''name'', PStr ''Caesar Salad''),
      (''description'', PStr ''Crisp romaine, croutons, and parmesan.''),
      (''price'', PFloat 9.75), (''category'', PStr ''salad''), (''rating'', PFloat 4.0),
      (''isFeatured'', PBool False),
      (''imageUrl'', PStr ''https://placehold.co/400x300/f97316/ffffff?text=Salad'')],
     [(''id'', PStr ''4''), (''name'', PStr ''Cheeseburger''),
      (''description'', PStr ''Juicy beef patty with cheddar cheese and pickles.''),
      (''price'', PFloat 11.25), (''category'', PStr ''burger''), (''rating'', PFloat 4.8),
      (''isFeatured'', PBool False),
      (''imageUrl'', PStr ''https://placehold.co/400x300/f97316/ffffff?text=Burger'')],
     [(''id'', PStr ''5''), (''name'', PStr ''Spaghetti Bolognese''),
      (''description'', PStr ''Rich meat sauce with fine herbs.''),
      (''price'', PFloat 14.50), (''category'', PStr ''pasta''), (''rating'', PFloat 4.3),
      (''isFeatured'', PBool False),
      (''imageUrl'', PStr ''https://placehold.co/400x300/f97316/ffffff?text=Bolognese'')],
     [(''id'', PStr ''6''), (''name'', PStr ''Veggie Pizza''),
      (''description'', PStr ''Assorted seasonal vegetables on a thin crust.''),
      (''price'', PFloat 13.75), (''category'', PStr ''pizza''), (''rating'', PFloat 4.2),
      (''isFeatured'', PBool False),
      (''imageUrl'', PStr ''https://placehold.co/400x300/f97316/ffffff?text=Veggie+Pizza'')],
     [(''id'', PStr ''7''), (''name'', PStr ''Grilled Chicken Salad''),
      (''description'', PStr ''Grilled chicken breast on a bed of mixed greens.''),
      (''price'', PFloat 12.00), (''category'', PStr ''salad''), (''rating'', PFloat 4.6),
      (''isFeatured'', PBool False),
      (''imageUrl'', PStr ''https://placehold.co/400x300/f97316/ffffff?text=Chicken+Salad'')],
     [(''id'', PStr ''8''), (''name'', PStr ''Tiramisu''),
      (''description'', PStr ''Classic coffee-flavored Italian dessert.''),
      (''price'', PFloat 7.50), (''category'', PStr ''dessert''), (''rating'', PFloat 5.0),
      (''isFeatured'', PBool False),
      (''imageUrl'', PStr ''https://placehold.co/400x300/f97316/ffffff?text=Tiramisu'')],
     [(''id'', PStr ''9''), (''name'', PStr ''Chocolate Lava Cake''),
      (''description'', PStr ''Warm chocolate cake with a molten center.''),
      (''price'', PFloat 8.00), (''category'', PStr ''dessert''), (''rating'', PFloat 4.9),
      (''isFeatured'', PBool False),
      (''imageUrl'', PStr ''https://placehold.co/400x300/f97316/ffffff?text=Lava+Cake'')],
     [(''id'', PStr ''10''), (''name'', PStr ''Double Bacon Burger''),
      (''description'', PStr ''Double beef patties with crispy bacon and special sauce.''),
      (''price'', PFloat 14.00), (''category'', PStr ''burger''), (''rating'', PFloat 4.7),
      (''isFeatured'', PBool False),
      (''imageUrl'', PStr ''https://placehold.co/400x300/f97316/ffffff?text=Bacon+Burger'')]]"

section \<open>The response model\<close>

record MenuItem =
  item_key :: string
  name :: string
  description :: string
  price :: rat
  category :: string
  rating :: rat
  isFeatured :: bool
  imageUrl :: string

text \<open>
  Validation of one field of a dictionary by the response model: a \<open>str\<close> field takes a
  string, a \<open>float\<close> field a float or an int, a \<open>bool\<close> field a bool; a missing key or
  any other value fails.
\<close>

definition field_str :: "pydict \<Rightarrow> string \<Rightarrow> string option" where
  "field_str d k = (case map_of d k of Some (PStr v) \<Rightarrow> Some v | _ \<Rightarrow> None)"

definition field_float :: "pydict \<Rightarrow> string \<Rightarrow> rat option" where
  "field_float d k =
     (case map_of d k of Some (PFloat v) \<Rightarrow> Some v | Some (PInt v) \<Rightarrow> Some (of_int v) | _ \<Rightarrow> None)"

definition field_bool :: "pydict \<Rightarrow> string \<Rightarrow> bool option" where
  "field_bool d k = (case map_of d k of Some (PBool v) \<Rightarrow> Some v | _ \<Rightarrow> None)"

definition validate_menu_item :: "pydict \<Rightarrow> MenuItem option" where
  "validate_menu_item d = do {
     i \<leftarrow> field_str d ''id''; n \<leftarrow> field_str d ''name'';
     ds \<leftarrow> field_str d ''description''; p \<leftarrow> field_float d ''price'';
     c \<leftarrow> field_str d ''category''; r \<leftarrow> field_float d ''rating'';
     f \<leftarrow> field_bool d ''isFeatured''; u \<leftarrow> field_str d ''imageUrl'';
     Some \<lparr>item_key = i, name = n, description = ds, price = p, category = c, rating = r,
           isFeatured = f, imageUrl = u\<rparr>
   }"

text \<open>
  \<open>GET /api/menu\<close>: the handler returns the module global \<open>menu_db\<close>, passed here
  as the argument \<open>db\<close> (its value when the request runs); FastAPI serialises it through
  \<open>List[MenuItem]\<close>, and a dictionary that does not validate would make the response a
  server error (\<open>None\<close> here).
\<close>

definition get_menu :: "pydict list \<Rightarrow> MenuItem list option" where
  "get_menu db = those (map validate_menu_item db)"

section \<open>Orders\<close>

record OrderItem =
  item_id :: string
  quantity :: int

record OrderRequest =
  items :: "OrderItem list"

text \<open>
  The request body is JSON; FastAPI validates it against \<open>OrderRequest\<close> before the
  handler runs and answers 422 when it does not fit: an object whose \<open>items\<close> is an
  array of objects with a string \<open>item_id\<close> and a \<open>quantity\<close> that Pydantic's lax mode
  reads as an \<open>int\<close>; other keys are ignored.
\<close>

datatype json = JStr string | JInt int | JFloat rat | JBool bool | JNull | JArr "json list"
  | JObj "(string \<times> json) list"

text \<open>\<open>json.loads\<close> builds a dict in which a repeated key keeps its last value.\<close>

definition jget :: "(string \<times> json) list \<Rightarrow> string \<Rightarrow> json option" where
  "jget kv k = map_of (rev kv) k"

text \<open>
  Pydantic's lax \<open>int\<close> on a JSON value: an integer; a boolean (as 0 or 1); a float with
  no fractional part; a string that, with surrounding white space removed, is an optional
  sign and decimal digits, optionally followed by a point and zeros, of at most 4300
  characters. Anything else fails.
\<close>

text \<open>Decimal digits and their value.\<close>

definition digit_chars :: string where
  "digit_chars = ''0123456789''"

definition read_digits :: "string \<Rightarrow> nat" where
  "read_digits cs = foldl (\<lambda>acc c. 10 * acc + (of_char c - 48)) 0 cs"

definition int_text :: "string \<Rightarrow> int option" where
  "int_text s =
     (let sp = (\<lambda>c. of_char c \<in> ({9..13} \<union> {32, 133, 160} :: nat set));
          t = rev (dropWhile sp (rev (dropWhile sp s)));
          u = (if CHR ''.'' \<in> set t \<and> set (takeWhile (\<lambda>c. c \<noteq> CHR ''.'') (rev t)) \<subseteq> {CHR ''0''}
               then rev (tl (dropWhile (\<lambda>c. c \<noteq> CHR ''.'') (rev t))) else t);
          num = (\<lambda>r. if r \<noteq> [] \<and> set r \<subseteq> set digit_chars then Some (int (read_digits r)) else None)
      in if 4300 < length t then None
         else (case u of
                 c # r \<Rightarrow> if c = CHR ''-'' then map_option uminus (num r)
                          else if c = CHR ''+'' then num r else num u
               | [] \<Rightarrow> None))"

definition lax_int :: "json \<Rightarrow> int option" where
  "lax_int j =
     (case j of
        JInt i \<Rightarrow> Some i
      | JBool b \<Rightarrow> Some (if b then 1 else 0)
      | JFloat r \<Rightarrow> if r = of_int \<lfloor>r\<rfloor> then Some \<lfloor>r\<rfloor> else None
      | JStr s \<Rightarrow> int_text s
      | _ \<Rightarrow> None)"

text \<open>A \<open>str\<close> field takes only a JSON string (numbers are not turned into text).\<close>

definition validate_order_item :: "json \<Rightarrow> OrderItem option" where
  "validate_order_item j =
     (case j of
        JObj kv \<Rightarrow>
          (case (jget kv ''item_id'', Option.bind (jget kv ''quantity'') lax_int) of
             (Some (JStr i), Some q) \<Rightarrow> Some \<lparr>item_id = i, quantity = q\<rparr>
           | _ \<Rightarrow> None)
      | _ \<Rightarrow> None)"

definition validate_order :: "json \<Rightarrow> OrderRequest option" where
  "validate_order j =
     (case j of
        JObj kv \<Rightarrow>
          (case jget kv ''items'' of
             Some (JArr xs) \<Rightarrow> map_option (\<lambda>its. \<lparr>items = its\<rparr>) (those (map validate_order_item xs))
           | _ \<Rightarrow> None)
      | _ \<Rightarrow> None)"

text \<open>Python's \<open>str\<close> of an \<open>int\<close>, used by the f-string of the log line.\<close>

fun digits10 :: "nat \<Rightarrow> string" where
  "digits10 n =
     (if n < 10 then [digit_chars ! n]
      else digits10 (n div 10) @ [digit_chars ! (n mod 10)])"

definition str_int :: "int \<Rightarrow> string" where
  "str_int i = (if i < 0 then CHR ''-'' # digits10 (nat (- i)) else digits10 (nat i))"

text \<open>\<open>print(x)\<close> writes \<open>x\<close> and a newline to the console.\<close>

definition print :: "string \<Rightarrow> string" where
  "print x = x @ [CHR 0x0A]"

definition order_line :: "OrderItem \<Rightarrow> string" where
  "order_line it = ''  - Item ID: '' @ item_id it @ '', Quantity: '' @ str_int (quantity it)"

datatype api_response = HTTPException nat string | JSONMessage string

text \<open>
  \<open>POST /api/order\<close> after validation: the response and the text written to the
  console. \<open>not order.items\<close> holds exactly for the empty list.
\<close>

definition place_order :: "OrderRequest \<Rightarrow> api_response \<times> string" where
  "place_order order =
     (if items order = [] then (HTTPException 400 ''Order cannot be empty.'', [])
      else (JSONMessage ''Order received successfully!'',
            print ''Received new order:'' @ concat (map (print \<circ> order_line) (items order))))"

definition order_endpoint :: "json \<Rightarrow> api_response \<times> string" where
  "order_endpoint body =
     (case validate_order body of
        None \<Rightarrow> (HTTPException 422 ''Unprocessable Entity'', [])
      | Some order \<Rightarrow> place_order order)"

section \<open>Reading the console log\<close>

text \<open>A reader for the decimal text \<open>str_int\<close> prints, and the item that prints two
  consecutive log lines as one: both belong to the specification, not to the service.\<close>

definition read_int :: "string \<Rightarrow> int" where
  "read_int cs = (case cs of c # r \<Rightarrow> if c = CHR ''-'' then - int (read_digits r) else int (read_digits cs)
                            | [] \<Rightarrow> 0)"

definition line_join :: "OrderItem \<Rightarrow> OrderItem \<Rightarrow> OrderItem" where
  "line_join a b =
     \<lparr>item_id = item_id a @ '', Quantity: '' @ str_int (quantity a) @ [CHR 0x0A] @
                ''  - Item ID: '' @ item_id b,
      quantity = quantity b\<rparr>"

declare digits10.simps [simp del]

lemma digit_of_char: "d < 10 \<Longrightarrow> of_char (digit_chars ! d) = 48 + (d::nat)"
  by (auto simp: digit_chars_def numeral_eq_Suc less_Suc_eq)

lemma digit_char_in: "d < 10 \<Longrightarrow> digit_chars ! d \<in> set digit_chars"
  by (rule nth_mem) (simp add: digit_chars_def)

lemma read_digits_digits10: "read_digits (digits10 n) = n"
proof (induction n rule: digits10.induct)
  case (1 n)
  show ?case
  proof (cases "n < 10")
    case True
    then show ?thesis
      by (simp add: digits10.simps [of n] read_digits_def digit_of_char)
  next
    case False
    then have "read_digits (digits10 n) = 10 * read_digits (digits10 (n div 10)) + n mod 10"
      by (simp add: digits10.simps [of n] read_digits_def digit_of_char)
    with "1.IH" False show ?thesis by simp
  qed
qed

lemma digits10_chars: "set (digits10 n) \<subseteq> set digit_chars"
proof (induction n rule: digits10.induct)
  case (1 n)
  show ?case
  proof (cases "n < 10")
    case True
    then show ?thesis by (simp add: digits10.simps [of n] digit_char_in)
  next
    case False
    with "1.IH" show ?thesis by (simp add: digits10.simps [of n] digit_char_in)
  qed
qed

lemma digits10_nonempty: "digits10 n \<noteq> []"
  by (simp add: digits10.simps [of n])

lemma digits10_not_minus: "digits10 n = c # r \<Longrightarrow> c \<noteq> CHR ''-''"
  using digits10_chars [of n] by (auto simp: digit_chars_def)

lemma str_int_no_newline: "CHR 0x0A \<notin> set (str_int q)"
proof -
  have "CHR 0x0A \<notin> set digit_chars"
    by (simp add: digit_chars_def)
  then show ?thesis
    using digits10_chars by (auto simp: str_int_def)
qed

section \<open>Properties of the menu service\<close>

lemma get_menu_defined: "get_menu menu_db \<noteq> None"
  by (simp add: get_menu_def menu_db_def validate_menu_item_def field_str_def field_float_def
                field_bool_def)

text \<open>\<open>GET /api/menu\<close> always returns the same ten items, which all pass the
  \<open>MenuItem\<close> response model, with ids 1 to 10 in catalogue order, non-negative prices,
  ratings between 0 and 5, and exactly two featured items.\<close>

theorem get_menu_catalogue:
  "(case get_menu menu_db of
      None \<Rightarrow> False
    | Some ms \<Rightarrow> map item_key ms = map str_int [1..10] \<and>
                list_all (\<lambda>m. 0 \<le> price m \<and> 0 \<le> rating m \<and> rating m \<le> 5) ms \<and>
                length (filter isFeatured ms) = 2)"
  by (simp add: get_menu_def menu_db_def validate_menu_item_def field_str_def field_float_def
                field_bool_def upto.simps str_int_def digits10.simps digit_chars_def)

lemma those_length: "those xs = Some ys \<Longrightarrow> length ys = length xs"
  by (induction xs arbitrary: ys) (auto split: option.splits)

lemma validate_order_Some:
  "validate_order j = Some order \<longleftrightarrow>
     (\<exists>kv xs. j = JObj kv \<and> jget kv ''items'' = Some (JArr xs) \<and>
              those (map validate_order_item xs) = Some (items order))"
  by (auto simp: validate_order_def split: json.splits option.splits)

text \<open>C22: For every request body, the endpoint answers 400 "Order cannot be empty."
  exactly when the body is an object whose \<open>items\<close> key (the last one, if repeated)
  holds an empty array; and the console receives output exactly when the order is
  acknowledged, so neither a body that fails validation (422) nor an empty order (400)
  prints anything.\<close>

theorem place_order_empty_rejected:
  "(fst (order_endpoint j) = HTTPException 400 ''Order cannot be empty.'' \<longleftrightarrow>
      (\<exists>kv. j = JObj kv \<and> jget kv ''items'' = Some (JArr []))) \<and>
   (snd (order_endpoint j) \<noteq> [] \<longleftrightarrow>
      fst (order_endpoint j) = JSONMessage ''Order received successfully!'')"
proof (cases "validate_order j")
  case None
  then have "\<not> (\<exists>kv. j = JObj kv \<and> jget kv ''items'' = Some (JArr []))"
    by (auto simp: validate_order_def)
  with None show ?thesis by (simp add: order_endpoint_def)
next
  case (Some order)
  then obtain kv xs where j: "j = JObj kv" "jget kv ''items'' = Some (JArr xs)"
    and xs: "those (map validate_order_item xs) = Some (items order)"
    by (auto simp: validate_order_Some)
  have "items order = [] \<longleftrightarrow> xs = []"
    using those_length [OF xs] by auto
  with Some j show ?thesis
    by (simp add: order_endpoint_def place_order_def print_def)
qed

text \<open>C23: Every non-empty validated order is acknowledged, whatever its item ids (they
  are not checked against the menu) and whatever its quantities (zero and negative
  quantities included), and with item ids free of newlines the console receives exactly
  one line per item after the header line.\<close>

theorem place_order_accepts_nonempty:
  assumes "items order \<noteq> []"
    and "\<forall>it \<in> set (items order). CHR 0x0A \<notin> set (item_id it)"
  shows "fst (place_order order) = JSONMessage ''Order received successfully!'' \<and>
         length (filter (\<lambda>c. c = CHR 0x0A) (snd (place_order order))) = length (items order) + 1"
proof -
  have "length (filter (\<lambda>c. c = CHR 0x0A) (print (order_line it))) = 1"
    if "CHR 0x0A \<notin> set (item_id it)" for it
    using that str_int_no_newline [of "quantity it"]
    by (simp add: print_def order_line_def filter_empty_conv) blast
  then have "length (filter (\<lambda>c. c = CHR 0x0A) (concat (map (print \<circ> order_line) its))) =
             length its" if "\<forall>it \<in> set its. CHR 0x0A \<notin> set (item_id it)" for its
    using that by (induction its) auto
  with assms show ?thesis
    by (simp add: place_order_def print_def)
qed

text \<open>Python's \<open>str\<close> of an int is read back exactly.\<close>

lemma str_int_roundtrip: "read_int (str_int i) = i"
proof (cases "i < 0")
  case True
  then show ?thesis
    by (simp add: str_int_def read_int_def read_digits_digits10)
next
  case False
  obtain c r where cr: "digits10 (nat i) = c # r"
    using digits10_nonempty by (cases "digits10 (nat i)") auto
  then have "c \<noteq> CHR ''-''" by (rule digits10_not_minus)
  with False cr have "read_int (str_int i) = int (read_digits (digits10 (nat i)))"
    by (simp add: str_int_def read_int_def)
  also have "\<dots> = i"
    using False by (simp add: read_digits_digits10)
  finally show ?thesis .
qed

lemma print_lines_join:
  "concat (map (print \<circ> order_line) (a # xs)) = print (order_line (foldl line_join a xs))"
proof (induction xs arbitrary: a)
  case Nil
  then show ?case by simp
next
  case (Cons x xs)
  have "print (order_line a) @ print (order_line x) = print (order_line (line_join a x))"
    by (simp add: print_def order_line_def line_join_def)
  then show ?case using Cons.IH [of "line_join a x"] by (simp add: append_assoc [symmetric])
qed

text \<open>C32: The console log does not determine the order: every order of two or more
  items gets the same response and prints exactly the same text as some one-item order,
  whose item id holds the other lines; so the log cannot tell how many items, nor which,
  were ordered.\<close>

theorem order_log_ambiguous:
  assumes "2 \<le> length (items order)"
  shows "\<exists>it. place_order \<lparr>items = [it]\<rparr> = place_order order"
proof -
  obtain a xs where axs: "items order = a # xs"
    using assms by (cases "items order") auto
  have "place_order \<lparr>items = [foldl line_join a xs]\<rparr> = place_order order"
    using print_lines_join [of "foldl line_join a xs" "[]"] print_lines_join [of a xs] axs
    by (simp add: place_order_def)
  then show ?thesis ..
qed

section \<open>Witnesses\<close>

theorem place_order_accepts_nonempty_witness:
  "''42'' \<notin> item_key ` set (the (get_menu menu_db)) \<and>
   place_order \<lparr>items = [\<lparr>item_id = ''42'', quantity = -3\<rparr>]\<rparr> =
     (JSONMessage ''Order received successfully!'',
      ''Received new order:'' @ [CHR 0x0A] @ ''  - Item ID: 42, Quantity: -3'' @ [CHR 0x0A])"
proof -
  have h: "items \<lparr>items = [\<lparr>item_id = ''42'', quantity = -3\<rparr>]\<rparr> \<noteq> []"
    "\<forall>it \<in> set (items \<lparr>items = [\<lparr>item_id = ''42'', quantity = -3\<rparr>]\<rparr>). CHR 0x0A \<notin> set (item_id it)"
    by simp_all
  have "fst (place_order \<lparr>items = [\<lparr>item_id = ''42'', quantity = -3\<rparr>]\<rparr>) =
          JSONMessage ''Order received successfully!''"
    using place_order_accepts_nonempty [OF h] by blast
  moreover have "snd (place_order \<lparr>items = [\<lparr>item_id = ''42'', quantity = -3\<rparr>]\<rparr>) =
          ''Received new order:'' @ [CHR 0x0A] @ ''  - Item ID: 42, Quantity: -3'' @ [CHR 0x0A]"
    by (simp add: place_order_def print_def order_line_def str_int_def digits10.simps digit_chars_def)
  moreover have "''42'' \<notin> item_key ` set (the (get_menu menu_db))"
    by (simp add: get_menu_def menu_db_def validate_menu_item_def field_str_def field_float_def
                  field_bool_def)
  ultimately show ?thesis by (metis prod.collapse)
qed

theorem order_log_ambiguous_witness:
  "\<exists>it. place_order \<lparr>items = [it]\<rparr> =
        place_order \<lparr>items = [\<lparr>item_id = ''x'', quantity = 2\<rparr>, \<lparr>item_id = ''y'', quantity = 1\<rparr>]\<rparr>"
  using order_log_ambiguous [of "\<lparr>items = [\<lparr>item_id = ''x'', quantity = 2\<rparr>, \<lparr>item_id = ''y'', quantity = 1\<rparr>]\<rparr>"]
  by simp

end
