(* ===== verification/Menu_App.thy ===== *)
theory Menu_App
  imports Menu_Service "HOL-Library.List_Lexorder" "HOL-Library.Char_ord"
begin

text \<open>
  The menu service as an ASGI application (\<open>src/main.py\<close>, lines 9-22 and the two route
  decorators). \<open>FastAPI(...)\<close> builds a middleware stack around the router:
  Starlette's \<open>ServerErrorMiddleware\<close> outermost, which turns an unhandled exception into
  a plain 500; inside it the \<open>CORSMiddleware\<close> added with \<open>allow_origins=["*"]\<close>,
  \<open>allow_credentials=True\<close>, \<open>allow_methods=["*"]\<close>, \<open>allow_headers=["*"]\<close>;
  inside that the exception handlers, which answer \<open>HTTPException\<close> and validation
  errors with JSON; and the router with the two routes and the documentation routes.
  The state of the process is the module global \<open>menu_db\<close> and the text printed to
  standard output. Both handlers are \<open>async def\<close> without an \<open>await\<close>, so each request
  runs to completion on the event loop: a step of the model is one request.

  Header names are lower case, as in the ASGI scope and in Starlette's \<open>Headers\<close>, and a
  header lookup returns the first value, as \<open>Headers.get\<close> does. The CORS middleware is
  Starlette's \<open>starlette/middleware/cors.py\<close> (\<open>expose_headers\<close> empty and no origin
  regex, as here); response bodies are the values FastAPI serialises, and of the headers
  the response classes add only the content type is kept.
\<close>

section \<open>HTTP messages\<close>

type_synonym headers = "(string \<times> string) list"

text \<open>\<open>MutableHeaders.__setitem__\<close>: the first header of that name takes the new value
  and later ones are dropped; a new name is appended.\<close>

fun hset :: "string \<Rightarrow> string \<Rightarrow> headers \<Rightarrow> headers" where
  "hset k v [] = [(k, v)]"
| "hset k v ((k', v') # hs) =
     (if k' = k then (k, v) # filter (\<lambda>(a, _). a \<noteq> k) hs else (k', v') # hset k v hs)"

text \<open>\<open>MutableHeaders.add_vary_header\<close>.\<close>

definition add_vary :: "string \<Rightarrow> headers \<Rightarrow> headers" where
  "add_vary v hs =
     hset ''vary'' (case map_of hs ''vary'' of None \<Rightarrow> v | Some old \<Rightarrow> old @ '', '' @ v) hs"

text \<open>Python's \<open>", ".join\<close>, \<open>str.split(",")\<close>, \<open>str.lower\<close> and \<open>str.strip\<close> on
  header text, which Starlette decodes as Latin-1 (so a character is one byte).\<close>

fun join :: "string \<Rightarrow> string list \<Rightarrow> string" where
  "join sep [] = []"
| "join sep [x] = x"
| "join sep (x # y # xs) = x @ sep @ join sep (y # xs)"

fun split_on :: "char \<Rightarrow> string \<Rightarrow> string list" where
  "split_on d [] = [[]]"
| "split_on d (c # cs) =
     (let ws = split_on d cs in if c = d then [] # ws else (c # hd ws) # tl ws)"

definition py_lower_char :: "char \<Rightarrow> char" where
  "py_lower_char c =
     (let n = (of_char c :: nat) in
      if (65 \<le> n \<and> n \<le> 90) \<or> (192 \<le> n \<and> n \<le> 222 \<and> n \<noteq> 215) then char_of (n + 32) else c)"

definition py_strip :: "string \<Rightarrow> string" where
  "py_strip s =
     (let sp = (\<lambda>c. of_char c \<in> ({9..13} \<union> {28..32} \<union> {133, 160} :: nat set))
      in rev (dropWhile sp (rev (dropWhile sp s))))"

datatype body = MenuJSON "MenuItem list" | ApiJSON api_response | PlainText string | DocsPage string

record response =
  status :: nat
  resp_headers :: headers
  resp_body :: body

record api_request =
  rq_method :: string
  rq_path :: string
  rq_headers :: headers
  rq_body :: "json option"

text \<open>What an application returns to the middleware around it: a response, or an
  exception that propagates.\<close>

datatype reply = Reply response | Crash

record menu_state =
  menu :: "pydict list"
  console :: string

definition menu_boot :: menu_state where
  "menu_boot = \<lparr>menu = menu_db, console = []\<rparr>"

section \<open>The router\<close>

definition json_response :: "nat \<Rightarrow> body \<Rightarrow> response" where
  "json_response n b = \<lparr>status = n, resp_headers = [(''content-type'', ''application/json'')],
                        resp_body = b\<rparr>"

definition text_response :: "nat \<Rightarrow> string \<Rightarrow> response" where
  "text_response n t = \<lparr>status = n, resp_headers = [(''content-type'', ''text/plain; charset=utf-8'')],
                        resp_body = PlainText t\<rparr>"

text \<open>FastAPI's \<open>http_exception_handler\<close>: an \<open>HTTPException\<close> becomes a JSON body
  \<open>{"detail": ...}\<close> with its status code; a returned dictionary is a 200.\<close>

definition api_reply :: "api_response \<Rightarrow> response" where
  "api_reply r =
     (case r of HTTPException n _ \<Rightarrow> json_response n (ApiJSON r)
              | JSONMessage _ \<Rightarrow> json_response 200 (ApiJSON r))"

text \<open>A path that matches a route but not its method: Starlette raises
  \<open>HTTPException(405)\<close> with an \<open>Allow\<close> header.\<close>

definition method_not_allowed :: "string \<Rightarrow> response" where
  "method_not_allowed m =
     (api_reply (HTTPException 405 ''Method Not Allowed''))
       \<lparr>resp_headers := [(''allow'', m), (''content-type'', ''application/json'')]\<rparr>"

text \<open>The routes FastAPI adds itself for its documentation; they are Starlette routes
  on functions, which accept \<open>GET\<close> and \<open>HEAD\<close>. Their \<open>Allow\<close> header joins a
  Python set, whose order depends on string hashing; the model lists \<open>GET\<close> first.
  The API routes accept exactly the one method of their decorator.\<close>

definition docs_paths :: "string list" where
  "docs_paths = [''/openapi.json'', ''/docs'', ''/docs/oauth2-redirect'', ''/redoc'']"

definition route_paths :: "string list" where
  "route_paths = docs_paths @ [''/api/menu'', ''/api/order'']"

text \<open>Starlette's \<open>redirect_slashes\<close>: a path that matches no route is retried with its
  trailing slashes removed, or with a slash added, and a match there is answered with a
  307 redirect.\<close>

definition slash_variant :: "string \<Rightarrow> string" where
  "slash_variant p =
     (if p \<noteq> [] \<and> last p = CHR ''/'' then rev (dropWhile (\<lambda>c. c = CHR ''/'') (rev p))
      else p @ ''/'')"

text \<open>The router below the exception handlers. \<open>GET /api/menu\<close> is \<open>get_menu\<close> on the
  current value of the global, whose result FastAPI validates against
  \<open>List[MenuItem]\<close> (a failure is an exception); \<open>POST /api/order\<close> is
  \<open>order_endpoint\<close> on the body, which is answered 422 when it is not JSON, and what
  the handler prints is appended to standard output.\<close>

definition route_api :: "menu_state \<Rightarrow> api_request \<Rightarrow> reply \<times> menu_state" where
  "route_api st rq =
     (let p = rq_path rq; m = rq_method rq in
      if p \<in> set docs_paths then
        (if m \<in> {''GET'', ''HEAD''} then
           (Reply \<lparr>status = 200, resp_headers = [], resp_body = DocsPage p\<rparr>, st)
         else (Reply (method_not_allowed ''GET, HEAD''), st))
      else if p = ''/api/menu'' then
        (if m = ''GET'' then
           (case get_menu (menu st) of
              Some ms \<Rightarrow> (Reply (json_response 200 (MenuJSON ms)), st)
            | None \<Rightarrow> (Crash, st))
         else (Reply (method_not_allowed ''GET''), st))
      else if p = ''/api/order'' then
        (if m = ''POST'' then
           (case rq_body rq of
              None \<Rightarrow> (Reply (api_reply (HTTPException 422 ''Unprocessable Entity'')), st)
            | Some j \<Rightarrow>
                (case order_endpoint j of
                   (r, out) \<Rightarrow> (Reply (api_reply r), st\<lparr>console := console st @ out\<rparr>)))
         else (Reply (method_not_allowed ''POST''), st))
      else if p \<noteq> ''/'' \<and> slash_variant p \<in> set route_paths then
        (Reply \<lparr>status = 307, resp_headers = [(''location'', slash_variant p)],
                resp_body = PlainText []\<rparr>, st)
      else (Reply (api_reply (HTTPException 404 ''Not Found'')), st))"

section \<open>The CORS middleware\<close>

record cors_config =
  allow_origins :: "string list"
  allow_methods :: "string list"
  allow_headers :: "string list"
  allow_credentials :: bool
  max_age :: nat

text \<open>\<open>app.add_middleware(CORSMiddleware, ...)\<close> in \<open>src/main.py\<close>; \<open>max_age\<close> keeps
  its default.\<close>

definition menu_cors :: cors_config where
  "menu_cors = \<lparr>allow_origins = [''*''], allow_methods = [''*''], allow_headers = [''*''],
                allow_credentials = True, max_age = 600\<rparr>"

text \<open>What \<open>CORSMiddleware.__init__\<close> derives from its arguments: \<open>"*"\<close> among the
  methods stands for Starlette's seven \<open>ALL_METHODS\<close>, not for every method, and the
  explicit header list always contains the four CORS-safelisted headers.\<close>

definition all_methods :: "string list" where
  "all_methods = [''DELETE'', ''GET'', ''HEAD'', ''OPTIONS'', ''PATCH'', ''POST'', ''PUT'']"

definition cors_methods :: "cors_config \<Rightarrow> string list" where
  "cors_methods cfg = (if ''*'' \<in> set (allow_methods cfg) then all_methods else allow_methods cfg)"

definition allow_all_origins :: "cors_config \<Rightarrow> bool" where
  "allow_all_origins cfg \<longleftrightarrow> ''*'' \<in> set (allow_origins cfg)"

definition allow_all_headers :: "cors_config \<Rightarrow> bool" where
  "allow_all_headers cfg \<longleftrightarrow> ''*'' \<in> set (allow_headers cfg)"

definition explicit_origin :: "cors_config \<Rightarrow> bool" where
  "explicit_origin cfg \<longleftrightarrow> \<not> allow_all_origins cfg \<or> allow_credentials cfg"

definition cors_header_names :: "cors_config \<Rightarrow> string list" where
  "cors_header_names cfg =
     sort (remdups ([''Accept'', ''Accept-Language'', ''Content-Language'', ''Content-Type''] @
                    allow_headers cfg))"

definition is_allowed_origin :: "cors_config \<Rightarrow> string \<Rightarrow> bool" where
  "is_allowed_origin cfg origin \<longleftrightarrow> allow_all_origins cfg \<or> origin \<in> set (allow_origins cfg)"

definition simple_headers :: "cors_config \<Rightarrow> headers" where
  "simple_headers cfg =
     (if allow_all_origins cfg then [(''access-control-allow-origin'', ''*'')] else []) @
     (if allow_credentials cfg then [(''access-control-allow-credentials'', ''true'')] else [])"

definition preflight_headers :: "cors_config \<Rightarrow> headers" where
  "preflight_headers cfg =
     (if explicit_origin cfg then [(''vary'', ''Origin'')] else [(''access-control-allow-origin'', ''*'')]) @
     [(''access-control-allow-methods'', join '', '' (cors_methods cfg)),
      (''access-control-max-age'', str_int (int (max_age cfg)))] @
     (if cors_header_names cfg \<noteq> [] \<and> \<not> allow_all_headers cfg
      then [(''access-control-allow-headers'', join '', '' (cors_header_names cfg))] else []) @
     (if allow_credentials cfg then [(''access-control-allow-credentials'', ''true'')] else [])"

text \<open>\<open>CORSMiddleware.preflight_response\<close>, for the origin, the requested method and the
  requested headers of an \<open>OPTIONS\<close> request.\<close>

definition preflight_response :: "cors_config \<Rightarrow> string \<Rightarrow> string \<Rightarrow> string option \<Rightarrow> response" where
  "preflight_response cfg origin rm rh =
     (let ok_origin = is_allowed_origin cfg origin;
          hs1 = (if ok_origin \<and> explicit_origin cfg
                 then hset ''access-control-allow-origin'' origin (preflight_headers cfg)
                 else preflight_headers cfg);
          ok_method = rm \<in> set (cors_methods cfg);
          hs2 = (case rh of
                   Some h \<Rightarrow> if allow_all_headers cfg then hset ''access-control-allow-headers'' h hs1 else hs1
                 | None \<Rightarrow> hs1);
          ok_headers = (case rh of
                   Some h \<Rightarrow> allow_all_headers cfg \<or>
                     list_all (\<lambda>x. py_strip x \<in> set (map (map py_lower_char) (cors_header_names cfg)))
                              (map (map py_lower_char) (split_on CHR '','' h))
                 | None \<Rightarrow> True);
          failures = (if ok_origin then [] else [''origin'']) @ (if ok_method then [] else [''method'']) @
                     (if ok_headers then [] else [''headers'']);
          r = (if failures = [] then text_response 200 ''OK''
               else text_response 400 (''Disallowed CORS '' @ join '', '' failures))
      in r\<lparr>resp_headers := hs2 @ resp_headers r\<rparr>)"

text \<open>\<open>CORSMiddleware.send\<close>: the headers added to the response of any other request
  that carries an \<open>Origin\<close>. With every origin allowed, a request with a cookie gets its
  own origin back instead of \<open>*\<close>.\<close>

definition cors_simple :: "cors_config \<Rightarrow> string \<Rightarrow> bool \<Rightarrow> headers \<Rightarrow> headers" where
  "cors_simple cfg origin has_cookie hs =
     (let hs1 = fold (\<lambda>(k, v). hset k v) (simple_headers cfg) hs in
      if (allow_all_origins cfg \<and> has_cookie) \<or> (\<not> allow_all_origins cfg \<and> is_allowed_origin cfg origin)
      then add_vary ''Origin'' (hset ''access-control-allow-origin'' origin hs1)
      else hs1)"

text \<open>\<open>CORSMiddleware.__call__\<close>: a request without \<open>Origin\<close> passes through; an
  \<open>OPTIONS\<close> request with \<open>Access-Control-Request-Method\<close> is answered by the
  middleware itself and never reaches the application; any other response gets the
  CORS headers. An exception passes through unchanged.\<close>

definition cors_middleware ::
  "cors_config \<Rightarrow> (menu_state \<Rightarrow> api_request \<Rightarrow> reply \<times> menu_state) \<Rightarrow>
   menu_state \<Rightarrow> api_request \<Rightarrow> reply \<times> menu_state" where
  "cors_middleware cfg inner st rq =
     (let hs = rq_headers rq in
      case map_of hs ''origin'' of
        None \<Rightarrow> inner st rq
      | Some origin \<Rightarrow>
          if rq_method rq = ''OPTIONS'' \<and> map_of hs ''access-control-request-method'' \<noteq> None
          then (Reply (preflight_response cfg origin (the (map_of hs ''access-control-request-method''))
                                          (map_of hs ''access-control-request-headers'')), st)
          else (case inner st rq of
                  (Reply r, st') \<Rightarrow>
                    (Reply (r\<lparr>resp_headers :=
                               cors_simple cfg origin (map_of hs ''cookie'' \<noteq> None) (resp_headers r)\<rparr>), st')
                | (Crash, st') \<Rightarrow> (Crash, st')))"

section \<open>The application\<close>

text \<open>\<open>ServerErrorMiddleware\<close>, outermost: an exception becomes a plain-text 500 (with
  \<open>debug\<close> off), without CORS headers since it is raised through the CORS middleware.\<close>

definition server_errors ::
  "(menu_state \<Rightarrow> api_request \<Rightarrow> reply \<times> menu_state) \<Rightarrow>
   menu_state \<Rightarrow> api_request \<Rightarrow> response \<times> menu_state" where
  "server_errors h st rq =
     (case h st rq of
        (Reply r, st') \<Rightarrow> (r, st')
      | (Crash, st') \<Rightarrow> (text_response 500 ''Internal Server Error'', st'))"

text \<open>\<open>app = FastAPI(...)\<close> with \<open>app.add_middleware(CORSMiddleware, ...)\<close>.\<close>

definition menu_app :: "menu_state \<Rightarrow> api_request \<Rightarrow> response \<times> menu_state" where
  "menu_app = server_errors (cors_middleware menu_cors route_api)"

text \<open>A run of the process on a sequence of requests, in arrival order, and the states the
  process can reach from start-up.\<close>

definition menu_run :: "menu_state \<Rightarrow> api_request list \<Rightarrow> response list \<times> menu_state" where
  "menu_run st rqs =
     fold (\<lambda>rq (rs, s). (rs @ [fst (menu_app s rq)], snd (menu_app s rq))) rqs ([], st)"

inductive menu_reachable :: "menu_state \<Rightarrow> bool" where
  boot: "menu_reachable menu_boot"
| step: "menu_reachable st \<Longrightarrow> menu_reachable (snd (menu_app st rq))"

text \<open>What a request leaves on standard output, as the specification describes it: the
  order's lines when it is a valid non-empty order posted to \<open>/api/order\<close>, and
  nothing otherwise.\<close>

definition order_output :: "api_request \<Rightarrow> string" where
  "order_output rq =
     (if rq_path rq = ''/api/order'' \<and> rq_method rq = ''POST'' then
        (case rq_body rq \<bind> validate_order of
           Some order \<Rightarrow> if items order = [] then [] else snd (place_order order)
         | None \<Rightarrow> [])
      else [])"

text \<open>A \<open>GET /api/menu\<close> request with the given headers.\<close>

definition menu_get :: "headers \<Rightarrow> api_request" where
  "menu_get hs = \<lparr>rq_method = ''GET'', rq_path = ''/api/menu'', rq_headers = hs, rq_body = None\<rparr>"

section \<open>Lemmas: headers, state and the middleware\<close>

lemma map_of_filter_other: "k' \<noteq> k \<Longrightarrow> map_of (filter (\<lambda>(a, _). a \<noteq> k) hs) k' = map_of hs k'"
  by (induction hs) auto

lemma map_of_hset [simp]: "map_of (hset k v hs) k' = (if k' = k then Some v else map_of hs k')"
  by (induction k v hs rule: hset.induct) (auto simp: map_of_filter_other)

lemma map_of_add_vary_other [simp]: "k \<noteq> ''vary'' \<Longrightarrow> map_of (add_vary v hs) k = map_of hs k"
  by (simp add: add_vary_def)

lemma route_api_keeps_menu [simp]: "menu (snd (route_api st rq)) = menu st"
  by (auto simp: route_api_def Let_def split: option.splits prod.splits)

lemma cors_middleware_state:
  "snd (cors_middleware cfg inner st rq) =
     (if map_of (rq_headers rq) ''origin'' \<noteq> None \<and> rq_method rq = ''OPTIONS'' \<and>
         map_of (rq_headers rq) ''access-control-request-method'' \<noteq> None
      then st else snd (inner st rq))"
  by (auto simp: cors_middleware_def Let_def split: option.splits prod.splits reply.splits)

lemma server_errors_state [simp]: "snd (server_errors h st rq) = snd (h st rq)"
  by (simp add: server_errors_def split: prod.splits reply.splits)

lemma menu_app_keeps_menu [simp]: "menu (snd (menu_app st rq)) = menu st"
  by (simp add: menu_app_def cors_middleware_state)

lemma menu_reachable_menu: "menu_reachable st \<Longrightarrow> menu st = menu_db"
  by (induction rule: menu_reachable.induct) (simp_all add: menu_boot_def)

lemma route_api_replies:
  assumes "get_menu (menu st) \<noteq> None"
  shows "\<exists>r. fst (route_api st rq) = Reply r"
  using assms by (auto simp: route_api_def Let_def split: option.splits prod.splits)

lemma menu_app_get_menu:
  assumes "menu_reachable st" and "rq_path rq = ''/api/menu''" and "rq_method rq = ''GET''"
  shows "menu_app st rq =
           (\<lparr>status = 200,
             resp_headers = (case map_of (rq_headers rq) ''origin'' of
                               None \<Rightarrow> [(''content-type'', ''application/json'')]
                             | Some origin \<Rightarrow> cors_simple menu_cors origin (map_of (rq_headers rq) ''cookie'' \<noteq> None)
                                                [(''content-type'', ''application/json'')]),
             resp_body = MenuJSON (the (get_menu menu_db))\<rparr>, st)"
proof -
  obtain ms where ms: "get_menu menu_db = Some ms"
    using get_menu_defined by blast
  then show ?thesis
    using assms menu_reachable_menu [OF assms(1)]
    by (simp add: menu_app_def server_errors_def cors_middleware_def route_api_def Let_def docs_paths_def
                  json_response_def split: option.splits)
qed


lemma menu_cors_simps:
  "allow_all_origins menu_cors" "allow_all_headers menu_cors" "explicit_origin menu_cors"
  "cors_methods menu_cors = all_methods" "is_allowed_origin menu_cors origin"
  "simple_headers menu_cors = [(''access-control-allow-origin'', ''*''), (''access-control-allow-credentials'', ''true'')]"
  by (simp_all add: menu_cors_def allow_all_origins_def allow_all_headers_def explicit_origin_def
                    cors_methods_def is_allowed_origin_def simple_headers_def)

lemma map_of_cors_simple_menu:
  "map_of (cors_simple menu_cors origin c hs) ''access-control-allow-origin'' = Some (if c then origin else ''*'')"
  "map_of (cors_simple menu_cors origin c hs) ''access-control-allow-credentials'' = Some ''true''"
  by (simp_all add: cors_simple_def menu_cors_simps Let_def)

lemma preflight_menu:
  "preflight_response menu_cors origin m rh =
     (let hs1 = hset ''access-control-allow-origin'' origin (preflight_headers menu_cors);
          hs2 = (case rh of Some h \<Rightarrow> hset ''access-control-allow-headers'' h hs1 | None \<Rightarrow> hs1);
          r = (if m \<in> set all_methods then text_response 200 ''OK''
               else text_response 400 ''Disallowed CORS method'')
      in r\<lparr>resp_headers := hs2 @ resp_headers r\<rparr>)"
  by (simp add: preflight_response_def menu_cors_simps Let_def split: option.splits)

lemma preflight_menu_credentials:
  "map_of (preflight_headers menu_cors) ''access-control-allow-credentials'' = Some ''true''"
  by (simp add: preflight_headers_def menu_cors_simps) (simp add: menu_cors_def)

lemma menu_app_preflight:
  assumes "map_of (rq_headers rq) ''origin'' = Some origin"
    and "map_of (rq_headers rq) ''access-control-request-method'' = Some m"
    and "rq_method rq = ''OPTIONS''"
  shows "menu_app st rq =
           (preflight_response menu_cors origin m (map_of (rq_headers rq) ''access-control-request-headers''), st)"
  using assms by (simp add: menu_app_def server_errors_def cors_middleware_def)

lemma order_endpoint_output: "snd (order_endpoint j) =
  (case validate_order j of Some order \<Rightarrow> if items order = [] then [] else snd (place_order order) | None \<Rightarrow> [])"
  by (simp add: order_endpoint_def place_order_def split: option.splits)

lemma route_api_order:
  assumes "rq_path rq = ''/api/order''" "rq_method rq = ''POST''"
  shows "console (snd (route_api st rq)) = console st @ order_output rq"
proof (cases "rq_body rq")
  case None
  with assms show ?thesis by (simp add: route_api_def order_output_def docs_paths_def)
next
  case (Some j)
  with assms show ?thesis
    using order_endpoint_output [of j]
    by (cases "order_endpoint j") (simp add: route_api_def order_output_def docs_paths_def)
qed

lemma route_api_other:
  assumes "\<not> (rq_path rq = ''/api/order'' \<and> rq_method rq = ''POST'')"
  shows "snd (route_api st rq) = st"
  using assms by (simp add: route_api_def Let_def split: option.splits)
lemma route_api_console: "console (snd (route_api st rq)) = console st @ order_output rq"
  using route_api_order [of rq st] route_api_other [of rq st]
  by (cases "rq_path rq = ''/api/order'' \<and> rq_method rq = ''POST''") (auto simp: order_output_def)

lemma menu_app_console: "console (snd (menu_app st rq)) = console st @ order_output rq"
  by (simp add: menu_app_def cors_middleware_state route_api_console) (simp add: order_output_def)

section \<open>Properties of the menu application\<close>

text \<open>C37: In every state the process can reach, \<open>GET /api/menu\<close> answers 200 with the
  same ten validated catalogue items and changes nothing: no request changes the module
  global \<open>menu_db\<close>, so the endpoint is idempotent, whatever headers the request has.\<close>

theorem menu_get_same_catalogue:
  assumes "menu_reachable st" and "rq_path rq = ''/api/menu''" and "rq_method rq = ''GET''"
  shows "status (fst (menu_app st rq)) = 200 \<and>
         resp_body (fst (menu_app st rq)) = MenuJSON (the (get_menu menu_db)) \<and>
         snd (menu_app st rq) = st"
  using menu_app_get_menu [OF assms] by simp

text \<open>C38: Every non-preflight request from any origin is answered with CORS headers that
  let the browser read it: \<open>Access-Control-Allow-Credentials: true\<close> always, and
  \<open>Access-Control-Allow-Origin\<close> the request's own origin when it carries a cookie
  (\<open>*\<close> otherwise), so credentialed cross-site reads are allowed from every site.\<close>

theorem cors_credentialed_any_origin:
  assumes "menu_reachable st" and "map_of (rq_headers rq) ''origin'' = Some origin"
    and "rq_method rq \<noteq> ''OPTIONS''"
  shows "map_of (resp_headers (fst (menu_app st rq))) ''access-control-allow-origin'' =
           Some (if map_of (rq_headers rq) ''cookie'' \<noteq> None then origin else ''*'') \<and>
         map_of (resp_headers (fst (menu_app st rq))) ''access-control-allow-credentials'' = Some ''true''"
proof -
  have "get_menu (menu st) \<noteq> None"
    using menu_reachable_menu [OF assms(1)] get_menu_defined by simp
  then obtain r st' where r: "route_api st rq = (Reply r, st')"
    using route_api_replies by (metis prod.collapse)
  then have "fst (menu_app st rq) =
               r\<lparr>resp_headers := cors_simple menu_cors origin (map_of (rq_headers rq) ''cookie'' \<noteq> None) (resp_headers r)\<rparr>"
    using assms(2,3) by (simp add: menu_app_def server_errors_def cors_middleware_def)
  then show ?thesis by (simp add: map_of_cors_simple_menu)
qed

text \<open>C39: A CORS preflight from any origin never reaches the application and changes
  nothing; it echoes the origin and the requested headers and allows credentials, but is
  accepted only for the seven methods of Starlette's \<open>ALL_METHODS\<close> and refused with
  400 for any other method, although the middleware is configured with
  \<open>allow_methods=["*"]\<close>.\<close>

theorem cors_preflight_any_origin:
  assumes "map_of (rq_headers rq) ''origin'' = Some origin"
    and "map_of (rq_headers rq) ''access-control-request-method'' = Some m"
    and "rq_method rq = ''OPTIONS''"
  shows "snd (menu_app st rq) = st \<and>
         status (fst (menu_app st rq)) = (if m \<in> set all_methods then 200 else 400) \<and>
         map_of (resp_headers (fst (menu_app st rq))) ''access-control-allow-origin'' = Some origin \<and>
         map_of (resp_headers (fst (menu_app st rq))) ''access-control-allow-credentials'' = Some ''true'' \<and>
         (case map_of (rq_headers rq) ''access-control-request-headers'' of
            None \<Rightarrow> True
          | Some h \<Rightarrow> map_of (resp_headers (fst (menu_app st rq))) ''access-control-allow-headers'' = Some h)"
  using menu_app_preflight [OF assms] preflight_menu_credentials
  by (simp add: preflight_menu Let_def text_response_def split: option.splits)

text \<open>C40: Over any run of requests, standard output receives exactly the lines of the
  valid non-empty orders posted to \<open>/api/order\<close>, in arrival order; every other request
  (menu reads, preflights, rejected and malformed orders, unknown paths) prints nothing.\<close>

theorem menu_run_console:
  "console (snd (menu_run st rqs)) = console st @ concat (map order_output rqs)"
proof -
  have "console (snd (fold (\<lambda>rq (rs, s). (rs @ [fst (menu_app s rq)], snd (menu_app s rq))) rqs (rs, s))) =
        console s @ concat (map order_output rqs)" for rs s
    by (induction rqs arbitrary: rs s) (simp_all add: menu_app_console)
  then show ?thesis by (simp add: menu_run_def)
qed

section \<open>Witnesses\<close>

theorem menu_get_same_catalogue_witness:
  "status (fst (menu_app menu_boot (menu_get []))) = 200 \<and>
   snd (menu_app menu_boot (menu_get [])) = menu_boot"
proof -
  have h: "menu_reachable menu_boot" "rq_path (menu_get []) = ''/api/menu''"
    "rq_method (menu_get []) = ''GET''"
    by (simp_all add: menu_reachable.boot menu_get_def)
  show ?thesis using menu_get_same_catalogue [OF h] by simp
qed

theorem cors_credentialed_any_origin_witness:
  "map_of (resp_headers (fst (menu_app menu_boot
      (menu_get [(''origin'', ''https://evil.example''), (''cookie'', ''sid=1'')]))))
      ''access-control-allow-origin'' = Some ''https://evil.example''"
proof -
  let ?rq = "menu_get [(''origin'', ''https://evil.example''), (''cookie'', ''sid=1'')]"
  have h: "menu_reachable menu_boot" "map_of (rq_headers ?rq) ''origin'' = Some ''https://evil.example''"
    "rq_method ?rq \<noteq> ''OPTIONS''"
    by (simp_all add: menu_reachable.boot menu_get_def)
  show ?thesis using cors_credentialed_any_origin [OF h] by (simp add: menu_get_def)
qed

theorem cors_preflight_any_origin_witness:
  "status (fst (menu_app menu_boot
     \<lparr>rq_method = ''OPTIONS'', rq_path = ''/api/order'',
      rq_headers = [(''origin'', ''https://evil.example''), (''access-control-request-method'', ''PROPFIND'')],
      rq_body = None\<rparr>)) = 400"
proof -
  let ?rq = "\<lparr>rq_method = ''OPTIONS'', rq_path = ''/api/order'',
      rq_headers = [(''origin'', ''https://evil.example''), (''access-control-request-method'', ''PROPFIND'')],
      rq_body = None\<rparr>"
  have h: "map_of (rq_headers ?rq) ''origin'' = Some ''https://evil.example''"
    "map_of (rq_headers ?rq) ''access-control-request-method'' = Some ''PROPFIND''"
    "rq_method ?rq = ''OPTIONS''"
    by simp_all
  show ?thesis using cors_preflight_any_origin [OF h, of menu_boot] by (simp add: all_methods_def)
qed

end
