(* ===== verification/Spec2Isabelle.thy ===== *)
theory Spec2Isabelle
  imports Blog_App Menu_App
begin

text \<open>
  \<^bold>\<open>A verification development for the repository's two web services.\<close>

  The repository holds two independent services. \<open>src/app.py\<close> is a Flask blog:
  users sign up, log in with a session cookie (Flask-Login) and write, edit and delete
  posts kept in SQLite through Flask-SQLAlchemy; posts are listed, searched and shown
  per author. \<open>src/main.py\<close> is a FastAPI service with a read-only in-memory menu of
  ten items and an order endpoint that checks only that an order is non-empty, prints it
  and acknowledges it. The services share nothing.

  \<^bold>\<open>Theories and what they model.\<close>
  \<^item> \<open>Prelude\<close>: the request dictionaries (\<open>request.form\<close>, \<open>request.args\<close>) as
    association lists read with \<open>map_of\<close>, lemma collections, row lookup with
    \<open>find\<close>, and \<open>ORDER BY \<dots> DESC\<close> as a stable sort on the negated key.
  \<^item> \<open>Blog_Model\<close>: \<open>User\<close> and \<open>Post\<close> (lines 26-52) as records, the database as
    the record \<open>store\<close> of two row lists in rowid order; the queries
    \<open>load_user\<close>, \<open>user_by_email\<close>, \<open>user_by_username\<close>, \<open>post_get\<close>,
    \<open>order_by_date_desc\<close>; each add/delete followed by \<open>db.session.commit()\<close> as one
    definition (\<open>add_user\<close>, \<open>add_post\<close>, \<open>update_post\<close>, \<open>delete_row\<close>) that
    either returns the new store or \<open>Inl IntegrityError\<close> (NOT NULL, UNIQUE), leaving the
    store as it was; ids from \<open>next_rowid\<close> (SQLite's largest-plus-one rowid);
    \<open>werkzeug\<close> hashing as a symbolic salted term (\<open>PwHash\<close>) with the salt as
    input; Flask-Login's \<open>current_user\<close> and \<open>@login_required\<close>; the response of a
    request as the record \<open>result\<close> (outcome, flashed messages, session, store). The
    store invariant \<open>store_inv\<close> (unique ids, usernames, emails; every post's author
    exists) and its preservation by every commit.
  \<^item> \<open>Blog_Auth\<close>: \<open>login\<close>, \<open>signup\<close>, \<open>logout\<close> (lines 61-103), every branch
    including the exceptions on missing fields.
  \<^item> \<open>Sql_Like\<close>: SQLite's \<open>LIKE\<close>, which \<open>Post.title.contains(q)\<close> renders as
    \<open>LIKE '%' || q || '%'\<close>. Three levels: the declarative language of a pattern
    (\<open>like_lang\<close>: \<open>%\<close> any string, \<open>_\<close> any character, ASCII letters up to case); a
    reference matcher \<open>like\<close>; and SQLite's own code, \<open>likeFunc\<close> (\<open>like_func\<close>, which
    refuses a pattern over 50000 UTF-8 bytes with an \<open>OperationalError\<close>) and
    \<open>patternCompare\<close> (\<open>pattern_compare\<close>, a partial function whose scan after a
    \<open>%\<close>, \<open>scan_loop\<close>, cuts the search with \<open>SQLITE_NOWILDCARDMATCH\<close>). The
    implementation is proved total and equal to the reference matcher
    (\<open>pattern_compare_terminates\<close>) and to the language (\<open>pattern_compare_lang\<close>), and
    \<open>contains\<close> is case-insensitive substring search on wildcard-free queries.
  \<^item> \<open>Blog_Posts\<close>: \<open>index\<close>, \<open>profile\<close>, \<open>create_post\<close>, \<open>view_post\<close>,
    \<open>edit_post\<close>, \<open>delete_post\<close>, \<open>search\<close> (lines 55-176), with the order of checks
    of the code: login, then \<open>get_or_404\<close>, then the author check.
  \<^item> \<open>Blog_App\<close>: the URL map \<open>app\<close> (405 for a method a route does not accept), and
    the server: a record of the store and each client's cookie, one step \<open>serve\<close> per
    request, and the reachable states as an inductive predicate \<open>reachable\<close>, which
    with its flag set also lets a client sign any cookie; runs of one client's requests
    (\<open>serve_seq\<close>) for the liveness properties. Below it the signed-cookie server:
    Flask's session cookie as the user id signed with a key (\<open>cookie\<close>, a symbolic
    signature as in protocol models), opened by the server with \<open>secret_key\<close> (line 10,
    \<open>open_session\<close>), set or deleted by each response (\<open>wire_serve\<close>), and runs in
    which clients install any cookie they can sign with a key they know
    (\<open>wire_reachable\<close>). It refines the server model (\<open>wire_refines_server\<close>), so
    the forging step is not assumed but follows from the key being in the source.
    Start-up (lines 179-183): the empty store
    of \<open>db.create_all()\<close> is the initial server state, and \<open>app.run(debug=True)\<close> is
    the flag \<open>blog_debug\<close> of \<open>http_response\<close>, which turns a view's outcome into the
    HTTP answer: under the debugger a raised exception becomes Werkzeug's traceback page.
  \<^item> \<open>Menu_Service\<close>: \<open>menu_db\<close> verbatim (decimals as exact rationals), the
    \<open>MenuItem\<close> response model as validation of each dictionary, \<open>get_menu\<close>; the
    JSON body (objects as key lists, the last of repeated keys counting, \<open>jget\<close>), the
    order body's validation with Pydantic's lax int (\<open>lax_int\<close>: booleans, integral
    floats and numeric strings, read by \<open>int_text\<close>); \<open>place_order\<close> with its HTTP
    400 and its console output
    (Python's \<open>str\<close> of an int and \<open>print\<close>). \<open>get_menu\<close> takes the current
    value of the module global as its argument.
  \<^item> \<open>Menu_App\<close>: the FastAPI application of lines 9-22: Starlette's \<open>CORSMiddleware\<close>
    with the source's arguments (\<open>preflight_response\<close>, \<open>cors_simple\<close>,
    \<open>cors_middleware\<close>), \<open>ServerErrorMiddleware\<close> (\<open>server_errors\<close>), the router
    \<open>route_api\<close> (404, 405 with \<open>Allow\<close>, 307 for a trailing slash, 422 for a body that
    is not JSON, the documentation routes), composed as \<open>menu_app\<close>; the process state
    \<open>menu_state\<close> (the global \<open>menu_db\<close> and standard output), runs of requests
    (\<open>menu_run\<close>) and the reachable states (\<open>menu_reachable\<close>).
  \<^item> this theory: properties that span the blog's components.

  \<^bold>\<open>What is proved.\<close> Authorization: a request removes or changes a post only when its
  session names the author (\<open>app_removes_post_only_with_author_session\<close>,
  \<open>edit_post_only_author\<close>, \<open>delete_post_only_author\<close>), non-authors get the
  permission flash with the store unchanged, and every route behind
  \<open>@login_required\<close> turns anonymous clients away; no GET request changes the store.
  Functional behaviour of every route
  on every branch: signup with a taken email changes nothing, a successful signup adds
  one user whose hash accepts exactly the password, login succeeds exactly on a
  matching password and fails uniformly otherwise, create/edit/delete change exactly
  the rows they should, listing and search return the right posts newest first.
  Invariants by rule induction over reachable server states: \<open>store_inv\<close>, and
  without forging every session cookie names a registered user; on the signed-cookie
  server, with a key clients do not know, every accepted session names a registered user
  whatever cookies clients make up. Ids are rowids: in a blog with ids \<open>1..n\<close>, deleting
  the newest post hands its id to the next post (\<open>deleted_post_id_reused\<close>). Liveness: from any state
  satisfying the invariant, a client that knows a user's password gets that user's session
  with a logout and a login, and a client with an untaken username and email gets a new
  account and its session with a logout and a signup. For the menu service:
  the catalogue validates with its fixed ten items and bounds on price and rating; a body
  is answered 400 exactly when its \<open>items\<close> is an empty array, and nothing is printed
  unless the order is acknowledged; every other valid order is acknowledged; every order of
  several items prints what some one-item order prints. In every reachable state of the menu process \<open>GET /api/menu\<close>
  returns the same ten items and changes nothing; over any run, standard output holds
  exactly the lines of the valid non-empty orders in arrival order; the CORS middleware
  answers every origin, reflecting it with credentials allowed. SQLite's
  \<open>patternCompare\<close> terminates on every input and agrees with the reference matcher and
  the pattern's language.

  \<^bold>\<open>Findings\<close> (theorems that show the code's behaviour where the spec says
  otherwise or says nothing): a taken username or a missing form field gives HTTP 500
  instead of a flash message; empty titles are accepted and an empty thumbnail field is
  stored empty (the placeholder applies only to a missing field); the published secret
  key lets any client sign the author's cookie and delete any post
  (\<open>forged_cookie_deletes_any_post\<close>); the blog runs with Werkzeug's debugger, whose
  traceback page any anonymous client reaches with an empty signup
  (\<open>debugger_exposed\<close>); \<open>%\<close> and \<open>_\<close> in a search are wildcards, and a
  query over 49998 bytes raises \<open>OperationalError\<close>; quantities such as \<open>true\<close>,
  \<open>2.0\<close> or \<open>" 3 "\<close> are accepted as ints;
  post ids are reused after the newest post is deleted; orders with non-positive
  quantities or unknown item ids are accepted; item ids can forge console lines; the CORS
  policy lets every site make credentialed reads (\<open>cors_credentialed_any_origin\<close>)
  and \<open>allow_methods=["*"]\<close> allows only Starlette's seven methods in a preflight.

  \<^bold>\<open>Bounds and fuel.\<close> No loop of the program can run forever: every recursion is
  structural or has a proved termination order (\<open>like\<close> on the lexicographic sizes of
  text and pattern, \<open>digits10\<close> on the number), so no fuel is needed. SQLite's
  \<open>patternCompare\<close> is recursive through its scan, so it is a
  \<open>partial_function (option)\<close> in which not returning is \<open>None\<close>; that it always
  returns is proved by strong induction on the pattern's length. The two
  liveness properties need two requests each, whatever the state. Python's ints
  are unbounded and the model uses \<open>int\<close>/\<open>nat\<close>; SQLite's 64-bit rowids are not
  bounded in the model, which is sound for any store smaller than \<open>2^63\<close> rows.

  \<^bold>\<open>Not modelled.\<close> The Jinja templates (not in the repository: a page is the
  template's name and arguments), the consumption of flash messages by templates,
  Flask-Login's remember-me cookie as distinct from the session, the \<open>next\<close> URL
  parameter, the VARCHAR lengths (SQLite does not enforce them), HEAD/OPTIONS and unknown
  URLs of the blog, the text of Pydantic's 422 error bodies, the content of the generated
  documentation pages of the menu service, the \<open>content-length\<close> header, a
  \<open>blog.db\<close> left by an earlier run (the liveness lemmas cover it: they assume only the
  invariant), the debugger's PIN and console, and the servers' socket handling. Concurrency is
  delegated to the servers and the database: each request is one atomic step of the
  server models (the menu handlers are \<open>async\<close> without \<open>await\<close>).
\<close>

section \<open>Properties spanning the blog components\<close>

text \<open>C14: Every route behind \<open>@login_required\<close> (logout, create, edit, delete) answers an
  anonymous client with a redirect to the login page and Flask-Login's message, and
  changes neither the store nor the session.\<close>

theorem protected_routes_require_login:
  assumes "current_user s sess = None"
  shows "create_post s sess m f now = respond s sess (Redirect To_login) [(Message, login_message)] \<and>
         edit_post s sess m f pid = respond s sess (Redirect To_login) [(Message, login_message)] \<and>
         delete_post s sess pid = respond s sess (Redirect To_login) [(Message, login_message)] \<and>
         logout s sess = respond s sess (Redirect To_login) [(Message, login_message)]"
  using assms by (simp add: create_post_def edit_post_def delete_post_def logout_def)

theorem protected_routes_require_login_witness:
  "current_user demo (Some 7) = None \<and>
   delete_post demo (Some 7) 1 = respond demo (Some 7) (Redirect To_login) [(Message, login_message)]"
proof -
  have h: "current_user demo (Some 7) = None"
    by (simp add: current_user_def load_user_def demo_defs)
  show ?thesis using protected_routes_require_login [OF h, of POST "[]" 0 1] h by simp
qed

text \<open>Deleting a row keeps the users, so the session still names the same user.\<close>

lemma current_user_delete_row [simp]: "current_user (delete_row s pid) sess = current_user s sess"
  by (simp add: current_user_def load_user_def delete_row_def split: option.splits)

text \<open>C29: Post ids are SQLite rowids, not reserved forever: in a blog whose posts have
  the ids \<open>1\<close> to \<open>n\<close> (as they have while no post was deleted), when the author of the
  newest post deletes it, the next post created, by any logged-in user, receives the
  deleted post's id \<open>n\<close>, so an old link \<open>/post/n\<close> now shows a different post.\<close>

theorem deleted_post_id_reused:
  assumes "map p_id (posts s) = [1..<Suc n]" and "0 < n"
    and "current_user s sess = Some u" and "post_get s n = Some p" and "user_id p = u_id u"
    and "current_user s sess' = Some u'"
    and "form_get f ''title'' = Some t" and "form_get f ''content'' = Some c"
  shows "let s1 = res_db (delete_post s sess n); s2 = res_db (create_post s1 sess' POST f now)
         in post_get s1 n = None \<and>
            (\<exists>q. posts s2 = posts s1 @ [q] \<and> post_get s2 n = Some q \<and> user_id q = u_id u' \<and>
                 title q = t \<and> content q = c)"
proof -
  let ?s1 = "delete_row s n"
  have del: "res_db (delete_post s sess n) = ?s1"
    using assms(3-5) by (simp add: delete_post_def login_required_def)
  have ids: "map p_id (posts ?s1) = [1..<n]"
  proof -
    have "map p_id (posts ?s1) = filter (\<lambda>i. i \<noteq> n) (map p_id (posts s))"
      by (simp add: delete_row_def filter_map comp_def)
    also have "\<dots> = filter (\<lambda>i. i \<noteq> n) [1..<Suc n]"
      using assms(1) by (simp only:)
    also have "\<dots> = [1..<n]"
      using assms(2) by (simp add: filter_id_conv)
    finally show ?thesis .
  qed
  then have none: "post_get ?s1 n = None"
    by (simp add: post_get_def find_None_iff) (metis atLeastLessThan_iff image_eqI less_irrefl set_map set_upt)
  let ?q = "\<lparr>p_id = n, title = t, content = c, date_posted = now,
             tags = Some (case form_get f ''tags'' of None \<Rightarrow> default_tags | Some x \<Rightarrow> x),
             thumbnail = Some (case form_get f ''thumbnail'' of None \<Rightarrow> default_thumbnail | Some x \<Rightarrow> x),
             user_id = u_id u'\<rparr>"
  have "res_db (create_post ?s1 sess' POST f now) = ?s1\<lparr>posts := posts ?s1 @ [?q]\<rparr>"
    using assms(2,6-8) ids next_rowid_upt [of n]
    by (simp add: create_post_def login_required_def add_post_def)
  moreover have "post_get (?s1\<lparr>posts := posts ?s1 @ [?q]\<rparr>) n = Some ?q"
    using none by (simp add: post_get_def find_append_None)
  ultimately show ?thesis using del none by (simp add: Let_def)
qed

theorem deleted_post_id_reused_witness:
  "post_get demo 2 = Some post_b \<and>
   (let s1 = res_db (delete_post demo (Some 2) 2);
        s2 = res_db (create_post s1 (Some 1) POST [(''title'', ''Risotto''), (''content'', ''Slow.'')] 30)
    in post_get s1 2 = None \<and> (\<exists>q. post_get s2 2 = Some q \<and> q \<noteq> post_b \<and> user_id q = 1))"
proof -
  have h: "map p_id (posts demo) = [1..<Suc 2]" "0 < (2::nat)"
    "current_user demo (Some 2) = Some bob" "post_get demo 2 = Some post_b"
    "user_id post_b = u_id bob" "current_user demo (Some 1) = Some alice"
    "form_get [(''title'', ''Risotto''), (''content'', ''Slow.'')] ''title'' = Some ''Risotto''"
    "form_get [(''title'', ''Risotto''), (''content'', ''Slow.'')] ''content'' = Some ''Slow.''"
    by (simp_all add: demo_defs current_user_def load_user_def post_get_def upt_rec)
  from deleted_post_id_reused [OF h, of 30] show ?thesis
    using h(4) by (auto simp: Let_def post_b_def alice_def)
qed

end
